theory Spec2Isabelle
  imports Complex_Main
begin

section \<open>JavaScript strings and the built-ins the code calls\<close>

text \<open>
  A JavaScript string is a sequence of UTF-16 code units; it is modelled as the list of
  those code units, each a natural number. \<open>asc\<close> writes an ASCII literal.
  The literals of the source that hold Chinese characters are written as their code
  units.
\<close>

type_synonym jsstring = "nat list"

definition asc :: "string \<Rightarrow> jsstring" where
  "asc s = map of_char s"

text \<open>
  \<open>String.prototype.trim\<close> removes ECMAScript white space and line terminators
  from both ends: TAB, VT, FF, SP, NBSP, ZWNBSP, the Unicode space separators, and
  LF, CR, LS, PS.
\<close>

definition is_js_space :: "nat \<Rightarrow> bool" where
  "is_js_space c = (c = 9 \<or> c = 10 \<or> c = 11 \<or> c = 12 \<or> c = 13 \<or> c = 32 \<or> c = 160
     \<or> c = 5760 \<or> (8192 \<le> c \<and> c \<le> 8202) \<or> c = 8232 \<or> c = 8233 \<or> c = 8239
     \<or> c = 8287 \<or> c = 12288 \<or> c = 65279)"

definition trim :: "jsstring \<Rightarrow> jsstring" where
  "trim s = rev (dropWhile is_js_space (rev (dropWhile is_js_space s)))"

text \<open>\<open>x?.trim()\<close> on a value that may be undefined.\<close>

definition trim_opt :: "jsstring option \<Rightarrow> jsstring option" where
  "trim_opt v = map_option trim v"

text \<open>Truthiness of a string that may be undefined: defined and not empty.\<close>

fun truthy :: "jsstring option \<Rightarrow> bool" where
  "truthy None = False"
| "truthy (Some s) = (s \<noteq> [])"

text \<open>\<open>s.split(c)\<close> for a separator of one code unit.\<close>

fun js_split :: "nat \<Rightarrow> jsstring \<Rightarrow> jsstring list" where
  "js_split c [] = [[]]"
| "js_split c (x # xs) =
     (if x = c then [] # js_split c xs
      else (case js_split c xs of [] \<Rightarrow> [[x]] | y # ys \<Rightarrow> (x # y) # ys))"

text \<open>\<open>parts.join(sep)\<close>.\<close>

fun js_join :: "jsstring \<Rightarrow> jsstring list \<Rightarrow> jsstring" where
  "js_join sep [] = []"
| "js_join sep [x] = x"
| "js_join sep (x # y # ys) = x @ sep @ js_join sep (y # ys)"

text \<open>\<open>s.startsWith(p)\<close> and \<open>s.includes(p)\<close>.\<close>

definition js_startsWith :: "jsstring \<Rightarrow> jsstring \<Rightarrow> bool" where
  "js_startsWith s p = (take (length p) s = p)"

fun js_includes :: "jsstring \<Rightarrow> jsstring \<Rightarrow> bool" where
  "js_includes [] p = (p = [])"
| "js_includes (x # xs) p = (js_startsWith (x # xs) p \<or> js_includes xs p)"

text \<open>A natural number in a template literal: its decimal digits.\<close>

fun decimal :: "nat \<Rightarrow> jsstring" where
  "decimal n = (if n < 10 then [48 + n] else decimal (n div 10) @ [48 + n mod 10])"

declare decimal.simps [simp del]

text \<open>
  A JavaScript number: a finite double (a rational), or one of NaN and the two
  infinities. The code only compares finite numbers, floors them and takes their
  minimum, all of which are exact on doubles.
\<close>

datatype jsnumber = Finite rat | NaN | PosInfinity | NegInfinity

section \<open>types.ts\<close>

datatype LlmRole = refiner | debater_a | debater_b | debater_c | summarizer

definition LLM_ROLES :: "LlmRole list" where
  "LLM_ROLES = [refiner, debater_a, debater_b, debater_c, summarizer]"

type_synonym RoleModelMap = "LlmRole \<Rightarrow> jsstring option"

datatype ChatRole = system | user | assistant

text \<open>
  Several interfaces of the source share field names (\<open>model\<close>, \<open>content\<close>,
  \<open>role\<close>); a record's fields here carry a prefix that names the interface.
\<close>

record ChatMessage =
  msg_role :: ChatRole
  msg_content :: jsstring

record ChatCompletionParams =
  req_model :: jsstring
  req_messages :: "ChatMessage list"
  req_temperature :: "jsnumber option"
  req_maxTokens :: "rat option"

record ModelUsage =
  promptTokens :: "jsnumber option"
  completionTokens :: "jsnumber option"
  totalTokens :: "jsnumber option"

text \<open>
  What a thrown value is on the server: an \<open>OpenRouterHttpError\<close> (status, response
  body, message) or another \<open>Error\<close> (message).
\<close>

datatype js_error =
  OpenRouterHttpError nat jsstring jsstring
| Error jsstring

section \<open>model-config.ts\<close>

text \<open>\<open>process.env\<close>: a map from variable names to their values.\<close>

type_synonym environment = "jsstring \<Rightarrow> jsstring option"

definition BASE_AVAILABLE_MODELS :: "jsstring list" where
  "BASE_AVAILABLE_MODELS =
     [asc ''openai/gpt-oss-120b:free'',
      asc ''qwen/qwen3-next-80b-a3b-instruct:free'',
      asc ''google/gemma-3-27b-it:free'',
      asc ''meta-llama/llama-3.3-70b-instruct:free'',
      asc ''deepseek/deepseek-r1-0528:free'',
      asc ''deepseek/deepseek-v3.2'']"

definition parseModelList :: "jsstring option \<Rightarrow> jsstring list" where
  "parseModelList raw =
     (case raw of
        None \<Rightarrow> []
      | Some r \<Rightarrow>
          if r = [] then []
          else filter (\<lambda>item. length item > 0) (map trim (js_split 44 r)))"

text \<open>
  \<open>Array.from(new Set(merged))\<close>: the elements in the order of their first
  occurrence. \<open>seen\<close> is the set built so far.
\<close>

fun set_insertion_order :: "jsstring list \<Rightarrow> jsstring list \<Rightarrow> jsstring list" where
  "set_insertion_order seen [] = []"
| "set_insertion_order seen (x # xs) =
     (if x \<in> set seen then set_insertion_order seen xs
      else x # set_insertion_order (x # seen) xs)"

definition getAvailableModels :: "environment \<Rightarrow> jsstring list" where
  "getAvailableModels env =
     (let customModels = parseModelList (trim_opt (env (asc ''OPENROUTER_MODELS'')));
          extraModels = parseModelList (trim_opt (env (asc ''OPENROUTER_EXTRA_MODELS'')));
          seed = (if length customModels > 0 then customModels else BASE_AVAILABLE_MODELS);
          merged = seed @ extraModels
      in set_insertion_order [] merged)"

fun DEFAULT_ROLE_MODEL_MAP :: "LlmRole \<Rightarrow> jsstring" where
  "DEFAULT_ROLE_MODEL_MAP refiner = asc ''qwen/qwen3-next-80b-a3b-instruct:free''"
| "DEFAULT_ROLE_MODEL_MAP debater_a = asc ''openai/gpt-oss-120b:free''"
| "DEFAULT_ROLE_MODEL_MAP debater_b = asc ''google/gemma-3-27b-it:free''"
| "DEFAULT_ROLE_MODEL_MAP debater_c = asc ''meta-llama/llama-3.3-70b-instruct:free''"
| "DEFAULT_ROLE_MODEL_MAP summarizer = asc ''deepseek/deepseek-v3.2''"

text \<open>
  The regular expression \<^verbatim>\<open>/^[a-z0-9._-]+\/[a-z0-9._:-]+$/i\<close>. Without the
  \<open>u\<close> flag, \<open>i\<close> makes \<open>[a-z]\<close> match the ASCII letters of both cases and
  no other code unit. The slash is in neither class, so the first class can only match
  the longest prefix of its characters.
\<close>

definition is_vendor_char :: "nat \<Rightarrow> bool" where
  "is_vendor_char c = ((97 \<le> c \<and> c \<le> 122) \<or> (65 \<le> c \<and> c \<le> 90) \<or> (48 \<le> c \<and> c \<le> 57)
     \<or> c = 46 \<or> c = 95 \<or> c = 45)"

definition is_name_char :: "nat \<Rightarrow> bool" where
  "is_name_char c = (is_vendor_char c \<or> c = 58)"

definition model_id_pattern :: "jsstring \<Rightarrow> bool" where
  "model_id_pattern s =
     (let vendor = takeWhile is_vendor_char s; rest = dropWhile is_vendor_char s
      in vendor \<noteq> [] \<and>
         (case rest of
            [] \<Rightarrow> False
          | c # name \<Rightarrow> c = 47 \<and> name \<noteq> [] \<and> list_all is_name_char name))"

definition isAllowedModel :: "environment \<Rightarrow> jsstring \<Rightarrow> bool" where
  "isAllowedModel env m =
     (let normalized = trim m
      in if length normalized = 0 then False
         else if normalized \<in> set (getAvailableModels env) then True
         else model_id_pattern normalized)"

definition supportsSystemPrompt :: "jsstring \<Rightarrow> bool" where
  "supportsSystemPrompt m = (let normalized = trim m in \<not> js_startsWith normalized (asc ''google/gemma''))"

definition no_models_message :: jsstring where
  "no_models_message = asc ''No available models configured. Please set OPENROUTER_MODELS in .env.local.''"

text \<open>
  \<open>resolveModelForRole(role, roleModelMap?)\<close>. \<open>getAvailableModels()[0]\<close> is
  undefined on an empty list; the final \<open>throw\<close> is the result \<open>Inl\<close>.
\<close>

definition resolveModelForRole ::
  "environment \<Rightarrow> LlmRole \<Rightarrow> RoleModelMap option \<Rightarrow> js_error + jsstring" where
  "resolveModelForRole env r roleModelMap =
     (let fromRequest = (case roleModelMap of None \<Rightarrow> None | Some mp \<Rightarrow> trim_opt (mp r))
      in if truthy fromRequest \<and> isAllowedModel env (the fromRequest) then Inr (the fromRequest)
         else
           let fromDefaults = DEFAULT_ROLE_MODEL_MAP r
           in if isAllowedModel env fromDefaults then Inr fromDefaults
              else
                let firstAvailableModel =
                      (case getAvailableModels env of [] \<Rightarrow> None | x # _ \<Rightarrow> Some x)
                in if truthy firstAvailableModel then Inr (the firstAvailableModel)
                   else Inl (Error no_models_message))"

section \<open>providers/openrouter.ts\<close>

text \<open>
  The constructor of \<open>OpenRouterHttpError\<close>: without a message it builds one from
  the status and the first 400 code units of the body.
\<close>

definition newOpenRouterHttpError :: "nat \<Rightarrow> jsstring \<Rightarrow> jsstring option \<Rightarrow> js_error" where
  "newOpenRouterHttpError status responseBody msg =
     OpenRouterHttpError status responseBody
       (case msg of
          Some m \<Rightarrow> m
        | None \<Rightarrow> asc ''OpenRouter request failed ('' @ decimal status @ asc ''): '' @ take 400 responseBody)"

record OpenRouterChunk =
  chunk_type :: "jsstring option"
  chunk_text :: "jsstring option"

datatype OpenRouterContent =
  ContentString jsstring
| ContentChunks "OpenRouterChunk list"
| ContentUndefined

record OpenRouterUsage =
  prompt_tokens :: "jsnumber option"
  completion_tokens :: "jsnumber option"
  total_tokens :: "jsnumber option"

text \<open>
  The body of a successful reply, as the code reads it: \<open>or_first_content\<close> is
  \<open>data.choices?.[0]?.message?.content\<close>, undefined when any link of the chain is.
\<close>

record OpenRouterResponse =
  or_model :: "jsstring option"
  or_first_content :: OpenRouterContent
  or_usage :: "OpenRouterUsage option"

record ModelResponse =
  res_content :: jsstring
  res_model :: jsstring
  res_usage :: "ModelUsage option"
  res_raw :: OpenRouterResponse

definition toUsage :: "OpenRouterUsage option \<Rightarrow> ModelUsage option" where
  "toUsage raw =
     (case raw of
        None \<Rightarrow> None
      | Some u \<Rightarrow>
          Some \<lparr>promptTokens = prompt_tokens u,
                completionTokens = completion_tokens u,
                totalTokens = total_tokens u\<rparr>)"

definition normalizeContent :: "OpenRouterContent \<Rightarrow> jsstring" where
  "normalizeContent c =
     (case c of
        ContentString s \<Rightarrow> s
      | ContentUndefined \<Rightarrow> []
      | ContentChunks chunks \<Rightarrow>
          js_join [10]
            (filter (\<lambda>item. length item > 0)
               (map (\<lambda>chunk. case chunk_text chunk of None \<Rightarrow> [] | Some t \<Rightarrow> t) chunks)))"

definition missing_env_message :: "jsstring \<Rightarrow> jsstring" where
  "missing_env_message k = asc ''Missing required environment variable: '' @ k"

definition mustGetEnv :: "environment \<Rightarrow> jsstring \<Rightarrow> js_error + jsstring" where
  "mustGetEnv env k =
     (case env k of
        None \<Rightarrow> Inl (Error (missing_env_message k))
      | Some v \<Rightarrow>
          if v = [] \<or> length (trim v) = 0 then Inl (Error (missing_env_message k))
          else Inr (trim v))"

text \<open>
  \<^verbatim>\<open>/^Bearer\s+/i\<close>: the six letters in either case, then one or more white-space
  code units; \<open>replace\<close> removes all of the match.
\<close>

definition ascii_toLowerCase :: "jsstring \<Rightarrow> jsstring" where
  "ascii_toLowerCase s = map (\<lambda>c. if 65 \<le> c \<and> c \<le> 90 then c + 32 else c) s"

definition ascii_toUpperCase :: "jsstring \<Rightarrow> jsstring" where
  "ascii_toUpperCase s = map (\<lambda>c. if 97 \<le> c \<and> c \<le> 122 then c - 32 else c) s"

definition bearer_prefix :: "jsstring \<Rightarrow> bool" where
  "bearer_prefix k =
     (ascii_toLowerCase (take 6 k) = asc ''bearer'' \<and>
      (case drop 6 k of [] \<Rightarrow> False | c # _ \<Rightarrow> is_js_space c))"

definition normalizeApiKey :: "jsstring \<Rightarrow> jsstring" where
  "normalizeApiKey raw =
     (let key0 = trim raw;
          key1 = (if bearer_prefix key0 then dropWhile is_js_space (drop 6 key0) else key0)
      in if js_startsWith key1 (asc ''Sk-or-v1-'') then asc ''s'' @ drop 1 key1 else key1)"

record OpenRouterProvider =
  apiKey :: jsstring
  baseUrl :: jsstring
  referer :: "jsstring option"
  appTitle :: "jsstring option"

definition defaultBaseUrl :: jsstring where
  "defaultBaseUrl = asc ''https://openrouter.ai/api/v1''"

definition api_key_url_message :: jsstring where
  "api_key_url_message =
     asc ''OPENROUTER_API_KEY looks like a URL. Please set it to an API key (starts with sk-or-v1-).''"

definition newOpenRouterProvider :: "environment \<Rightarrow> js_error + OpenRouterProvider" where
  "newOpenRouterProvider env =
     (case mustGetEnv env (asc ''OPENROUTER_API_KEY'') of
        Inl e \<Rightarrow> Inl e
      | Inr k \<Rightarrow>
          let key = normalizeApiKey k;
              url = trim_opt (env (asc ''OPENROUTER_BASE_URL''))
          in if js_startsWith key (asc ''http'') then Inl (Error api_key_url_message)
             else Inr \<lparr>apiKey = key,
                       baseUrl = (if truthy url then the url else defaultBaseUrl),
                       referer = trim_opt (env (asc ''OPENROUTER_HTTP_REFERER'')),
                       appTitle = trim_opt (env (asc ''OPENROUTER_X_TITLE''))\<rparr>)"

text \<open>
  What the HTTP request of \<open>chatCompletion\<close> comes back with: \<open>fetch\<close> or the
  reading of the body rejects with an \<open>Error\<close>; or a reply that is not ok, with its
  status and body text; or an ok reply with its JSON body. The remote service is a
  parameter: a function of the provider (which fixes the URL and the headers) and of
  the request body.
\<close>

datatype http_result =
  FetchFailed jsstring
| HttpNotOk nat jsstring
| HttpOk OpenRouterResponse

type_synonym remote = "OpenRouterProvider \<Rightarrow> ChatCompletionParams \<Rightarrow> http_result"

definition chatCompletion ::
  "remote \<Rightarrow> OpenRouterProvider \<Rightarrow> ChatCompletionParams \<Rightarrow> js_error + ModelResponse" where
  "chatCompletion upstream prov params =
     (case upstream prov params of
        FetchFailed msg \<Rightarrow> Inl (Error msg)
      | HttpNotOk status errorBody \<Rightarrow> Inl (newOpenRouterHttpError status errorBody None)
      | HttpOk d \<Rightarrow>
          Inr \<lparr>res_content = normalizeContent (or_first_content d),
                res_model = (case or_model d of Some m \<Rightarrow> m | None \<Rightarrow> req_model params),
                res_usage = toUsage (or_usage d),
                res_raw = d\<rparr>)"

section \<open>service.ts\<close>

text \<open>
  What the service reads from its process: the environment, the built-in
  \<open>Number.parseInt(s, 10)\<close>, the provider the module holds from an earlier call
  (\<open>None\<close> before the first), the remote service, and the table of the five default
  system prompts (long fixed texts that no property here depends on).
\<close>

record server =
  process_env :: environment
  Number_parseInt :: "jsstring \<Rightarrow> jsnumber"
  provider_cache :: "OpenRouterProvider option"
  remote_service :: remote
  defaultSystemPrompts :: "LlmRole \<Rightarrow> jsstring"

definition getProvider :: "server \<Rightarrow> js_error + OpenRouterProvider" where
  "getProvider srv =
     (case provider_cache srv of
        Some p \<Rightarrow> Inr p
      | None \<Rightarrow> newOpenRouterProvider (process_env srv))"

definition getFallbackModels :: "environment \<Rightarrow> jsstring \<Rightarrow> jsstring list" where
  "getFallbackModels env primaryModel = filter (\<lambda>m. m \<noteq> primaryModel) (getAvailableModels env)"

fun defaultRoleMaxTokens :: "LlmRole \<Rightarrow> rat" where
  "defaultRoleMaxTokens refiner = 500"
| "defaultRoleMaxTokens debater_a = 800"
| "defaultRoleMaxTokens debater_b = 800"
| "defaultRoleMaxTokens debater_c = 800"
| "defaultRoleMaxTokens summarizer = 900"

definition parsePositiveInt :: "(jsstring \<Rightarrow> jsnumber) \<Rightarrow> jsstring option \<Rightarrow> rat option" where
  "parsePositiveInt parseInt raw =
     (case raw of
        None \<Rightarrow> None
      | Some r \<Rightarrow>
          if r = [] then None
          else (case parseInt (trim r) of
                  Finite v \<Rightarrow> if v \<le> 0 then None else Some v
                | _ \<Rightarrow> None))"

fun role_name :: "LlmRole \<Rightarrow> jsstring" where
  "role_name refiner = asc ''refiner''"
| "role_name debater_a = asc ''debater_a''"
| "role_name debater_b = asc ''debater_b''"
| "role_name debater_c = asc ''debater_c''"
| "role_name summarizer = asc ''summarizer''"

text \<open>\<open>a ?? b\<close>: \<open>a\<close> unless it is undefined.\<close>

fun nullish :: "'a option \<Rightarrow> 'a \<Rightarrow> 'a" where
  "nullish None d = d"
| "nullish (Some v) d = v"

definition resolveMaxTokens :: "server \<Rightarrow> LlmRole \<Rightarrow> jsnumber option \<Rightarrow> rat" where
  "resolveMaxTokens srv r override =
     (let hardCap =
            nullish (parsePositiveInt (Number_parseInt srv)
                       (process_env srv (asc ''OPENROUTER_MAX_TOKENS_CAP''))) 4096;
          perRoleEnvKey = asc ''OPENROUTER_MAX_TOKENS_'' @ ascii_toUpperCase (role_name r);
          fromEnv = parsePositiveInt (Number_parseInt srv) (process_env srv perRoleEnvKey);
          fromOverride =
            (case override of
               Some (Finite v) \<Rightarrow> if v > 0 then Some (of_int \<lfloor>v\<rfloor>) else None
             | _ \<Rightarrow> None);
          baseValue = nullish fromOverride (nullish fromEnv (defaultRoleMaxTokens r))
      in min baseValue hardCap)"

definition buildMessagesForModel :: "jsstring \<Rightarrow> jsstring \<Rightarrow> jsstring \<Rightarrow> ChatMessage list" where
  "buildMessagesForModel m systemPrompt userPrompt =
     (if supportsSystemPrompt m then
        [\<lparr>msg_role = system, msg_content = systemPrompt\<rparr>,
         \<lparr>msg_role = user, msg_content = userPrompt\<rparr>]
      else
        [\<lparr>msg_role = user,
          msg_content = asc ''System instruction:'' @ [10] @ systemPrompt @ [10, 10]
            @ asc ''User prompt:'' @ [10] @ userPrompt\<rparr>])"

record RunRoleInput =
  in_role :: LlmRole
  in_userPrompt :: jsstring
  in_model :: "jsstring option"
  in_roleModelMap :: "RoleModelMap option"
  in_allowFallback :: "bool option"
  in_systemPrompt :: "jsstring option"
  in_temperature :: "jsnumber option"
  in_maxTokens :: "jsnumber option"

text \<open>
  What one run of \<open>runRole\<close> does, besides its result: the requests it sends and the
  delays it waits, in order; and the value of its local list \<open>attemptedModels\<close>
  when it leaves (\<open>None\<close> when it leaves before the list exists).
\<close>

datatype service_event = Call ChatCompletionParams | Sleep nat

record role_run =
  outcome :: "js_error + ModelResponse"
  events :: "service_event list"
  attemptedModels :: "jsstring list option"

definition is_rate_limit :: "js_error \<Rightarrow> bool" where
  "is_rate_limit e = (case e of OpenRouterHttpError status _ _ \<Rightarrow> status = 429 | Error _ \<Rightarrow> False)"

definition responseBody :: "js_error \<Rightarrow> jsstring" where
  "responseBody e = (case e of OpenRouterHttpError _ b _ \<Rightarrow> b | Error _ \<Rightarrow> [])"

definition rate_limited_message :: "jsstring list \<Rightarrow> jsstring" where
  "rate_limited_message attempted =
     asc ''OpenRouter free models are currently rate-limited. Tried: ''
     @ js_join (asc '', '') attempted
     @ asc ''. Please retry shortly or use BYOK (your own provider key).''"

text \<open>
  The \<open>for\<close> loop of the \<open>catch\<close> block over the fallback models still to try.
  \<open>mk\<close> builds the request for a model; \<open>err\<close> is the error of the primary
  attempt.
\<close>

fun fallback_loop ::
  "remote \<Rightarrow> OpenRouterProvider \<Rightarrow> (jsstring \<Rightarrow> ChatCompletionParams) \<Rightarrow> js_error
     \<Rightarrow> jsstring list \<Rightarrow> jsstring list \<Rightarrow> service_event list \<Rightarrow> role_run" where
  "fallback_loop upstream prov mk err [] attempted evs =
     \<lparr>outcome = Inl (newOpenRouterHttpError 429 (responseBody err) (Some (rate_limited_message attempted))),
      events = evs,
      attemptedModels = Some attempted\<rparr>"
| "fallback_loop upstream prov mk err (fallbackModel # rest) attempted evs =
     (let attempted' = attempted @ [fallbackModel];
          evs' = evs @ [Sleep 200, Call (mk fallbackModel)]
      in case chatCompletion upstream prov (mk fallbackModel) of
           Inr response \<Rightarrow> \<lparr>outcome = Inr response, events = evs', attemptedModels = Some attempted'\<rparr>
         | Inl fallbackError \<Rightarrow>
             if \<not> is_rate_limit fallbackError
             then \<lparr>outcome = Inl fallbackError, events = evs', attemptedModels = Some attempted'\<rparr>
             else fallback_loop upstream prov mk err rest attempted' evs')"

text \<open>The first three constants of \<open>runRole\<close>.\<close>

definition explicitModel :: "RunRoleInput \<Rightarrow> jsstring option" where
  "explicitModel input = trim_opt (in_model input)"

definition resolved_model :: "server \<Rightarrow> RunRoleInput \<Rightarrow> js_error + jsstring" where
  "resolved_model srv input =
     (if truthy (explicitModel input) then Inr (the (explicitModel input))
      else resolveModelForRole (process_env srv) (in_role input) (in_roleModelMap input))"

definition allowFallback :: "RunRoleInput \<Rightarrow> bool" where
  "allowFallback input = nullish (in_allowFallback input) (\<not> truthy (explicitModel input))"

text \<open>
  The request \<open>runRole\<close> sends for a model: the messages built for that model, and
  the \<open>requestPayload\<close>.
\<close>

definition request_for :: "server \<Rightarrow> RunRoleInput \<Rightarrow> jsstring \<Rightarrow> ChatCompletionParams" where
  "request_for srv input md =
     (let systemPrompt = nullish (in_systemPrompt input) (defaultSystemPrompts srv (in_role input))
      in \<lparr>req_model = md,
          req_messages = buildMessagesForModel md systemPrompt (in_userPrompt input),
          req_temperature = in_temperature input,
          req_maxTokens = Some (resolveMaxTokens srv (in_role input) (in_maxTokens input))\<rparr>)"

definition runRole :: "server \<Rightarrow> RunRoleInput \<Rightarrow> role_run" where
  "runRole srv input =
     (case resolved_model srv input of
        Inl e \<Rightarrow> \<lparr>outcome = Inl e, events = [], attemptedModels = None\<rparr>
      | Inr m \<Rightarrow>
          (case getProvider srv of
             Inl e \<Rightarrow> \<lparr>outcome = Inl e, events = [], attemptedModels = None\<rparr>
           | Inr prov \<Rightarrow>
               (case chatCompletion (remote_service srv) prov (request_for srv input m) of
                  Inr response \<Rightarrow>
                    \<lparr>outcome = Inr response, events = [Call (request_for srv input m)],
                     attemptedModels = None\<rparr>
                | Inl e \<Rightarrow>
                    if \<not> is_rate_limit e \<or> \<not> allowFallback input
                    then \<lparr>outcome = Inl e, events = [Call (request_for srv input m)],
                          attemptedModels = None\<rparr>
                    else fallback_loop (remote_service srv) prov (request_for srv input) e
                           (getFallbackModels (process_env srv) m) [m]
                           [Call (request_for srv input m)])))"

text \<open>
  Three readings of a run. \<open>retries mk ms\<close> is the trace of retrying the models
  \<open>ms\<close> one after the other: before each request, a delay of 200 milliseconds.
  \<open>rate_limited\<close> says that a request fails with an \<open>OpenRouterHttpError\<close> of
  status 429, the test of the two \<open>catch\<close> blocks. \<open>called_models\<close> are the models
  of the requests of a trace, in order.
\<close>

definition retries :: "(jsstring \<Rightarrow> ChatCompletionParams) \<Rightarrow> jsstring list \<Rightarrow> service_event list" where
  "retries mk ms = concat (map (\<lambda>x. [Sleep 200, Call (mk x)]) ms)"

definition rate_limited :: "remote \<Rightarrow> OpenRouterProvider \<Rightarrow> ChatCompletionParams \<Rightarrow> bool" where
  "rate_limited upstream prov p =
     (case chatCompletion upstream prov p of Inl e \<Rightarrow> is_rate_limit e | Inr _ \<Rightarrow> False)"

definition called_models :: "service_event list \<Rightarrow> jsstring list" where
  "called_models evs = concat (map (\<lambda>e. case e of Call p \<Rightarrow> [req_model p] | Sleep _ \<Rightarrow> []) evs)"

text \<open>
  The precedence of model resolution in the words of the specification (section 4.1):
  the explicit model if present and allowed, else the role's entry of the map if
  present and allowed, else the static default if allowed, else the first entry of
  the pool, else a configuration error. It is compared with \<open>resolved_model\<close>
  below.
\<close>

definition claimed_resolution ::
  "environment \<Rightarrow> jsstring option \<Rightarrow> RoleModelMap option \<Rightarrow> LlmRole \<Rightarrow> js_error + jsstring" where
  "claimed_resolution env explicit roleModelMap r =
     (let requested = trim_opt explicit;
          entry = (case roleModelMap of None \<Rightarrow> None | Some mp \<Rightarrow> trim_opt (mp r))
      in if truthy requested \<and> isAllowedModel env (the requested) then Inr (the requested)
         else if truthy entry \<and> isAllowedModel env (the entry) then Inr (the entry)
         else if isAllowedModel env (DEFAULT_ROLE_MODEL_MAP r) then Inr (DEFAULT_ROLE_MODEL_MAP r)
         else (case getAvailableModels env of
                 x # _ \<Rightarrow> Inr x
               | [] \<Rightarrow> Inl (Error no_models_message)))"

section \<open>app/debate/page.tsx: texts\<close>

text \<open>
  The string literals of the page that hold Chinese characters, as UTF-16 code units
  (10 is the line feed). Each is named after the place it is used in.
\<close>

definition speaker_zh_suffix :: jsstring where
  "speaker_zh_suffix =
     [21495, 36777, 25163]"

definition label_zh_prefix :: jsstring where
  "label_zh_prefix =
     [27169, 22411]"

definition lit_new_view :: jsstring where
  "lit_new_view =
     [45, 32, 26032, 35270, 35282]"

definition lit_rebuttal :: jsstring where
  "lit_rebuttal =
     [45, 32, 21453, 39539]"

definition lit_round_one :: jsstring where
  "lit_round_one =
     [31532, 19968, 36718, 32]"

definition lit_round_open :: jsstring where
  "lit_round_open =
     [31532]"

definition lit_round_close :: jsstring where
  "lit_round_close =
     [36718, 32]"

definition lit_request_failed_zh :: jsstring where
  "lit_request_failed_zh =
     [35843, 29992, 22833, 36133]"

definition lit_overflow_hint_zh :: jsstring where
  "lit_overflow_hint_zh =
     [19978, 19979, 25991, 36807, 38271, 65292, 35831, 20943, 23569, 36718, 27425, 25110,
      32553, 30701, 36755, 20837, 21518, 37325, 35797, 12290, 10, 10, 21407, 22987, 38169,
      35823, 65306]"

definition lit_overflow_hint_en :: jsstring where
  "lit_overflow_hint_en =
     [67, 111, 110, 116, 101, 120, 116, 32, 105, 115, 32, 116, 111, 111, 32, 108, 111, 110,
      103, 46, 32, 82, 101, 100, 117, 99, 101, 32, 114, 111, 117, 110, 100, 115, 32, 111,
      114, 32, 115, 104, 111, 114, 116, 101, 110, 32, 105, 110, 112, 117, 116, 44, 32, 116,
      104, 101, 110, 32, 114, 101, 116, 114, 121, 46, 10, 10, 79, 114, 105, 103, 105, 110,
      97, 108, 32, 101, 114, 114, 111, 114, 58, 32]"

definition lit_addendum_head :: jsstring where
  "lit_addendum_head =
     [20197, 19979, 26159, 31532, 19968, 36718, 21518, 29992, 25143, 34917, 20805, 20449,
      24687, 65288, 29420, 31435, 36755, 20837, 65289, 65306, 10, 91, 85, 115, 101, 114, 32,
      65, 100, 100, 101, 110, 100, 117, 109, 32, 65, 102, 116, 101, 114, 32, 82, 111, 117,
      110, 100, 32, 49, 32, 47, 32, 31532, 19968, 36718, 21518, 29992, 25143, 34917, 20805,
      20449, 24687, 93, 10]"

definition lit_context_head :: jsstring where
  "lit_context_head =
     [20197, 19979, 26159, 20320, 21487, 29992, 30340, 21069, 24207, 26377, 25928, 35266,
      28857, 65306, 10]"

definition lit_now_round :: jsstring where
  "lit_now_round =
     [10, 10, 24403, 21069, 26159, 31532]"

definition lit_plain_tail :: jsstring where
  "lit_plain_tail =
     [36718, 35752, 35770, 65292, 35831, 20445, 25345, 36755, 20986, 31616, 30701, 26131,
      25026, 12290, 35821, 35328, 35201, 27714, 65306, 26681, 25454, 29992, 25143, 36755,
      20837, 19982, 32842, 22825, 35760, 24405, 30340, 20027, 35201, 35821, 35328, 20316,
      31572, 65292, 29992, 25143, 29992, 33521, 25991, 21017, 36755, 20986, 33521, 25991,
      65292, 29992, 25143, 29992, 20013, 25991, 21017, 36755, 20986, 20013, 25991, 12290]"

definition lit_chained_mid :: jsstring where
  "lit_chained_mid =
     [36718, 35752, 35770, 12290, 10]"

definition lit_chained_tail :: jsstring where
  "lit_chained_tail =
     [10, 10, 35831, 22522, 20110, 20197, 19978, 20869, 23481, 25552, 20986, 20320, 30340,
      26032, 35270, 35282, 19982, 21453, 39539, 65292, 20445, 25345, 26082, 23450, 32, 74,
      83, 79, 78, 32, 32467, 26500, 24182, 19988, 19981, 35201, 36755, 20986, 39069, 22806,
      25991, 26412, 12290]"

definition lit_no_output :: jsstring where
  "lit_no_output =
     [26080, 36755, 20986]"

definition lit_call_failed :: jsstring where
  "lit_call_failed =
     [58, 32, 35843, 29992, 22833, 36133, 32, 45, 62, 32]"

definition lit_no_contents :: jsstring where
  "lit_no_contents =
     [58, 32, 26080, 26377, 25928, 32, 99, 111, 110, 116, 101, 110, 116, 115]"

definition lit_round1_results :: jsstring where
  "lit_round1_results =
     [31532, 19968, 36718, 35752, 35770, 32467, 26524]"

definition lit_round2_results :: jsstring where
  "lit_round2_results =
     [31532, 20108, 36718, 35752, 35770, 32467, 26524]"

definition lit_summary_addendum_head :: jsstring where
  "lit_summary_addendum_head =
     [31532, 19968, 36718, 21518, 29992, 25143, 34917, 20805, 20449, 24687, 32, 47, 32, 85,
      115, 101, 114, 32, 65, 100, 100, 101, 110, 100, 117, 109, 32, 65, 102, 116, 101, 114,
      32, 82, 111, 117, 110, 100, 32, 49, 58, 10]"

definition lit_summary_question :: jsstring where
  "lit_summary_question =
     [29992, 25143, 27491, 24335, 38382, 39064, 65306, 10]"

definition lit_summary_request :: jsstring where
  "lit_summary_request =
     [35831, 26681, 25454, 20197, 19979, 36777, 35770, 32467, 26524, 29983, 25104, 24635,
      32467, 65288, 31616, 30701, 12289, 28165, 26224, 12289, 21487, 25191, 34892, 65289,
      65306, 10]"

definition lit_summary_rules :: jsstring where
  "lit_summary_rules =
     [10, 10, 36755, 20986, 35201, 27714, 65306, 10, 49, 41, 32, 20005, 26684, 36755, 20986,
      32, 74, 83, 79, 78, 65292, 36981, 24490, 20320, 26082, 23450, 30340, 36755, 20986, 32,
      115, 99, 104, 101, 109, 97, 65288, 110, 101, 119, 95, 112, 101, 114, 115, 112, 101,
      99, 116, 105, 118, 101, 115, 47, 99, 111, 117, 110, 116, 101, 114, 112, 111, 105, 110,
      116, 115, 65289, 12290, 10, 50, 41, 32, 20808, 32473, 26368, 32456, 24314, 35758,
      65292, 20877, 32473, 25512, 33616, 20570, 27861, 19982, 19981, 25512, 33616, 20570,
      27861, 12290, 10, 51, 41, 32, 25512, 33616, 20570, 27861, 21487, 20026, 32, 49, 32,
      26465, 25110, 22810, 26465, 65292, 19981, 24378, 21046, 32, 51, 45, 53, 32, 26465,
      12290, 10, 52, 41, 32, 35821, 35328, 35201, 27714, 65306, 26681, 25454, 29992, 25143,
      36755, 20837, 19982, 32842, 22825, 35760, 24405, 30340, 20027, 35201, 35821, 35328,
      36755, 20986, 65292, 29992, 25143, 29992, 33521, 25991, 21017, 36755, 20986, 33521,
      25991, 65292, 29992, 25143, 29992, 20013, 25991, 21017, 36755, 20986, 20013, 25991,
      12290]"

definition lit_round1_missing_zh :: jsstring where
  "lit_round1_missing_zh =
     [35831, 20808, 23436, 25104, 31532, 19968, 36718, 35752, 35770, 12290]"

definition lit_prompt_missing_zh :: jsstring where
  "lit_prompt_missing_zh =
     [35831, 20808, 22312, 27493, 39588, 50, 36755, 20837, 20320, 30340, 27491, 24335, 32,
      80, 114, 111, 109, 112, 116, 12290]"

definition lit_summary_round1_missing_zh :: jsstring where
  "lit_summary_round1_missing_zh =
     [35831, 20808, 23436, 25104, 31532, 19968, 36718, 35752, 35770, 65292, 20877, 29983,
      25104, 24635, 32467, 12290]"

definition lit_summary_round2_missing_zh :: jsstring where
  "lit_summary_round2_missing_zh =
     [31532, 20108, 36718, 23578, 26410, 23436, 25104, 65292, 26080, 27861, 22522, 20110,
      20004, 36718, 29983, 25104, 24635, 32467, 12290]"

definition lit_summarizer_missing_zh :: jsstring where
  "lit_summarizer_missing_zh =
     [35831, 20808, 36873, 25321, 24635, 32467, 27169, 22411, 12290]"

definition lit_summary_prompt_missing_zh :: jsstring where
  "lit_summary_prompt_missing_zh =
     [32570, 23569, 27491, 24335, 32, 80, 114, 111, 109, 112, 116, 65292, 26080, 27861,
      29983, 25104, 24635, 32467, 12290]"

definition lit_summary_failed_zh :: jsstring where
  "lit_summary_failed_zh =
     [24635, 32467, 29983, 25104, 22833, 36133, 65292, 35831, 31245, 21518, 37325, 35797,
      12290]"

definition lit_select_model_zh_head :: jsstring where
  "lit_select_model_zh_head =
     [35831, 20808, 20026]"

definition lit_select_model_zh_tail :: jsstring where
  "lit_select_model_zh_tail =
     [36873, 25321, 27169, 22411, 12290]"

section \<open>app/debate/page.tsx: parsing and prompts\<close>

text \<open>
  \<open>DebaterRole\<close> is the subtype of \<open>LlmRole\<close> with the three debaters;
  \<open>llm_role\<close> is the inclusion.
\<close>

datatype DebaterRole = deb_a | deb_b | deb_c

fun llm_role :: "DebaterRole \<Rightarrow> LlmRole" where
  "llm_role deb_a = debater_a"
| "llm_role deb_b = debater_b"
| "llm_role deb_c = debater_c"

datatype DebateRound = Round1 | Round2

fun round_number :: "DebateRound \<Rightarrow> nat" where
  "round_number Round1 = 1"
| "round_number Round2 = 2"

datatype SummaryMode = mode_hidden | mode_round1 | mode_round2

datatype UiLang = zh | en

definition DEBATER_ROLES :: "DebaterRole list" where
  "DEBATER_ROLES = [deb_a, deb_b, deb_c]"

text \<open>\<open>DEBATER_ROLES.indexOf(role)\<close>.\<close>

fun role_index :: "DebaterRole \<Rightarrow> nat" where
  "role_index deb_a = 0"
| "role_index deb_b = 1"
| "role_index deb_c = 2"

text \<open>
  The label tables differ between the roles only in a digit: 1, 2, 3.
\<close>

fun role_digit :: "DebaterRole \<Rightarrow> nat" where
  "role_digit deb_a = 49"
| "role_digit deb_b = 50"
| "role_digit deb_c = 51"

definition INTERNAL_ROLE_LABELS :: "DebaterRole \<Rightarrow> jsstring" where
  "INTERNAL_ROLE_LABELS r = label_zh_prefix @ [role_digit r]"

fun ROLE_LABELS_BY_LANG :: "UiLang \<Rightarrow> DebaterRole \<Rightarrow> jsstring" where
  "ROLE_LABELS_BY_LANG zh r = label_zh_prefix @ [role_digit r]"
| "ROLE_LABELS_BY_LANG en r = asc ''Model '' @ [role_digit r]"

fun ROLE_SPEAKERS_BY_LANG :: "UiLang \<Rightarrow> DebaterRole \<Rightarrow> jsstring" where
  "ROLE_SPEAKERS_BY_LANG zh r = role_digit r # speaker_zh_suffix"
| "ROLE_SPEAKERS_BY_LANG en r = asc ''Debater '' @ [role_digit r]"

text \<open>\<open>tr(zhText, enText)\<close> of the component.\<close>

fun tr :: "UiLang \<Rightarrow> jsstring \<Rightarrow> jsstring \<Rightarrow> jsstring" where
  "tr zh zhText enText = zhText"
| "tr en zhText enText = enText"

record DebaterParsedOutput =
  speaker :: jsstring
  newPerspectives :: "jsstring list"
  counterpoints :: "jsstring list"

record DebaterResult =
  dr_model :: jsstring
  dr_rawContent :: jsstring
  dr_parsed :: "DebaterParsedOutput option"
  dr_error :: "jsstring option"

type_synonym RoundResults = "DebaterRole \<Rightarrow> DebaterResult option"

text \<open>
  A JSON value as \<open>JSON.parse\<close> returns it; an object is the list of its properties,
  looked up by name.
  \<open>JSON.parse\<close> itself is a parameter of the functions that call it: a function
  from the text to the value, \<open>None\<close> where it throws.
\<close>

datatype json =
  JNull
| JBool bool
| JNumber jsnumber
| JString jsstring
| JArray "json list"
| JObject "(jsstring \<times> json) list"

type_synonym json_parser = "jsstring \<Rightarrow> json option"

text \<open>
  \<open>parsed && typeof parsed === "object" && !Array.isArray(parsed)\<close>, on the outcome of a
  \<open>JSON.parse\<close> that may have thrown: the properties of the object, if it is one.
\<close>

fun plain_object :: "json option \<Rightarrow> (jsstring \<times> json) list option" where
  "plain_object (Some (JObject props)) = Some props"
| "plain_object _ = None"

text \<open>\<open>s.indexOf(c)\<close> and \<open>s.lastIndexOf(c)\<close>: an index, or -1.\<close>

fun js_indexOf :: "nat \<Rightarrow> jsstring \<Rightarrow> int" where
  "js_indexOf c [] = - 1"
| "js_indexOf c (x # xs) =
     (if x = c then 0 else (let i = js_indexOf c xs in if i < 0 then - 1 else i + 1))"

definition js_lastIndexOf :: "nat \<Rightarrow> jsstring \<Rightarrow> int" where
  "js_lastIndexOf c s =
     (let i = js_indexOf c (rev s) in if i < 0 then - 1 else int (length s) - 1 - i)"

text \<open>\<open>s.slice(a, b)\<close> for indices that are not negative.\<close>

definition js_slice :: "jsstring \<Rightarrow> int \<Rightarrow> int \<Rightarrow> jsstring" where
  "js_slice s a b = take (nat (b - a)) (drop (nat a) s)"

definition parseJsonObject :: "json_parser \<Rightarrow> jsstring \<Rightarrow> (jsstring \<times> json) list option" where
  "parseJsonObject JSON_parse raw =
     (let trimmed = trim raw
      in if trimmed = [] then None
         else
           case plain_object (JSON_parse trimmed) of
             Some props \<Rightarrow> Some props
           | None \<Rightarrow>
               let firstBrace = js_indexOf 123 trimmed;
                   lastBrace = js_lastIndexOf 125 trimmed
               in if firstBrace \<ge> 0 \<and> lastBrace > firstBrace then
                    (case JSON_parse (js_slice trimmed firstBrace (lastBrace + 1)) of
                       None \<Rightarrow> None
                     | Some v \<Rightarrow>
                         (case plain_object (Some v) of Some props \<Rightarrow> Some props | None \<Rightarrow> None))
                  else None)"

text \<open>
  The callback of \<open>map\<close> in \<open>readContentsArray\<close>. An array passes the test
  \<open>item && typeof item === "object"\<close> too, but has no property \<open>contents\<close>.
\<close>

fun contents_or_empty :: "json \<Rightarrow> jsstring" where
  "contents_or_empty (JObject props) =
     (case map_of props (asc ''contents'') of Some (JString s) \<Rightarrow> trim s | _ \<Rightarrow> [])"
| "contents_or_empty _ = []"

definition readContentsArray :: "json option \<Rightarrow> jsstring list" where
  "readContentsArray v =
     (case v of
        Some (JArray items) \<Rightarrow> filter (\<lambda>item. length item > 0) (map contents_or_empty items)
      | _ \<Rightarrow> [])"

definition parseDebaterOutput :: "json_parser \<Rightarrow> jsstring \<Rightarrow> jsstring \<Rightarrow> DebaterParsedOutput option" where
  "parseDebaterOutput JSON_parse raw fallbackSpeaker =
     (case parseJsonObject JSON_parse raw of
        None \<Rightarrow> None
      | Some parsed \<Rightarrow>
          let speakerRaw = map_of parsed (asc ''speaker'');
              spk = (case speakerRaw of
                       Some (JString s) \<Rightarrow> if length (trim s) > 0 then trim s else fallbackSpeaker
                     | _ \<Rightarrow> fallbackSpeaker);
              np = readContentsArray (map_of parsed (asc ''new_perspectives''));
              cp = readContentsArray (map_of parsed (asc ''counterpoints''))
          in if length np = 0 \<and> length cp = 0 then None
             else Some \<lparr>speaker = spk, newPerspectives = np, counterpoints = cp\<rparr>)"

text \<open>
  The parser in the words of the specification and of Claim C3, to be compared with
  \<open>parseDebaterOutput\<close>. \<open>brace_span t\<close> is the substring of \<open>t\<close> from its first
  \<open>{\<close> to its last \<open>}\<close>, empty when there is none; \<open>claimed_object\<close> is the
  JSON object parsed from the whole text or else from that substring;
  \<open>kept_contents\<close> keeps, of the elements of an array, the trimmed \<open>contents\<close> of
  those whose \<open>contents\<close> is a string that is not empty once trimmed;
  \<open>claimed_speaker\<close> is the trimmed \<open>speaker\<close> of the object, or the fallback label
  when the object has no such string or it is empty once trimmed.
\<close>

definition brace_span :: "jsstring \<Rightarrow> jsstring" where
  "brace_span t = rev (dropWhile (\<lambda>c. c \<noteq> 125) (rev (dropWhile (\<lambda>c. c \<noteq> 123) t)))"

definition claimed_object :: "json_parser \<Rightarrow> jsstring \<Rightarrow> (jsstring \<times> json) list option" where
  "claimed_object jparse t =
     (case plain_object (jparse t) of
        Some props \<Rightarrow> Some props
      | None \<Rightarrow> if brace_span t = [] then None else plain_object (jparse (brace_span t)))"

fun kept_item :: "json \<Rightarrow> jsstring list" where
  "kept_item (JObject props) =
     (case map_of props (asc ''contents'') of
        Some (JString s) \<Rightarrow> if trim s = [] then [] else [trim s]
      | _ \<Rightarrow> [])"
| "kept_item _ = []"

definition kept_contents :: "json option \<Rightarrow> jsstring list" where
  "kept_contents v = (case v of Some (JArray items) \<Rightarrow> concat (map kept_item items) | _ \<Rightarrow> [])"

definition claimed_speaker :: "(jsstring \<times> json) list \<Rightarrow> jsstring \<Rightarrow> jsstring" where
  "claimed_speaker props fallbackSpeaker =
     (case map_of props (asc ''speaker'') of
        Some (JString s) \<Rightarrow> if trim s = [] then fallbackSpeaker else trim s
      | _ \<Rightarrow> fallbackSpeaker)"

text \<open>
  The JSON body of a reply of \<open>/api/llm/test\<close>, by its declared type: a success
  (role, model, content) or an error (\<open>error\<close> and \<open>details\<close>, each optional).
\<close>

datatype test_reply =
  TestSuccessResponse LlmRole jsstring jsstring
| TestErrorResponse "jsstring option" "jsstring option"

definition request_failed_retry :: jsstring where
  "request_failed_retry = asc ''Request failed. Please retry.''"

fun getErrorMessage :: "test_reply \<Rightarrow> jsstring" where
  "getErrorMessage (TestErrorResponse err details) =
     (if truthy err \<and> truthy details then the err @ [10] @ the details
      else if truthy err then the err
      else request_failed_retry)"
| "getErrorMessage (TestSuccessResponse _ _ _) = request_failed_retry"

text \<open>
  \<open>withContextOverflowHint\<close>; the built-in \<open>String.prototype.toLowerCase\<close> is its
  first parameter.
\<close>

definition withContextOverflowHint :: "(jsstring \<Rightarrow> jsstring) \<Rightarrow> jsstring \<Rightarrow> UiLang \<Rightarrow> jsstring" where
  "withContextOverflowHint toLowerCase message language =
     (let normalized = toLowerCase message;
          mayBeOverflow =
            (js_includes normalized (asc ''context length'') \<or>
             js_includes normalized (asc ''maximum context'') \<or>
             js_includes normalized (asc ''max context'') \<or>
             js_includes normalized (asc ''max tokens'') \<or>
             js_includes normalized (asc ''token limit'') \<or>
             js_includes normalized (asc ''prompt is too long'') \<or>
             js_includes normalized (asc ''too many tokens''))
      in if \<not> mayBeOverflow then message
         else if language = en then lit_overflow_hint_en @ message
         else lit_overflow_hint_zh @ message)"

definition hasRoundCompleted :: "RoundResults \<Rightarrow> bool" where
  "hasRoundCompleted results = list_all (\<lambda>r. results r \<noteq> None) DEBATER_ROLES"

definition hasAnyRoundResult :: "RoundResults \<Rightarrow> bool" where
  "hasAnyRoundResult results = list_ex (\<lambda>r. results r \<noteq> None) DEBATER_ROLES"

definition normalizeOptionalText :: "jsstring option \<Rightarrow> jsstring option" where
  "normalizeOptionalText raw =
     (case raw of
        None \<Rightarrow> None
      | Some r \<Rightarrow>
          if r = [] then None
          else (let normalized = trim r in if length normalized > 0 then Some normalized else None))"

text \<open>
  The two \<open>forEach\<close> loops of \<open>extractParsedLines\<close>: one line per item, numbered
  from \<open>index + 1\<close>.
\<close>

fun numbered_lines :: "jsstring \<Rightarrow> nat \<Rightarrow> jsstring list \<Rightarrow> jsstring list" where
  "numbered_lines label index [] = []"
| "numbered_lines label index (item # items) =
     (label @ decimal (index + 1) @ asc '': '' @ item) # numbered_lines label (index + 1) items"

definition extractParsedLines :: "DebaterResult \<Rightarrow> jsstring list" where
  "extractParsedLines result =
     (case dr_parsed result of
        None \<Rightarrow> []
      | Some p \<Rightarrow>
          numbered_lines lit_new_view 0 (newPerspectives p)
          @ numbered_lines lit_rebuttal 0 (counterpoints p))"

text \<open>
  The two \<open>for\<close> loops of \<open>buildDebateContext\<close> have the same body up to the label
  that starts a section; \<open>push_sections\<close> is that loop over the roles still to visit,
  with the sections pushed so far.
\<close>

fun push_sections ::
  "jsstring \<Rightarrow> DebaterRole list \<Rightarrow> RoundResults \<Rightarrow> jsstring list \<Rightarrow> jsstring list" where
  "push_sections label [] results sections = sections"
| "push_sections label (r # roles) results sections =
     (case results r of
        None \<Rightarrow> push_sections label roles results sections
      | Some result \<Rightarrow>
          if truthy (dr_error result) \<or> dr_parsed result = None
          then push_sections label roles results sections
          else
            let lines = extractParsedLines result
            in if length lines = 0 then push_sections label roles results sections
               else push_sections label roles results
                      (sections @ [label @ speaker (the (dr_parsed result)) @ [10] @ js_join [10] lines]))"

definition buildDebateContext ::
  "DebaterRole \<Rightarrow> DebateRound \<Rightarrow> RoundResults \<Rightarrow> RoundResults \<Rightarrow> jsstring" where
  "buildDebateContext currentRole currentRound round1Results currentRoundResults =
     (let sections1 =
            (if currentRound = Round2 then push_sections lit_round_one DEBATER_ROLES round1Results []
             else []);
          currentIndex = role_index currentRole;
          previousRoles = take currentIndex DEBATER_ROLES;
          sections2 =
            push_sections (lit_round_open @ decimal (round_number currentRound) @ lit_round_close)
              previousRoles currentRoundResults sections1
      in js_join [10, 10] sections2)"

definition buildPromptForRole ::
  "jsstring \<Rightarrow> DebaterRole \<Rightarrow> DebateRound \<Rightarrow> RoundResults \<Rightarrow> RoundResults \<Rightarrow> jsstring option \<Rightarrow> jsstring" where
  "buildPromptForRole basePrompt r currentRound round1Results currentRoundResults addendum =
     (let normalizedAddendum = (if currentRound = Round2 then normalizeOptionalText addendum else None);
          ctx = buildDebateContext r currentRound round1Results currentRoundResults;
          addendumSection =
            (if truthy normalizedAddendum then lit_addendum_head @ the normalizedAddendum @ [10] else []);
          contextSection = (if ctx \<noteq> [] then lit_context_head @ ctx @ [10] else [])
      in if addendumSection = [] \<and> contextSection = []
         then basePrompt @ lit_now_round @ decimal (round_number currentRound) @ lit_plain_tail
         else basePrompt @ lit_now_round @ decimal (round_number currentRound) @ lit_chained_mid
              @ addendumSection @ contextSection @ lit_chained_tail)"

text \<open>The body of the loop of \<open>buildSummaryBlock\<close>: the chunk of one role.\<close>

definition summary_chunk :: "DebaterRole \<Rightarrow> DebaterResult option \<Rightarrow> jsstring" where
  "summary_chunk r res =
     (let roleName = INTERNAL_ROLE_LABELS r
      in case res of
           None \<Rightarrow> roleName @ asc '': '' @ lit_no_output
         | Some result \<Rightarrow>
             if truthy (dr_error result) then roleName @ lit_call_failed @ the (dr_error result)
             else
               (case dr_parsed result of
                  Some p \<Rightarrow>
                    let lines = extractParsedLines result
                    in if length lines > 0 then speaker p @ [10] @ js_join [10] lines
                       else speaker p @ lit_no_contents
                | None \<Rightarrow>
                    roleName @ asc '': ''
                    @ (if dr_rawContent result \<noteq> [] then dr_rawContent result else lit_no_output)))"

definition buildSummaryBlock :: "jsstring \<Rightarrow> RoundResults \<Rightarrow> jsstring" where
  "buildSummaryBlock roundLabel results =
     roundLabel @ [10] @ js_join [10, 10] (map (\<lambda>r. summary_chunk r (results r)) DEBATER_ROLES)"

definition buildSummaryPrompt ::
  "jsstring \<Rightarrow> RoundResults \<Rightarrow> RoundResults option \<Rightarrow> jsstring option \<Rightarrow> jsstring" where
  "buildSummaryPrompt finalPromptText round1Results round2Results addendum =
     (let normalizedAddendum = normalizeOptionalText addendum;
          blocks =
            [buildSummaryBlock lit_round1_results round1Results]
            @ (case round2Results of
                 Some r2 \<Rightarrow> [buildSummaryBlock lit_round2_results r2]
               | None \<Rightarrow> []);
          addendumSection =
            (if truthy normalizedAddendum
             then lit_summary_addendum_head @ the normalizedAddendum @ [10, 10] else [])
      in lit_summary_question @ finalPromptText @ [10, 10] @ addendumSection
         @ lit_summary_request @ js_join [10, 10] blocks @ lit_summary_rules)"

text \<open>
  Two descriptions of the context block, to be compared with \<open>buildDebateContext\<close>.
  \<open>rendered label results r\<close> is the section of the role \<open>r\<close>: the label, the
  speaker, and the lines of the parsed output. \<open>earlier i\<close> are the roles before
  \<open>i\<close>. \<open>claimed_context\<close> follows Claim C4: a section for every role whose parsed
  output is not null (\<open>present\<close>). \<open>visible_context\<close> has a section for every role
  whose result has no error, a parsed output and at least one line (\<open>usable\<close>).
\<close>

definition present :: "RoundResults \<Rightarrow> DebaterRole \<Rightarrow> bool" where
  "present results r = (case results r of None \<Rightarrow> False | Some res \<Rightarrow> dr_parsed res \<noteq> None)"

definition usable :: "RoundResults \<Rightarrow> DebaterRole \<Rightarrow> bool" where
  "usable results r =
     (case results r of
        None \<Rightarrow> False
      | Some res \<Rightarrow> \<not> truthy (dr_error res) \<and> dr_parsed res \<noteq> None \<and> extractParsedLines res \<noteq> [])"

definition rendered :: "jsstring \<Rightarrow> RoundResults \<Rightarrow> DebaterRole \<Rightarrow> jsstring" where
  "rendered label results r =
     (let res = the (results r)
      in label @ speaker (the (dr_parsed res)) @ [10] @ js_join [10] (extractParsedLines res))"

definition round_label :: "DebateRound \<Rightarrow> jsstring" where
  "round_label rnd = lit_round_open @ decimal (round_number rnd) @ lit_round_close"

definition earlier :: "DebaterRole \<Rightarrow> DebaterRole list" where
  "earlier i = filter (\<lambda>r. role_index r < role_index i) DEBATER_ROLES"

definition claimed_context :: "DebaterRole \<Rightarrow> DebateRound \<Rightarrow> RoundResults \<Rightarrow> RoundResults \<Rightarrow> jsstring" where
  "claimed_context i rnd round1 current =
     js_join [10, 10]
       ((if rnd = Round2 then map (rendered lit_round_one round1) (filter (present round1) DEBATER_ROLES)
         else [])
        @ map (rendered (round_label rnd) current) (filter (present current) (earlier i)))"

definition visible_context :: "DebaterRole \<Rightarrow> DebateRound \<Rightarrow> RoundResults \<Rightarrow> RoundResults \<Rightarrow> jsstring" where
  "visible_context i rnd round1 current =
     js_join [10, 10]
       ((if rnd = Round2 then map (rendered lit_round_one round1) (filter (usable round1) DEBATER_ROLES)
         else [])
        @ map (rendered (round_label rnd) current) (filter (usable current) (earlier i)))"

text \<open>The seven phrases that \<open>withContextOverflowHint\<close> looks for.\<close>

definition overflow_phrases :: "jsstring list" where
  "overflow_phrases =
     [asc ''context length'', asc ''maximum context'', asc ''max context'', asc ''max tokens'',
      asc ''token limit'', asc ''prompt is too long'', asc ''too many tokens'']"

section \<open>app/debate/page.tsx: rounds\<close>

text \<open>
  What the page reads from its browser: \<open>JSON.parse\<close>, \<open>toLowerCase\<close>, the
  server behind \<open>fetch("/api/llm/test")\<close> as a function of the request body, and
  the table \<open>roundAwarePrompts\<close> of the six system prompts of the rounds (long fixed
  texts that no property here depends on).
\<close>

record test_request =
  tq_role :: LlmRole
  tq_model :: jsstring
  tq_prompt :: jsstring
  tq_systemPrompt :: "jsstring option"
  tq_allowFallback :: bool

text \<open>
  A thrown value on the page is an \<open>Error\<close> with its message, or something else.
  A \<open>fetch\<close> rejects (so does the reading of a body that is not JSON), or it
  replies with \<open>response.ok\<close> and the JSON body.
\<close>

datatype thrown = ThrownError jsstring | ThrownOther

datatype fetch_result = FetchRejected thrown | FetchReplied bool test_reply

record browser =
  JSON_parse :: json_parser
  toLowerCase :: "jsstring \<Rightarrow> jsstring"
  fetch_test :: "test_request \<Rightarrow> fetch_result"
  roundAwarePrompts :: "DebaterRole \<Rightarrow> DebateRound \<Rightarrow> jsstring"

text \<open>
  The state of the component that the handlers of the debate read and write (the
  \<open>useState\<close> cells). The history of past sessions and the list of models offered
  for selection are left out.
\<close>

record page_state =
  uiLang :: UiLang
  debaterModels :: "DebaterRole \<Rightarrow> jsstring"
  summarizerModel :: jsstring
  finalPrompt :: jsstring
  round1Results :: RoundResults
  round2Results :: RoundResults
  summaryResult :: jsstring
  summarySourceRound :: "DebateRound option"
  round2AddendumDraft :: jsstring
  round2AddendumCommitted :: "jsstring option"
  round2Started :: bool
  summaryMode :: SummaryMode
  isRunningDebate :: bool
  runningRound :: "DebateRound option"
  runningRole :: "DebaterRole option"
  isRunningSummary :: bool
  pageError :: jsstring
  debateError :: jsstring
  summaryError :: jsstring

text \<open>The body that \<open>runSingleDebater\<close> posts.\<close>

definition single_request :: "DebaterRole \<Rightarrow> jsstring \<Rightarrow> jsstring \<Rightarrow> jsstring \<Rightarrow> test_request" where
  "single_request r m prompt systemPrompt =
     \<lparr>tq_role = llm_role r, tq_model = m, tq_prompt = prompt,
      tq_systemPrompt = Some systemPrompt, tq_allowFallback = True\<rparr>"

text \<open>
  \<open>runSingleDebater\<close>, in the render whose language is \<open>lang\<close>: \<open>Inl\<close> is the
  value it throws.
\<close>

definition runSingleDebater ::
  "browser \<Rightarrow> UiLang \<Rightarrow> DebaterRole \<Rightarrow> jsstring \<Rightarrow> jsstring \<Rightarrow> jsstring \<Rightarrow> thrown + DebaterResult" where
  "runSingleDebater b lang r m prompt systemPrompt =
     (case fetch_test b (single_request r m prompt systemPrompt) of
        FetchRejected t \<Rightarrow> Inl t
      | FetchReplied ok d \<Rightarrow>
          (case d of
             TestErrorResponse _ _ \<Rightarrow> Inl (ThrownError (getErrorMessage d))
           | TestSuccessResponse _ md c \<Rightarrow>
               if \<not> ok then Inl (ThrownError (getErrorMessage d))
               else
                 let rawContent = trim c
                 in Inr \<lparr>dr_model = md,
                          dr_rawContent = rawContent,
                          dr_parsed = parseDebaterOutput (JSON_parse b) rawContent (ROLE_SPEAKERS_BY_LANG lang r),
                          dr_error = None\<rparr>))"

text \<open>
  One pass of the loop of \<open>runDebateRound\<close>, for the role \<open>r\<close>: the request it sends
  and the result it stores. \<open>cl\<close> is the state of the render the handler was created
  in (its closure), \<open>stable1\<close> is \<open>stableRound1Results\<close> and \<open>current\<close> is
  \<open>currentResults\<close>.
\<close>

definition turn_request ::
  "browser \<Rightarrow> page_state \<Rightarrow> DebateRound \<Rightarrow> jsstring \<Rightarrow> jsstring option \<Rightarrow> RoundResults \<Rightarrow> RoundResults
     \<Rightarrow> DebaterRole \<Rightarrow> test_request" where
  "turn_request b cl rnd prompt addendum stable1 current r =
     single_request r (debaterModels cl r)
       (buildPromptForRole prompt r rnd stable1 current addendum)
       (roundAwarePrompts b r rnd)"

definition debater_turn ::
  "browser \<Rightarrow> page_state \<Rightarrow> DebateRound \<Rightarrow> jsstring \<Rightarrow> jsstring option \<Rightarrow> RoundResults \<Rightarrow> RoundResults
     \<Rightarrow> DebaterRole \<Rightarrow> DebaterResult" where
  "debater_turn b cl rnd prompt addendum stable1 current r =
     (let m = debaterModels cl r;
          chainedPrompt = buildPromptForRole prompt r rnd stable1 current addendum;
          systemPrompt = roundAwarePrompts b r rnd
      in case runSingleDebater b (uiLang cl) r m chainedPrompt systemPrompt of
           Inr result \<Rightarrow> result
         | Inl t \<Rightarrow>
             \<lparr>dr_model = m,
              dr_rawContent = [],
              dr_parsed = None,
              dr_error =
                Some (case t of
                        ThrownError msg \<Rightarrow> withContextOverflowHint (toLowerCase b) msg (uiLang cl)
                      | ThrownOther \<Rightarrow> tr (uiLang cl) lit_request_failed_zh (asc ''Request failed''))\<rparr>)"

text \<open>The loop of \<open>runDebateRound\<close> over the roles still to run.\<close>

fun round_loop ::
  "browser \<Rightarrow> page_state \<Rightarrow> DebateRound \<Rightarrow> jsstring \<Rightarrow> jsstring option \<Rightarrow> RoundResults
     \<Rightarrow> DebaterRole list \<Rightarrow> RoundResults \<Rightarrow> RoundResults" where
  "round_loop b cl rnd prompt addendum stable1 [] current = current"
| "round_loop b cl rnd prompt addendum stable1 (r # roles) current =
     round_loop b cl rnd prompt addendum stable1 roles
       (current(r \<mapsto> debater_turn b cl rnd prompt addendum stable1 current r))"

text \<open>The requests that the loop posts, in order.\<close>

fun round_requests ::
  "browser \<Rightarrow> page_state \<Rightarrow> DebateRound \<Rightarrow> jsstring \<Rightarrow> jsstring option \<Rightarrow> RoundResults
     \<Rightarrow> DebaterRole list \<Rightarrow> RoundResults \<Rightarrow> test_request list" where
  "round_requests b cl rnd prompt addendum stable1 [] current = []"
| "round_requests b cl rnd prompt addendum stable1 (r # roles) current =
     turn_request b cl rnd prompt addendum stable1 current r
     # round_requests b cl rnd prompt addendum stable1 roles
         (current(r \<mapsto> debater_turn b cl rnd prompt addendum stable1 current r))"

text \<open>
  \<open>runDebateRound\<close>: the value of \<open>currentResults\<close> at its end, which is also the
  last value it sets the round's state cell to.
\<close>

definition runDebateRound ::
  "browser \<Rightarrow> page_state \<Rightarrow> DebateRound \<Rightarrow> jsstring \<Rightarrow> jsstring option \<Rightarrow> RoundResults" where
  "runDebateRound b cl rnd prompt addendum =
     (let stableRound1Results = (if rnd = Round2 then round1Results cl else Map.empty)
      in round_loop b cl rnd prompt addendum stableRound1Results DEBATER_ROLES Map.empty)"

section \<open>app/debate/page.tsx: handlers\<close>

text \<open>
  A handler of the page is a closure of the render it was created in: it reads the
  state of that render and calls setters, and its \<open>await\<close>s let other events in. A
  running round is therefore kept as a value of its own: the round, the prompt and the
  addendum passed to \<open>runDebateRound\<close>, the state the handler closed over, the local
  maps \<open>stableRound1Results\<close> and \<open>currentResults\<close>, and the roles still to run.
  A session is the current state of the page, the round in flight if there is one, and
  the requests posted so far.
\<close>

record flight =
  fl_round :: DebateRound
  fl_prompt :: jsstring
  fl_addendum :: "jsstring option"
  fl_closure :: page_state
  fl_stable :: RoundResults
  fl_current :: RoundResults
  fl_todo :: "DebaterRole list"

record session =
  live :: page_state
  in_flight :: "flight option"
  sent :: "test_request list"

text \<open>
  \<open>handleRunRound1\<close> and \<open>handleRunRound2\<close> up to their call of
  \<open>runDebateRound\<close>: the state after their setters, and the round they start
  (\<open>None\<close> when a guard returns early). \<open>round_finally\<close> is what follows the round:
  the \<open>finally\<close> block, which for round 2 also shows the summary section.
\<close>

definition handleRunRound1 :: "page_state \<Rightarrow> page_state \<times> flight option" where
  "handleRunRound1 st =
     (let st1 = st\<lparr>debateError := [], summaryError := [], summaryResult := [],
                    summarySourceRound := None\<rparr>
      in if pageError st \<noteq> [] then (st1, None)
         else
           let prompt = trim (finalPrompt st)
           in if prompt = [] then
                (st1\<lparr>debateError := tr (uiLang st) lit_prompt_missing_zh
                                      (asc ''Please enter your final prompt in Step 2 first.'')\<rparr>, None)
              else
                (case find (\<lambda>r. debaterModels st r = []) DEBATER_ROLES of
                   Some r \<Rightarrow>
                     (st1\<lparr>debateError :=
                             tr (uiLang st)
                               (lit_select_model_zh_head @ ROLE_LABELS_BY_LANG (uiLang st) r
                                @ lit_select_model_zh_tail)
                               (asc ''Please select a model for '' @ ROLE_LABELS_BY_LANG (uiLang st) r
                                @ asc ''.'')\<rparr>, None)
                 | None \<Rightarrow>
                     (st1\<lparr>round1Results := Map.empty, round2Results := Map.empty,
                           round2AddendumDraft := [], round2AddendumCommitted := None,
                           round2Started := False, summaryMode := mode_hidden,
                           isRunningDebate := True, runningRound := Some Round1,
                           runningRole := None\<rparr>,
                      Some \<lparr>fl_round = Round1, fl_prompt = prompt, fl_addendum = None,
                            fl_closure = st, fl_stable = Map.empty, fl_current = Map.empty,
                            fl_todo = DEBATER_ROLES\<rparr>)))"

definition handleRunRound2 :: "page_state \<Rightarrow> page_state \<times> flight option" where
  "handleRunRound2 st =
     (let st1 = st\<lparr>debateError := [], summaryError := [], summaryResult := [],
                    summarySourceRound := None\<rparr>
      in if \<not> hasRoundCompleted (round1Results st) then
           (st1\<lparr>debateError := tr (uiLang st) lit_round1_missing_zh
                                 (asc ''Please complete Round 1 first.'')\<rparr>, None)
         else
           let prompt = trim (finalPrompt st)
           in if prompt = [] then
                (st1\<lparr>debateError := tr (uiLang st) lit_prompt_missing_zh
                                      (asc ''Please enter your final prompt in Step 2 first.'')\<rparr>, None)
              else
                let committedAddendum = normalizeOptionalText (Some (round2AddendumDraft st))
                in (st1\<lparr>round2Results := Map.empty,
                         round2AddendumCommitted := committedAddendum,
                         round2Started := True, summaryMode := mode_hidden,
                         isRunningDebate := True, runningRound := Some Round2,
                         runningRole := None\<rparr>,
                    Some \<lparr>fl_round = Round2, fl_prompt = prompt, fl_addendum = committedAddendum,
                          fl_closure = st, fl_stable = round1Results st, fl_current = Map.empty,
                          fl_todo = DEBATER_ROLES\<rparr>))"

definition round_finally :: "DebateRound \<Rightarrow> page_state \<Rightarrow> page_state" where
  "round_finally rnd st =
     (let st1 = st\<lparr>runningRole := None, runningRound := None, isRunningDebate := False\<rparr>
      in if rnd = Round2 then st1\<lparr>summaryMode := mode_round2\<rparr> else st1)"

text \<open>
  One pass of the loop of the round in flight: the request, the result stored in
  \<open>currentResults\<close> and in the state of the page; after the last role, the
  \<open>finally\<close> block.
\<close>

definition debater_step :: "browser \<Rightarrow> session \<Rightarrow> session" where
  "debater_step b s =
     (case in_flight s of
        None \<Rightarrow> s
      | Some f \<Rightarrow>
          (case fl_todo f of
             [] \<Rightarrow> s
           | r # rest \<Rightarrow>
               let req = turn_request b (fl_closure f) (fl_round f) (fl_prompt f) (fl_addendum f)
                           (fl_stable f) (fl_current f) r;
                   result = debater_turn b (fl_closure f) (fl_round f) (fl_prompt f) (fl_addendum f)
                              (fl_stable f) (fl_current f) r;
                   current' = (fl_current f)(r \<mapsto> result);
                   st1 = (live s)\<lparr>runningRole := Some r\<rparr>;
                   st2 = (if fl_round f = Round1 then st1\<lparr>round1Results := current'\<rparr>
                          else st1\<lparr>round2Results := current'\<rparr>)
               in if rest = [] then
                    s\<lparr>live := round_finally (fl_round f) st2, in_flight := None,
                      sent := sent s @ [req]\<rparr>
                  else
                    s\<lparr>live := st2,
                      in_flight := Some (f\<lparr>fl_current := current', fl_todo := rest\<rparr>),
                      sent := sent s @ [req]\<rparr>))"

text \<open>
  \<open>handleGenerateSummary\<close>, from the click to the end of its \<open>finally\<close>. The
  writing of the session into the history of the browser is left out.
\<close>

definition summary_request :: "page_state \<Rightarrow> jsstring \<Rightarrow> test_request" where
  "summary_request st summaryPrompt =
     \<lparr>tq_role = summarizer, tq_model = summarizerModel st, tq_prompt = summaryPrompt,
      tq_systemPrompt = None, tq_allowFallback = True\<rparr>"

definition summary_failure :: "browser \<Rightarrow> UiLang \<Rightarrow> thrown \<Rightarrow> jsstring" where
  "summary_failure b lang t =
     (case t of
        ThrownError msg \<Rightarrow> withContextOverflowHint (toLowerCase b) msg lang
      | ThrownOther \<Rightarrow> tr lang lit_summary_failed_zh (asc ''Summary generation failed. Please retry.''))"

text \<open>
  The last argument of the call of \<open>buildSummaryPrompt\<close> in
  \<open>handleGenerateSummary\<close>: the addendum of the summary.
\<close>

definition summary_addendum :: "bool \<Rightarrow> page_state \<Rightarrow> jsstring option" where
  "summary_addendum useRound2 st =
     (if useRound2 then round2AddendumCommitted st
      else normalizeOptionalText (Some (round2AddendumDraft st)))"

definition handleGenerateSummary :: "browser \<Rightarrow> bool \<Rightarrow> session \<Rightarrow> session" where
  "handleGenerateSummary b useRound2 s =
     (let st = live s;
          st1 = st\<lparr>summaryError := [], summaryResult := []\<rparr>
      in if \<not> hasRoundCompleted (round1Results st) then
           s\<lparr>live := st1\<lparr>summaryError := tr (uiLang st) lit_summary_round1_missing_zh
                 (asc ''Please complete Round 1 before generating a summary.'')\<rparr>\<rparr>
         else if useRound2 \<and> \<not> hasRoundCompleted (round2Results st) then
           s\<lparr>live := st1\<lparr>summaryError := tr (uiLang st) lit_summary_round2_missing_zh
                 (asc ''Round 2 is not finished yet. Cannot summarize both rounds.'')\<rparr>\<rparr>
         else if summarizerModel st = [] then
           s\<lparr>live := st1\<lparr>summaryError := tr (uiLang st) lit_summarizer_missing_zh
                 (asc ''Please select a summarizer model first.'')\<rparr>\<rparr>
         else
           let prompt = trim (finalPrompt st)
           in if prompt = [] then
                s\<lparr>live := st1\<lparr>summaryError := tr (uiLang st) lit_summary_prompt_missing_zh
                      (asc ''Final prompt is missing. Cannot generate summary.'')\<rparr>\<rparr>
              else
                let summaryPrompt =
                      buildSummaryPrompt prompt (round1Results st)
                        (if useRound2 then Some (round2Results st) else None)
                        (summary_addendum useRound2 st);
                    req = summary_request st summaryPrompt;
                    st2 =
                      (case fetch_test b req of
                         FetchRejected t \<Rightarrow> st1\<lparr>summaryError := summary_failure b (uiLang st) t\<rparr>
                       | FetchReplied ok d \<Rightarrow>
                           (case d of
                              TestErrorResponse _ _ \<Rightarrow>
                                st1\<lparr>summaryError :=
                                      summary_failure b (uiLang st) (ThrownError (getErrorMessage d))\<rparr>
                            | TestSuccessResponse _ _ c \<Rightarrow>
                                if \<not> ok then
                                  st1\<lparr>summaryError :=
                                        summary_failure b (uiLang st) (ThrownError (getErrorMessage d))\<rparr>
                                else
                                  st1\<lparr>summaryResult := trim c,
                                      summarySourceRound := Some (if useRound2 then Round2 else Round1)\<rparr>))
                in s\<lparr>live := st2\<lparr>isRunningSummary := False\<rparr>, sent := sent s @ [req]\<rparr>)"

definition handleSkipRound2AndSummarize :: "browser \<Rightarrow> session \<Rightarrow> session" where
  "handleSkipRound2AndSummarize b s =
     handleGenerateSummary b False
       (s\<lparr>live := (live s)\<lparr>round2Started := False, summaryMode := mode_round1\<rparr>\<rparr>)"

text \<open>
  The events of a session: the user edits the addendum draft (the setter
  \<open>setRound2AddendumDraft\<close>; the text area that calls it is disabled once round 2 has
  started), clicks one of the buttons, or the next debater of the round in flight
  replies. The two buttons that start a round are disabled while a round runs.
\<close>

datatype page_event =
  EditDraft jsstring
| ClickRunRound1
| ClickRunRound2
| DebaterReplies
| ClickSkipRound2
| ClickGenerateSummary bool

definition start_round :: "(page_state \<Rightarrow> page_state \<times> flight option) \<Rightarrow> session \<Rightarrow> session" where
  "start_round handler s =
     (if isRunningDebate (live s) \<or> in_flight s \<noteq> None then s
      else let (st, f) = handler (live s) in s\<lparr>live := st, in_flight := f\<rparr>)"

fun step :: "browser \<Rightarrow> page_event \<Rightarrow> session \<Rightarrow> session" where
  "step b (EditDraft t) s = s\<lparr>live := (live s)\<lparr>round2AddendumDraft := t\<rparr>\<rparr>"
| "step b ClickRunRound1 s = start_round handleRunRound1 s"
| "step b ClickRunRound2 s = start_round handleRunRound2 s"
| "step b DebaterReplies s = debater_step b s"
| "step b ClickSkipRound2 s = handleSkipRound2AndSummarize b s"
| "step b (ClickGenerateSummary useRound2) s = handleGenerateSummary b useRound2 s"

definition run :: "browser \<Rightarrow> page_event list \<Rightarrow> session \<Rightarrow> session" where
  "run b evs s = foldl (\<lambda>s' e. step b e s') s evs"

text \<open>
  The events that can follow the start of round 2 without starting another round or
  leaving the two-round path: edits of the draft, replies of debaters, and the
  summary of both rounds. \<open>set_draft\<close> overwrites the draft of a session.
\<close>

fun is_edit :: "page_event \<Rightarrow> bool" where
  "is_edit (EditDraft t) = True"
| "is_edit _ = False"

fun after_round2_start :: "page_event \<Rightarrow> bool" where
  "after_round2_start (EditDraft t) = True"
| "after_round2_start DebaterReplies = True"
| "after_round2_start (ClickGenerateSummary useRound2) = useRound2"
| "after_round2_start _ = False"

definition set_draft :: "jsstring \<Rightarrow> session \<Rightarrow> session" where
  "set_draft d s = s\<lparr>live := (live s)\<lparr>round2AddendumDraft := d\<rparr>\<rparr>"

text \<open>
  What every result stored by a round satisfies: a parsed output comes with no error
  and with at least one line.
\<close>

definition produced :: "DebaterResult \<Rightarrow> bool" where
  "produced res = (dr_parsed res = None \<or> (\<not> truthy (dr_error res) \<and> extractParsedLines res \<noteq> []))"

definition well_formed :: "RoundResults \<Rightarrow> bool" where
  "well_formed results =
     list_all (\<lambda>r. case results r of None \<Rightarrow> True | Some res \<Rightarrow> produced res) DEBATER_ROLES"

section \<open>Scenarios\<close>

text \<open>
  Concrete processes and requests, used to run the service on. The pool of
  \<open>pool_env\<close> is m/m, n/n, o/o; the remote service of \<open>pool_server replies\<close>
  answers a request by its model alone. \<open>mapped_input m\<close> asks for the refiner with
  the role map sending every role to \<open>m\<close> and no explicit model;
  \<open>pinned_input m\<close> pins \<open>m\<close> as the explicit model.
\<close>

definition pool_env :: environment where
  "pool_env k =
     (if k = asc ''OPENROUTER_MODELS'' then Some (asc ''m/m,n/n,o/o'')
      else if k = asc ''OPENROUTER_API_KEY'' then Some (asc ''sk-or-v1-key'')
      else None)"

definition pool_server :: "(jsstring \<Rightarrow> http_result) \<Rightarrow> server" where
  "pool_server replies =
     \<lparr>process_env = pool_env,
      Number_parseInt = (\<lambda>s. NaN),
      provider_cache = None,
      remote_service = (\<lambda>prov p. replies (req_model p)),
      defaultSystemPrompts = (\<lambda>r. asc ''system'')\<rparr>"

definition mapped_input :: "jsstring \<Rightarrow> RunRoleInput" where
  "mapped_input m =
     \<lparr>in_role = refiner, in_userPrompt = asc ''question'', in_model = None,
      in_roleModelMap = Some (\<lambda>r. Some m), in_allowFallback = None,
      in_systemPrompt = None, in_temperature = None, in_maxTokens = None\<rparr>"

definition pinned_input :: "jsstring \<Rightarrow> RunRoleInput" where
  "pinned_input m =
     \<lparr>in_role = refiner, in_userPrompt = asc ''question'', in_model = Some m,
      in_roleModelMap = None, in_allowFallback = None,
      in_systemPrompt = None, in_temperature = None, in_maxTokens = None\<rparr>"

definition pinned_mapped_input :: "jsstring \<Rightarrow> jsstring \<Rightarrow> RunRoleInput" where
  "pinned_mapped_input pin m =
     \<lparr>in_role = refiner, in_userPrompt = asc ''question'', in_model = Some pin,
      in_roleModelMap = Some (\<lambda>r. Some m), in_allowFallback = None,
      in_systemPrompt = None, in_temperature = None, in_maxTokens = None\<rparr>"

definition reply_text :: "jsstring \<Rightarrow> http_result" where
  "reply_text t = HttpOk \<lparr>or_model = None, or_first_content = ContentString t, or_usage = None\<rparr>"

text \<open>
  Four remote services: m/m rate-limited, n/n and o/o answering; n/n answering and
  every other model rate-limited; every model failing with one status; m/m
  rate-limited, n/n failing with status 500, o/o answering.
\<close>

definition mnO_replies :: "jsstring \<Rightarrow> http_result" where
  "mnO_replies m =
     (if m = asc ''m/m'' then HttpNotOk 429 (asc ''slow down'')
      else if m = asc ''n/n'' then reply_text (asc ''from n'')
      else reply_text (asc ''from o''))"

definition mo429 :: "jsstring \<Rightarrow> http_result" where
  "mo429 m = (if m = asc ''n/n'' then reply_text (asc ''from n'') else HttpNotOk 429 (asc ''busy''))"

definition always :: "nat \<Rightarrow> jsstring \<Rightarrow> http_result" where
  "always status m = HttpNotOk status (asc ''busy'')"

definition m429_n500 :: "jsstring \<Rightarrow> http_result" where
  "m429_n500 m =
     (if m = asc ''m/m'' then HttpNotOk 429 (asc ''busy'')
      else if m = asc ''n/n'' then HttpNotOk 500 (asc ''broken'')
      else reply_text (asc ''from o''))"

text \<open>
  A reply with prose around its JSON object, and a \<open>JSON.parse\<close> that accepts the
  text of that object alone (and throws on every other text). The second element of
  the array has blank \<open>contents\<close>, the third is not an object, and the speaker is
  blank.
\<close>

definition noisy_raw :: jsstring where
  "noisy_raw = [110, 111, 105, 115, 101, 32, 123, 34, 110, 101, 119, 95, 112, 101, 114, 115, 112, 101, 99, 116, 105, 118, 101, 115, 34, 58, 91, 123, 34, 105, 100, 34, 58, 34, 97, 34, 44, 34, 99, 111, 110, 116, 101, 110, 116, 115, 34, 58, 34, 32, 120, 32, 34, 125, 44, 123, 34, 99, 111, 110, 116, 101, 110, 116, 115, 34, 58, 34, 32, 32, 34, 125, 44, 55, 93, 44, 34, 115, 112, 101, 97, 107, 101, 114, 34, 58, 34, 32, 34, 125, 32, 110, 111, 105, 115, 101]"

definition noisy_object :: jsstring where
  "noisy_object = [123, 34, 110, 101, 119, 95, 112, 101, 114, 115, 112, 101, 99, 116, 105, 118, 101, 115, 34, 58, 91, 123, 34, 105, 100, 34, 58, 34, 97, 34, 44, 34, 99, 111, 110, 116, 101, 110, 116, 115, 34, 58, 34, 32, 120, 32, 34, 125, 44, 123, 34, 99, 111, 110, 116, 101, 110, 116, 115, 34, 58, 34, 32, 32, 34, 125, 44, 55, 93, 44, 34, 115, 112, 101, 97, 107, 101, 114, 34, 58, 34, 32, 34, 125]"

definition noisy_parse :: json_parser where
  "noisy_parse s =
     (if s = noisy_object then
        Some (JObject
          [(asc ''new_perspectives'',
            JArray [JObject [(asc ''id'', JString (asc ''a'')), (asc ''contents'', JString (asc '' x ''))],
                    JObject [(asc ''contents'', JString (asc ''  ''))],
                    JNumber (Finite 7)]),
           (asc ''speaker'', JString (asc '' ''))])
      else None)"

text \<open>
  Results of a debater: one with a parsed output and an error at once, and one as a
  round stores it. A browser whose server refuses every request, with a token-limit
  error thrown for the second debater; and the state of a page before the first round.
\<close>

definition flagged_result :: DebaterResult where
  "flagged_result =
     \<lparr>dr_model = asc ''m/m'', dr_rawContent = asc ''raw'',
      dr_parsed = Some \<lparr>speaker = asc ''A'', newPerspectives = [asc ''x''], counterpoints = []\<rparr>,
      dr_error = Some (asc ''late failure'')\<rparr>"

definition good_result :: "jsstring \<Rightarrow> DebaterResult" where
  "good_result s =
     \<lparr>dr_model = asc ''m/m'', dr_rawContent = asc ''raw'',
      dr_parsed = Some \<lparr>speaker = s, newPerspectives = [asc ''x''], counterpoints = [asc ''y'']\<rparr>,
      dr_error = None\<rparr>"

definition failing_browser :: browser where
  "failing_browser =
     \<lparr>JSON_parse = (\<lambda>s. None),
      toLowerCase = ascii_toLowerCase,
      fetch_test = (\<lambda>q. if tq_role q = debater_b
                         then FetchRejected (ThrownError (asc ''Max tokens exceeded''))
                         else FetchReplied False (TestErrorResponse (Some (asc ''Unsupported model'')) None)),
      roundAwarePrompts = (\<lambda>r n. asc ''system'')\<rparr>"

definition fresh_page :: page_state where
  "fresh_page =
     \<lparr>uiLang = en,
      debaterModels = (\<lambda>r. asc ''m/m''),
      summarizerModel = asc ''n/n'',
      finalPrompt = asc ''question'',
      round1Results = Map.empty,
      round2Results = Map.empty,
      summaryResult = [],
      summarySourceRound = None,
      round2AddendumDraft = [],
      round2AddendumCommitted = None,
      round2Started = False,
      summaryMode = mode_hidden,
      isRunningDebate = False,
      runningRound = None,
      runningRole = None,
      isRunningSummary = False,
      pageError = [],
      debateError = [],
      summaryError = []\<rparr>"

text \<open>
  A session whose first round is complete, with a draft of the addendum that has
  blanks around it and an older committed addendum.
\<close>

definition finished_round1 :: session where
  "finished_round1 =
     \<lparr>live = fresh_page\<lparr>round1Results := (\<lambda>r. Some (good_result (asc ''A''))),
                          round2AddendumDraft := asc '' more context '',
                          round2AddendumCommitted := Some (asc ''old'')\<rparr>,
      in_flight = None,
      sent = []\<rparr>"

section \<open>Properties of model-config.ts\<close>

lemma trim_DEFAULT_ROLE_MODEL_MAP: "trim (DEFAULT_ROLE_MODEL_MAP r) = DEFAULT_ROLE_MODEL_MAP r"
  by (cases r) (simp_all add: trim_def asc_def is_js_space_def)

lemma DEFAULT_ROLE_MODEL_MAP_pattern: "model_id_pattern (DEFAULT_ROLE_MODEL_MAP r)"
  by (cases r) (simp_all add: model_id_pattern_def asc_def is_vendor_char_def is_name_char_def)

lemma DEFAULT_ROLE_MODEL_MAP_nonempty: "DEFAULT_ROLE_MODEL_MAP r \<noteq> []"
  by (cases r) (simp_all add: asc_def)

lemma isAllowedModel_default: "isAllowedModel env (DEFAULT_ROLE_MODEL_MAP r)"
  by (simp add: isAllowedModel_def Let_def trim_DEFAULT_ROLE_MODEL_MAP
      DEFAULT_ROLE_MODEL_MAP_pattern DEFAULT_ROLE_MODEL_MAP_nonempty)

lemma resolveModelForRole_cases:
  "resolveModelForRole env r roleModelMap =
     Inr (let fromRequest = (case roleModelMap of None \<Rightarrow> None | Some mp \<Rightarrow> trim_opt (mp r))
          in if truthy fromRequest \<and> isAllowedModel env (the fromRequest) then the fromRequest
             else DEFAULT_ROLE_MODEL_MAP r)"
  by (simp add: resolveModelForRole_def Let_def isAllowedModel_default)

text \<open>
  Claim C10. For every environment, role and role-model map of the caller,
  \<open>resolveModelForRole\<close> returns a model and never throws its error "No available
  models configured": every entry of the static default map matches the pattern
  vendor/model-name, so \<open>isAllowedModel\<close> holds of it whatever the pool is, and the
  branches after the default (the first entry of the pool, the error) are never
  reached. The model returned is the role's static default, or the trimmed entry of
  the map for the role, which is then not empty and allowed.
\<close>

theorem resolveModelForRole_total:
  "(\<exists>m. resolveModelForRole env r roleModelMap = Inr m \<and>
        (m = DEFAULT_ROLE_MODEL_MAP r \<or>
         (\<exists>mp raw. roleModelMap = Some mp \<and> mp r = Some raw \<and> m = trim raw \<and> m \<noteq> []
            \<and> isAllowedModel env m)))
   \<and> model_id_pattern (DEFAULT_ROLE_MODEL_MAP r)
   \<and> isAllowedModel env (DEFAULT_ROLE_MODEL_MAP r)
   \<and> resolveModelForRole env r roleModelMap \<noteq> Inl (Error no_models_message)"
proof -
  have pat: "model_id_pattern (DEFAULT_ROLE_MODEL_MAP r)"
    by (rule DEFAULT_ROLE_MODEL_MAP_pattern)
  have allowed: "isAllowedModel env (DEFAULT_ROLE_MODEL_MAP r)"
    by (rule isAllowedModel_default)
  have res: "\<exists>m. resolveModelForRole env r roleModelMap = Inr m \<and>
        (m = DEFAULT_ROLE_MODEL_MAP r \<or>
         (\<exists>mp raw. roleModelMap = Some mp \<and> mp r = Some raw \<and> m = trim raw \<and> m \<noteq> []
            \<and> isAllowedModel env m))"
  proof (cases roleModelMap)
    case None
    then show ?thesis by (simp add: resolveModelForRole_cases)
  next
    case (Some mp)
    show ?thesis
    proof (cases "mp r")
      case None
      with Some show ?thesis by (simp add: resolveModelForRole_cases trim_opt_def)
    next
      case (Some raw)
      with \<open>roleModelMap = Some mp\<close> show ?thesis
        by (simp add: resolveModelForRole_cases trim_opt_def)
    qed
  qed
  from res have "resolveModelForRole env r roleModelMap \<noteq> Inl (Error no_models_message)"
    by auto
  with res pat allowed show ?thesis by blast
qed

text \<open>
  The theorem at a concrete input: an empty pool variable, and a map whose entry for
  the refiner is not allowed (it has no slash); the static default is returned.
\<close>

theorem resolveModelForRole_total_witness:
  "resolveModelForRole (\<lambda>k. None) refiner (Some (\<lambda>r. Some (asc ''bad model''))) =
     Inr (asc ''qwen/qwen3-next-80b-a3b-instruct:free'')"
proof -
  have not_allowed: "\<not> isAllowedModel (\<lambda>k. None) (asc ''bad model'')"
    by (simp add: isAllowedModel_def Let_def trim_def asc_def is_js_space_def
        getAvailableModels_def parseModelList_def trim_opt_def BASE_AVAILABLE_MODELS_def
        model_id_pattern_def is_vendor_char_def is_name_char_def)
  have trimmed: "trim (asc ''bad model'') = asc ''bad model''"
    by (simp add: trim_def asc_def is_js_space_def)
  from resolveModelForRole_total [of "\<lambda>k. None" refiner "Some (\<lambda>r. Some (asc ''bad model''))"]
  obtain m where m: "resolveModelForRole (\<lambda>k. None) refiner (Some (\<lambda>r. Some (asc ''bad model''))) = Inr m"
    and alt: "m = DEFAULT_ROLE_MODEL_MAP refiner \<or>
         (\<exists>mp raw. Some (\<lambda>r. Some (asc ''bad model'')) = Some mp \<and> mp refiner = Some raw \<and> m = trim raw
            \<and> m \<noteq> [] \<and> isAllowedModel (\<lambda>k. None) m)"
    by blast
  from alt not_allowed trimmed have "m = DEFAULT_ROLE_MODEL_MAP refiner"
    by auto
  with m show ?thesis by simp
qed

lemma set_insertion_order_distinct:
  "distinct (set_insertion_order seen xs) \<and> set (set_insertion_order seen xs) = set xs - set seen"
  by (induction seen xs rule: set_insertion_order.induct) auto

lemma getAvailableModels_distinct: "distinct (getAvailableModels env)"
  by (simp add: getAvailableModels_def Let_def set_insertion_order_distinct)

section \<open>Properties of the strings\<close>

lemma js_startsWith_append: "js_startsWith (p @ s) p"
  by (simp add: js_startsWith_def)

lemma js_includes_startsWith: "js_startsWith s p \<Longrightarrow> js_includes s p"
  by (cases s) (auto simp: js_startsWith_def)

lemma js_includes_append: "js_includes (a @ p @ b) p"
proof (induction a)
  case Nil
  show ?case by (simp add: js_includes_startsWith js_startsWith_append)
next
  case (Cons x a)
  then show ?case by simp
qed

lemma js_includes_iff: "js_includes s p \<longleftrightarrow> (\<exists>a b. s = a @ p @ b)"
proof
  show "js_includes s p \<Longrightarrow> \<exists>a b. s = a @ p @ b"
  proof (induction s)
    case Nil
    then show ?case by simp
  next
    case (Cons x s)
    show ?case
    proof (cases "js_startsWith (x # s) p")
      case True
      then have "x # s = [] @ p @ drop (length p) (x # s)"
        by (simp add: js_startsWith_def) (metis append_take_drop_id)
      then show ?thesis by blast
    next
      case False
      with Cons.prems have "js_includes s p" by simp
      with Cons.IH obtain a b where "s = a @ p @ b" by blast
      then have "x # s = (x # a) @ p @ b" by simp
      then show ?thesis by blast
    qed
  qed
next
  show "\<exists>a b. s = a @ p @ b \<Longrightarrow> js_includes s p"
    using js_includes_append by blast
qed

lemma js_join_split: "x \<in> set xs \<Longrightarrow> \<exists>a b. js_join sep xs = a @ x @ b"
proof (induction sep xs rule: js_join.induct)
  case (1 sep)
  then show ?case by simp
next
  case (2 sep y)
  then have "js_join sep [y] = [] @ x @ []" by simp
  then show ?case by blast
next
  case (3 sep y z zs)
  show ?case
  proof (cases "x = y")
    case True
    then have "js_join sep (y # z # zs) = [] @ x @ (sep @ js_join sep (z # zs))" by simp
    then show ?thesis by blast
  next
    case False
    with 3 obtain a b where "js_join sep (z # zs) = a @ x @ b" by auto
    then have "js_join sep (y # z # zs) = (y @ sep @ a) @ x @ b" by simp
    then show ?thesis by blast
  qed
qed

section \<open>Properties of service.ts\<close>

lemma rate_limited_iff_status_429:
  "rate_limited upstream prov p = (case upstream prov p of HttpNotOk status _ \<Rightarrow> status = 429 | _ \<Rightarrow> False)"
  by (simp add: rate_limited_def chatCompletion_def is_rate_limit_def newOpenRouterHttpError_def
      split: http_result.splits)

lemma is_rate_limit_new [simp]: "is_rate_limit (newOpenRouterHttpError status body msg) = (status = 429)"
  by (simp add: is_rate_limit_def newOpenRouterHttpError_def)

lemma responseBody_new [simp]: "responseBody (newOpenRouterHttpError status body msg) = body"
  by (simp add: responseBody_def newOpenRouterHttpError_def)

lemma rate_limited_message_names:
  "x \<in> set attempted \<Longrightarrow> js_includes (rate_limited_message attempted) x"
proof -
  assume "x \<in> set attempted"
  then obtain a b where "js_join (asc '', '') attempted = a @ x @ b"
    using js_join_split by blast
  then have "rate_limited_message attempted =
      (asc ''OpenRouter free models are currently rate-limited. Tried: '' @ a) @ x
      @ (b @ asc ''. Please retry shortly or use BYOK (your own provider key).'')"
    by (simp add: rate_limited_message_def)
  then show ?thesis
    using js_includes_append by metis
qed

lemma retries_append: "retries mk (xs @ ys) = retries mk xs @ retries mk ys"
  by (simp add: retries_def)

lemma retries_Cons: "retries mk (x # xs) = Sleep 200 # Call (mk x) # retries mk xs"
  by (simp add: retries_def)

lemma fallback_loop_exhausted:
  "list_all (\<lambda>x. rate_limited upstream prov (mk x)) fs \<Longrightarrow>
   fallback_loop upstream prov mk err fs attempted evs =
     \<lparr>outcome = Inl (newOpenRouterHttpError 429 (responseBody err)
                      (Some (rate_limited_message (attempted @ fs)))),
      events = evs @ retries mk fs,
      attemptedModels = Some (attempted @ fs)\<rparr>"
proof (induction fs arbitrary: attempted evs)
  case Nil
  then show ?case by (simp add: retries_def)
next
  case (Cons f fs)
  then show ?case
    by (auto simp: rate_limited_def retries_Cons split: sum.splits)
qed

lemma fallback_loop_stops:
  "list_all (\<lambda>x. rate_limited upstream prov (mk x)) pre \<Longrightarrow>
   \<not> rate_limited upstream prov (mk f) \<Longrightarrow>
   fallback_loop upstream prov mk err (pre @ f # post) attempted evs =
     \<lparr>outcome = chatCompletion upstream prov (mk f),
      events = evs @ retries mk (pre @ [f]),
      attemptedModels = Some (attempted @ pre @ [f])\<rparr>"
proof (induction pre arbitrary: attempted evs)
  case Nil
  then show ?case
    by (auto simp: rate_limited_def retries_def split: sum.splits)
next
  case (Cons p pre)
  then show ?case
    by (auto simp: rate_limited_def retries_Cons split: sum.splits)
qed

lemma req_model_request_for [simp]: "req_model (request_for srv input x) = x"
  by (simp add: request_for_def Let_def)

lemma called_models_retries: "called_models (retries (request_for srv input) xs) = xs"
  by (induction xs) (simp_all add: called_models_def retries_def)

lemma called_models_Cons_Call: "called_models (Call p # evs) = req_model p # called_models evs"
  by (simp add: called_models_def)

subsection \<open>The scenarios\<close>

lemma pool_models: "getAvailableModels pool_env = [asc ''m/m'', asc ''n/n'', asc ''o/o'']"
  by (simp add: getAvailableModels_def pool_env_def parseModelList_def trim_opt_def trim_def
      asc_def is_js_space_def Let_def)

lemma pool_provider:
  "getProvider (pool_server replies) =
     Inr \<lparr>apiKey = asc ''sk-or-v1-key'', baseUrl = defaultBaseUrl, referer = None, appTitle = None\<rparr>"
  by (simp add: getProvider_def pool_server_def newOpenRouterProvider_def mustGetEnv_def pool_env_def
      normalizeApiKey_def bearer_prefix_def ascii_toLowerCase_def js_startsWith_def trim_opt_def
      trim_def asc_def is_js_space_def Let_def)

lemma pool_resolved: "resolved_model (pool_server replies) (mapped_input (asc ''m/m'')) = Inr (asc ''m/m'')"
  by (simp add: resolved_model_def explicitModel_def mapped_input_def trim_opt_def
      resolveModelForRole_cases pool_server_def isAllowedModel_def pool_models Let_def)
    (simp add: trim_def asc_def is_js_space_def)

lemma pool_allowFallback: "allowFallback (mapped_input m)"
  by (simp add: allowFallback_def mapped_input_def explicitModel_def trim_opt_def)

lemma pool_fallbacks:
  "filter (\<lambda>x. x \<noteq> asc ''m/m'') (getAvailableModels (process_env (pool_server replies))) =
     [] @ asc ''n/n'' # [asc ''o/o'']"
  by (simp add: pool_server_def pool_models) (simp add: asc_def)

lemma remote_pool_server [simp]: "remote_service (pool_server replies) prov p = replies (req_model p)"
  by (simp add: pool_server_def)

lemma pinned_resolved: "resolved_model srv (pinned_input (asc ''m/m'')) = Inr (asc ''m/m'')"
  by (simp add: resolved_model_def explicitModel_def pinned_input_def trim_opt_def)
     (simp add: trim_def asc_def is_js_space_def)

lemma pinned_no_fallback: "\<not> allowFallback (pinned_input (asc ''m/m''))"
  by (simp add: allowFallback_def explicitModel_def pinned_input_def trim_opt_def)
     (simp add: trim_def asc_def is_js_space_def)

lemma pool_getFallbackModels:
  "getFallbackModels (process_env (pool_server replies)) (asc ''m/m'') = [asc ''n/n'', asc ''o/o'']"
  by (simp add: getFallbackModels_def pool_server_def pool_models) (simp add: asc_def)

lemma chat_not_ok:
  "replies (req_model p) = HttpNotOk status body \<Longrightarrow>
   chatCompletion (remote_service (pool_server replies)) prov p = Inl (newOpenRouterHttpError status body None)"
  by (simp add: chatCompletion_def)

subsection \<open>Fallback on a rate limit\<close>

lemma runRole_fallback_stops:
  assumes "resolved_model srv input = Inr m"
    and "getProvider srv = Inr prov"
    and "rate_limited (remote_service srv) prov (request_for srv input m)"
    and "allowFallback input"
    and "getFallbackModels (process_env srv) m = pre @ f # post"
    and "list_all (\<lambda>x. rate_limited (remote_service srv) prov (request_for srv input x)) pre"
    and "\<not> rate_limited (remote_service srv) prov (request_for srv input f)"
  shows "runRole srv input =
           \<lparr>outcome = chatCompletion (remote_service srv) prov (request_for srv input f),
            events = Call (request_for srv input m) # retries (request_for srv input) (pre @ [f]),
            attemptedModels = Some (m # pre @ [f])\<rparr>"
proof -
  from assms(3) obtain e where e: "chatCompletion (remote_service srv) prov (request_for srv input m) = Inl e"
    and lim: "is_rate_limit e"
    by (auto simp: rate_limited_def split: sum.splits)
  have "runRole srv input =
      fallback_loop (remote_service srv) prov (request_for srv input) e (pre @ f # post) [m]
        [Call (request_for srv input m)]"
    using assms(1,2,4,5) e lim by (simp add: runRole_def)
  then show ?thesis
    using fallback_loop_stops [OF assms(6,7)] by simp
qed

lemma pool_resolved_o: "resolved_model (pool_server replies) (mapped_input (asc ''o/o'')) = Inr (asc ''o/o'')"
  by (simp add: resolved_model_def explicitModel_def mapped_input_def trim_opt_def
      resolveModelForRole_cases pool_server_def isAllowedModel_def pool_models Let_def)
    (simp add: trim_def asc_def is_js_space_def)

lemma pool_getFallbackModels_o:
  "getFallbackModels (process_env (pool_server replies)) (asc ''o/o'') = [asc ''m/m'', asc ''n/n'']"
  by (simp add: getFallbackModels_def pool_server_def pool_models) (simp add: asc_def)

lemma mo429_limited:
  "m \<noteq> asc ''n/n'' \<Longrightarrow>
   rate_limited (remote_service (pool_server mo429)) prov (request_for (pool_server mo429) input m)"
  by (simp add: rate_limited_def chatCompletion_def mo429_def)

lemma mo429_answers:
  "chatCompletion (remote_service (pool_server mo429)) prov (request_for (pool_server mo429) input (asc ''n/n'')) =
     Inr \<lparr>res_content = asc ''from n'', res_model = asc ''n/n'', res_usage = None,
          res_raw = \<lparr>or_model = None, or_first_content = ContentString (asc ''from n''), or_usage = None\<rparr>\<rparr>"
  by (simp add: chatCompletion_def mo429_def reply_text_def normalizeContent_def toUsage_def)

text \<open>
  Claim C1, as stated, fails in its last part: a successful call does not report the
  models it attempted. On the pool M, N, O with only N answering, the call that starts
  at M attempts M, N and the call that starts at O attempts O, M, N; both return the
  same value, the response of the provider for N.
\<close>

theorem runRole_success_counterexample:
  "outcome (runRole (pool_server mo429) (mapped_input (asc ''m/m''))) =
     outcome (runRole (pool_server mo429) (mapped_input (asc ''o/o'')))
   \<and> outcome (runRole (pool_server mo429) (mapped_input (asc ''m/m''))) =
     Inr \<lparr>res_content = asc ''from n'', res_model = asc ''n/n'', res_usage = None,
          res_raw = \<lparr>or_model = None, or_first_content = ContentString (asc ''from n''), or_usage = None\<rparr>\<rparr>
   \<and> called_models (events (runRole (pool_server mo429) (mapped_input (asc ''m/m'')))) =
       [asc ''m/m'', asc ''n/n'']
   \<and> called_models (events (runRole (pool_server mo429) (mapped_input (asc ''o/o'')))) =
       [asc ''o/o'', asc ''m/m'', asc ''n/n'']"
proof -
  let ?srv = "pool_server mo429"
  let ?prov = "\<lparr>apiKey = asc ''sk-or-v1-key'', baseUrl = defaultBaseUrl, referer = None, appTitle = None\<rparr>"
  have ne: "asc ''m/m'' \<noteq> asc ''n/n''" "asc ''o/o'' \<noteq> asc ''n/n''"
    by (simp_all add: asc_def)
  have stop: "\<not> rate_limited (remote_service ?srv) ?prov (request_for ?srv input (asc ''n/n''))" for input
    by (simp add: rate_limited_def mo429_answers)
  have f1: "getFallbackModels (process_env ?srv) (asc ''m/m'') = [] @ asc ''n/n'' # [asc ''o/o'']"
    by (simp add: pool_getFallbackModels)
  have f2: "getFallbackModels (process_env ?srv) (asc ''o/o'') = [asc ''m/m''] @ asc ''n/n'' # []"
    by (simp add: pool_getFallbackModels_o)
  have pre2: "list_all (\<lambda>x. rate_limited (remote_service ?srv) ?prov
                 (request_for ?srv (mapped_input (asc ''o/o'')) x)) [asc ''m/m'']"
    by (simp add: mo429_limited ne)
  have r1: "runRole ?srv (mapped_input (asc ''m/m'')) =
      \<lparr>outcome = chatCompletion (remote_service ?srv) ?prov
                   (request_for ?srv (mapped_input (asc ''m/m'')) (asc ''n/n'')),
       events = Call (request_for ?srv (mapped_input (asc ''m/m'')) (asc ''m/m''))
                # retries (request_for ?srv (mapped_input (asc ''m/m''))) ([] @ [asc ''n/n'']),
       attemptedModels = Some (asc ''m/m'' # [] @ [asc ''n/n''])\<rparr>"
    by (rule runRole_fallback_stops [OF pool_resolved pool_provider mo429_limited pool_allowFallback f1 _ stop])
       (simp_all add: ne)
  have r2: "runRole ?srv (mapped_input (asc ''o/o'')) =
      \<lparr>outcome = chatCompletion (remote_service ?srv) ?prov
                   (request_for ?srv (mapped_input (asc ''o/o'')) (asc ''n/n'')),
       events = Call (request_for ?srv (mapped_input (asc ''o/o'')) (asc ''o/o''))
                # retries (request_for ?srv (mapped_input (asc ''o/o''))) ([asc ''m/m''] @ [asc ''n/n'']),
       attemptedModels = Some (asc ''o/o'' # [asc ''m/m''] @ [asc ''n/n''])\<rparr>"
    by (rule runRole_fallback_stops [OF pool_resolved_o pool_provider mo429_limited pool_allowFallback f2 pre2 stop])
       (simp_all add: ne)
  have o1: "outcome (runRole ?srv (mapped_input (asc ''m/m''))) =
     Inr \<lparr>res_content = asc ''from n'', res_model = asc ''n/n'', res_usage = None,
          res_raw = \<lparr>or_model = None, or_first_content = ContentString (asc ''from n''), or_usage = None\<rparr>\<rparr>"
    by (simp add: r1 mo429_answers)
  have o2: "outcome (runRole ?srv (mapped_input (asc ''o/o''))) =
     Inr \<lparr>res_content = asc ''from n'', res_model = asc ''n/n'', res_usage = None,
          res_raw = \<lparr>or_model = None, or_first_content = ContentString (asc ''from n''), or_usage = None\<rparr>\<rparr>"
    by (simp add: r2 mo429_answers)
  have c1: "called_models (events (runRole ?srv (mapped_input (asc ''m/m'')))) = [asc ''m/m'', asc ''n/n'']"
    by (simp add: r1 called_models_Cons_Call called_models_retries)
  have c2: "called_models (events (runRole ?srv (mapped_input (asc ''o/o'')))) =
       [asc ''o/o'', asc ''m/m'', asc ''n/n'']"
    by (simp add: r2 called_models_Cons_Call called_models_retries)
  from o1 o2 c1 c2 show ?thesis by simp
qed

text \<open>
  Claim C1, amended. Take a call of \<open>runRole\<close> whose model resolves to \<open>m\<close>, whose
  first attempt fails with status 429, and for which fallback is allowed. The models it
  then retries are the available models without \<open>m\<close>, in the order of the pool. If
  the first of them to answer is \<open>f\<close> (the models \<open>pre\<close> before it are all
  rate-limited too), \<open>runRole\<close> returns the response of the provider for \<open>f\<close>; its
  trace is the first request, then for each model of \<open>pre\<close> and for \<open>f\<close> a delay of
  200 ms followed by the request; the models attempted, that is the models of the
  requests and the local list \<open>attemptedModels\<close>, are \<open>m\<close>, \<open>pre\<close>, \<open>f\<close>;
  and no model \<open>post\<close> after \<open>f\<close> in the pool is called.
\<close>

theorem runRole_fallback_first_success:
  assumes "resolved_model srv input = Inr m"
    and "getProvider srv = Inr prov"
    and "rate_limited (remote_service srv) prov (request_for srv input m)"
    and "allowFallback input"
    and "filter (\<lambda>x. x \<noteq> m) (getAvailableModels (process_env srv)) = pre @ f # post"
    and "list_all (\<lambda>x. rate_limited (remote_service srv) prov (request_for srv input x)) pre"
    and "chatCompletion (remote_service srv) prov (request_for srv input f) = Inr response"
  shows "runRole srv input =
           \<lparr>outcome = Inr response,
            events = Call (request_for srv input m) # retries (request_for srv input) (pre @ [f]),
            attemptedModels = Some (m # pre @ [f])\<rparr>
         \<and> called_models (events (runRole srv input)) = m # pre @ [f]
         \<and> list_all (\<lambda>x. x \<notin> set (called_models (events (runRole srv input)))) post"
proof -
  from assms(3) obtain e where e: "chatCompletion (remote_service srv) prov (request_for srv input m) = Inl e"
    and lim: "is_rate_limit e"
    by (auto simp: rate_limited_def split: sum.splits)
  from assms(7) have stop: "\<not> rate_limited (remote_service srv) prov (request_for srv input f)"
    by (simp add: rate_limited_def)
  have run: "runRole srv input =
      fallback_loop (remote_service srv) prov (request_for srv input) e (pre @ f # post) [m]
        [Call (request_for srv input m)]"
    using assms(1,2,4,5) e lim by (simp add: runRole_def getFallbackModels_def)
  have eq: "runRole srv input =
           \<lparr>outcome = Inr response,
            events = Call (request_for srv input m) # retries (request_for srv input) (pre @ [f]),
            attemptedModels = Some (m # pre @ [f])\<rparr>"
    unfolding run using fallback_loop_stops [OF assms(6) stop] assms(7) by simp
  have called: "called_models (events (runRole srv input)) = m # pre @ [f]"
    by (simp add: eq called_models_Cons_Call called_models_retries)
  have "distinct (pre @ f # post)"
    using assms(5) [symmetric] getAvailableModels_distinct [of "process_env srv"]
    by (simp add: distinct_filter del: distinct_append)
  moreover have "m \<notin> set (pre @ f # post)"
    using assms(5) [symmetric] by simp
  ultimately have "list_all (\<lambda>x. x \<notin> set (m # pre @ [f])) post"
    by (auto simp: list_all_iff)
  with eq called show ?thesis by simp
qed

text \<open>
  The scenario of the specification: the pool is M, N, O; M is rate-limited and N
  answers. The content returned is that of N, the models called and the list
  \<open>attemptedModels\<close> are M, N, and O is not called.
\<close>

theorem runRole_fallback_first_success_witness:
  "outcome (runRole (pool_server mnO_replies) (mapped_input (asc ''m/m''))) =
     Inr \<lparr>res_content = asc ''from n'', res_model = asc ''n/n'', res_usage = None,
          res_raw = \<lparr>or_model = None, or_first_content = ContentString (asc ''from n''), or_usage = None\<rparr>\<rparr>
   \<and> called_models (events (runRole (pool_server mnO_replies) (mapped_input (asc ''m/m'')))) =
       [asc ''m/m'', asc ''n/n'']
   \<and> attemptedModels (runRole (pool_server mnO_replies) (mapped_input (asc ''m/m''))) =
       Some [asc ''m/m'', asc ''n/n'']
   \<and> asc ''o/o'' \<notin> set (called_models (events (runRole (pool_server mnO_replies) (mapped_input (asc ''m/m'')))))
   \<and> events (runRole (pool_server mnO_replies) (mapped_input (asc ''m/m''))) =
       [Call (request_for (pool_server mnO_replies) (mapped_input (asc ''m/m'')) (asc ''m/m'')),
        Sleep 200,
        Call (request_for (pool_server mnO_replies) (mapped_input (asc ''m/m'')) (asc ''n/n''))]"
proof -
  let ?srv = "pool_server mnO_replies" and ?inp = "mapped_input (asc ''m/m'')"
  let ?prov = "\<lparr>apiKey = asc ''sk-or-v1-key'', baseUrl = defaultBaseUrl, referer = None, appTitle = None\<rparr>"
  have h3: "rate_limited (remote_service ?srv) ?prov (request_for ?srv ?inp (asc ''m/m''))"
    by (simp add: rate_limited_def chatCompletion_def mnO_replies_def newOpenRouterHttpError_def
        is_rate_limit_def)
  have h6: "list_all (\<lambda>x. rate_limited (remote_service ?srv) ?prov (request_for ?srv ?inp x)) []"
    by simp
  have h7: "chatCompletion (remote_service ?srv) ?prov (request_for ?srv ?inp (asc ''n/n'')) =
      Inr \<lparr>res_content = asc ''from n'', res_model = asc ''n/n'', res_usage = None,
          res_raw = \<lparr>or_model = None, or_first_content = ContentString (asc ''from n''), or_usage = None\<rparr>\<rparr>"
    by (simp add: chatCompletion_def mnO_replies_def reply_text_def normalizeContent_def toUsage_def)
      (simp add: asc_def)
  note main = runRole_fallback_first_success [OF pool_resolved pool_provider h3 pool_allowFallback
      pool_fallbacks h6 h7]
  from main have run: "runRole ?srv ?inp =
           \<lparr>outcome = Inr \<lparr>res_content = asc ''from n'', res_model = asc ''n/n'', res_usage = None,
              res_raw = \<lparr>or_model = None, or_first_content = ContentString (asc ''from n''), or_usage = None\<rparr>\<rparr>,
            events = Call (request_for ?srv ?inp (asc ''m/m'')) # retries (request_for ?srv ?inp) ([] @ [asc ''n/n'']),
            attemptedModels = Some (asc ''m/m'' # [] @ [asc ''n/n''])\<rparr>"
    by (rule conjunct1)
  from main have called: "called_models (events (runRole ?srv ?inp)) = asc ''m/m'' # [] @ [asc ''n/n'']"
    by (rule conjunct2 [THEN conjunct1])
  from main have later: "list_all (\<lambda>x. x \<notin> set (called_models (events (runRole ?srv ?inp)))) [asc ''o/o'']"
    by (rule conjunct2 [THEN conjunct2])
  have c1: "outcome (runRole ?srv ?inp) =
     Inr \<lparr>res_content = asc ''from n'', res_model = asc ''n/n'', res_usage = None,
          res_raw = \<lparr>or_model = None, or_first_content = ContentString (asc ''from n''), or_usage = None\<rparr>\<rparr>"
    by (simp add: run)
  have c2: "called_models (events (runRole ?srv ?inp)) = [asc ''m/m'', asc ''n/n'']"
    using called by simp
  have c3: "attemptedModels (runRole ?srv ?inp) = Some [asc ''m/m'', asc ''n/n'']"
    by (simp add: run)
  have c4: "asc ''o/o'' \<notin> set (called_models (events (runRole ?srv ?inp)))"
    using later by simp
  have c5: "events (runRole ?srv ?inp) =
       [Call (request_for ?srv ?inp (asc ''m/m'')), Sleep 200, Call (request_for ?srv ?inp (asc ''n/n''))]"
    by (simp add: run retries_def)
  from c1 c2 c3 c4 c5 show ?thesis by blast
qed

subsection \<open>Failures that end the call\<close>

text \<open>
  Claim C2. Let the first attempt of \<open>runRole\<close>, on the model \<open>m\<close>, fail with
  \<open>e\<close>. If \<open>e\<close> is not a rate limit (status 429), or fallback is not allowed,
  \<open>e\<close> is thrown and no other request is sent. Otherwise: a fallback model that fails
  with an error \<open>e'\<close> that is not a rate limit ends the call with \<open>e'\<close>, no later
  model being tried; and when every fallback model is rate-limited too, the one error
  thrown has status 429 and a message that contains the name of each model
  attempted, \<open>m\<close> and all the fallback models.
\<close>

theorem runRole_failure_propagation:
  assumes "resolved_model srv input = Inr m"
    and "getProvider srv = Inr prov"
    and "chatCompletion (remote_service srv) prov (request_for srv input m) = Inl e"
  shows "(\<not> is_rate_limit e \<or> \<not> allowFallback input \<longrightarrow>
            runRole srv input =
              \<lparr>outcome = Inl e, events = [Call (request_for srv input m)], attemptedModels = None\<rparr>)
       \<and> (is_rate_limit e \<and> allowFallback input \<longrightarrow>
            (\<forall>pre f post e'.
               getFallbackModels (process_env srv) m = pre @ f # post
               \<and> list_all (\<lambda>x. rate_limited (remote_service srv) prov (request_for srv input x)) pre
               \<and> chatCompletion (remote_service srv) prov (request_for srv input f) = Inl e'
               \<and> \<not> is_rate_limit e'
               \<longrightarrow> runRole srv input =
                     \<lparr>outcome = Inl e',
                      events = Call (request_for srv input m) # retries (request_for srv input) (pre @ [f]),
                      attemptedModels = Some (m # pre @ [f])\<rparr>)
          \<and> (list_all (\<lambda>x. rate_limited (remote_service srv) prov (request_for srv input x))
                 (getFallbackModels (process_env srv) m)
               \<longrightarrow> runRole srv input =
                     \<lparr>outcome = Inl (OpenRouterHttpError 429 (responseBody e)
                                   (rate_limited_message (m # getFallbackModels (process_env srv) m))),
                      events = Call (request_for srv input m)
                               # retries (request_for srv input) (getFallbackModels (process_env srv) m),
                      attemptedModels = Some (m # getFallbackModels (process_env srv) m)\<rparr>
                   \<and> list_all (js_includes (rate_limited_message (m # getFallbackModels (process_env srv) m)))
                        (m # getFallbackModels (process_env srv) m)))"
proof (intro conjI impI allI)
  assume "\<not> is_rate_limit e \<or> \<not> allowFallback input"
  then show "runRole srv input =
      \<lparr>outcome = Inl e, events = [Call (request_for srv input m)], attemptedModels = None\<rparr>"
    using assms by (auto simp: runRole_def)
next
  fix pre f post e'
  assume lim: "is_rate_limit e \<and> allowFallback input"
    and h: "getFallbackModels (process_env srv) m = pre @ f # post
        \<and> list_all (\<lambda>x. rate_limited (remote_service srv) prov (request_for srv input x)) pre
        \<and> chatCompletion (remote_service srv) prov (request_for srv input f) = Inl e'
        \<and> \<not> is_rate_limit e'"
  from h have stop: "\<not> rate_limited (remote_service srv) prov (request_for srv input f)"
    by (simp add: rate_limited_def)
  from h have pre: "list_all (\<lambda>x. rate_limited (remote_service srv) prov (request_for srv input x)) pre"
    by simp
  have "runRole srv input =
      fallback_loop (remote_service srv) prov (request_for srv input) e (pre @ f # post) [m]
        [Call (request_for srv input m)]"
    using assms lim h by (simp add: runRole_def)
  then show "runRole srv input =
      \<lparr>outcome = Inl e',
       events = Call (request_for srv input m) # retries (request_for srv input) (pre @ [f]),
       attemptedModels = Some (m # pre @ [f])\<rparr>"
    using fallback_loop_stops [OF pre stop] h by simp
next
  assume lim: "is_rate_limit e \<and> allowFallback input"
    and all: "list_all (\<lambda>x. rate_limited (remote_service srv) prov (request_for srv input x))
                 (getFallbackModels (process_env srv) m)"
  have "runRole srv input =
      fallback_loop (remote_service srv) prov (request_for srv input) e
        (getFallbackModels (process_env srv) m) [m] [Call (request_for srv input m)]"
    using assms lim by (simp add: runRole_def)
  then show "runRole srv input =
      \<lparr>outcome = Inl (OpenRouterHttpError 429 (responseBody e)
                    (rate_limited_message (m # getFallbackModels (process_env srv) m))),
       events = Call (request_for srv input m)
                # retries (request_for srv input) (getFallbackModels (process_env srv) m),
       attemptedModels = Some (m # getFallbackModels (process_env srv) m)\<rparr>"
    using fallback_loop_exhausted [OF all] by (simp add: newOpenRouterHttpError_def)
next
  show "list_all (js_includes (rate_limited_message (m # getFallbackModels (process_env srv) m)))
          (m # getFallbackModels (process_env srv) m)"
    unfolding list_all_iff using rate_limited_message_names by blast
qed

text \<open>
  Four runs on the pool M, N, O: M fails with status 500; M is pinned and
  rate-limited; M is rate-limited and N fails with status 500; all three are
  rate-limited.
\<close>

theorem runRole_failure_propagation_witness:
  "runRole (pool_server (always 500)) (mapped_input (asc ''m/m'')) =
     \<lparr>outcome = Inl (newOpenRouterHttpError 500 (asc ''busy'') None),
      events = [Call (request_for (pool_server (always 500)) (mapped_input (asc ''m/m'')) (asc ''m/m''))],
      attemptedModels = None\<rparr>
   \<and> runRole (pool_server (always 429)) (pinned_input (asc ''m/m'')) =
     \<lparr>outcome = Inl (newOpenRouterHttpError 429 (asc ''busy'') None),
      events = [Call (request_for (pool_server (always 429)) (pinned_input (asc ''m/m'')) (asc ''m/m''))],
      attemptedModels = None\<rparr>
   \<and> outcome (runRole (pool_server m429_n500) (mapped_input (asc ''m/m''))) =
       Inl (newOpenRouterHttpError 500 (asc ''broken'') None)
   \<and> called_models (events (runRole (pool_server m429_n500) (mapped_input (asc ''m/m'')))) =
       [asc ''m/m'', asc ''n/n'']
   \<and> outcome (runRole (pool_server (always 429)) (mapped_input (asc ''m/m''))) =
       Inl (OpenRouterHttpError 429 (asc ''busy'')
              (asc ''OpenRouter free models are currently rate-limited. Tried: m/m, n/n, o/o. Please retry shortly or use BYOK (your own provider key).''))
   \<and> called_models (events (runRole (pool_server (always 429)) (mapped_input (asc ''m/m'')))) =
       [asc ''m/m'', asc ''n/n'', asc ''o/o'']"
proof -
  let ?prov = "\<lparr>apiKey = asc ''sk-or-v1-key'', baseUrl = defaultBaseUrl, referer = None, appTitle = None\<rparr>"
  let ?mi = "mapped_input (asc ''m/m'')" and ?pi = "pinned_input (asc ''m/m'')"
  \<comment> \<open>a failure that is not a rate limit\<close>
  have a: "chatCompletion (remote_service (pool_server (always 500))) ?prov
             (request_for (pool_server (always 500)) ?mi (asc ''m/m''))
           = Inl (newOpenRouterHttpError 500 (asc ''busy'') None)"
    by (rule chat_not_ok) (simp add: always_def)
  have c1: "runRole (pool_server (always 500)) ?mi =
     \<lparr>outcome = Inl (newOpenRouterHttpError 500 (asc ''busy'') None),
      events = [Call (request_for (pool_server (always 500)) ?mi (asc ''m/m''))],
      attemptedModels = None\<rparr>"
    using runRole_failure_propagation [OF pool_resolved pool_provider a] by simp
  \<comment> \<open>a rate limit on a pinned model\<close>
  have b: "chatCompletion (remote_service (pool_server (always 429))) ?prov
             (request_for (pool_server (always 429)) ?pi (asc ''m/m''))
           = Inl (newOpenRouterHttpError 429 (asc ''busy'') None)"
    by (rule chat_not_ok) (simp add: always_def)
  have c2: "runRole (pool_server (always 429)) ?pi =
     \<lparr>outcome = Inl (newOpenRouterHttpError 429 (asc ''busy'') None),
      events = [Call (request_for (pool_server (always 429)) ?pi (asc ''m/m''))],
      attemptedModels = None\<rparr>"
    using runRole_failure_propagation [OF pinned_resolved pool_provider b] pinned_no_fallback by simp
  \<comment> \<open>a fallback model that fails with another status\<close>
  have c: "chatCompletion (remote_service (pool_server m429_n500)) ?prov
             (request_for (pool_server m429_n500) ?mi (asc ''m/m''))
           = Inl (newOpenRouterHttpError 429 (asc ''busy'') None)"
    by (rule chat_not_ok) (simp add: m429_n500_def)
  have cn: "chatCompletion (remote_service (pool_server m429_n500)) ?prov
             (request_for (pool_server m429_n500) ?mi (asc ''n/n''))
           = Inl (newOpenRouterHttpError 500 (asc ''broken'') None)"
    by (rule chat_not_ok) (simp add: m429_n500_def asc_def)
  have split: "getFallbackModels (process_env (pool_server m429_n500)) (asc ''m/m'') =
      [] @ asc ''n/n'' # [asc ''o/o'']"
    by (simp add: pool_getFallbackModels)
  have lim: "is_rate_limit (newOpenRouterHttpError 429 (asc ''busy'') None) \<and> allowFallback ?mi"
    by (simp add: pool_allowFallback)
  note stop =
    runRole_failure_propagation [OF pool_resolved pool_provider c, THEN conjunct2, THEN mp, OF lim,
      THEN conjunct1, rule_format,
      where pre = "[]" and f = "asc ''n/n''" and post = "[asc ''o/o'']"
        and e' = "newOpenRouterHttpError 500 (asc ''broken'') None"]
  have "runRole (pool_server m429_n500) ?mi =
      \<lparr>outcome = Inl (newOpenRouterHttpError 500 (asc ''broken'') None),
       events = Call (request_for (pool_server m429_n500) ?mi (asc ''m/m''))
                # retries (request_for (pool_server m429_n500) ?mi) ([] @ [asc ''n/n'']),
       attemptedModels = Some (asc ''m/m'' # [] @ [asc ''n/n''])\<rparr>"
    by (rule stop) (simp add: split cn)
  then have c3: "outcome (runRole (pool_server m429_n500) ?mi) =
        Inl (newOpenRouterHttpError 500 (asc ''broken'') None)"
    and c4: "called_models (events (runRole (pool_server m429_n500) ?mi)) = [asc ''m/m'', asc ''n/n'']"
    by (simp_all add: called_models_Cons_Call called_models_retries)
  \<comment> \<open>every model rate-limited\<close>
  have d: "chatCompletion (remote_service (pool_server (always 429))) ?prov
             (request_for (pool_server (always 429)) ?mi (asc ''m/m''))
           = Inl (newOpenRouterHttpError 429 (asc ''busy'') None)"
    by (rule chat_not_ok) (simp add: always_def)
  have all: "list_all (\<lambda>x. rate_limited (remote_service (pool_server (always 429))) ?prov
                 (request_for (pool_server (always 429)) ?mi x))
               (getFallbackModels (process_env (pool_server (always 429))) (asc ''m/m''))"
    by (simp add: pool_getFallbackModels rate_limited_def chatCompletion_def always_def)
  note exhausted =
    runRole_failure_propagation [OF pool_resolved pool_provider d, THEN conjunct2, THEN mp, OF lim,
      THEN conjunct2, THEN mp, OF all, THEN conjunct1]
  have "runRole (pool_server (always 429)) ?mi =
      \<lparr>outcome = Inl (OpenRouterHttpError 429 (asc ''busy'')
                    (rate_limited_message [asc ''m/m'', asc ''n/n'', asc ''o/o''])),
       events = Call (request_for (pool_server (always 429)) ?mi (asc ''m/m''))
                # retries (request_for (pool_server (always 429)) ?mi) [asc ''n/n'', asc ''o/o''],
       attemptedModels = Some [asc ''m/m'', asc ''n/n'', asc ''o/o'']\<rparr>"
    using exhausted by (simp add: pool_getFallbackModels)
  then have c5: "outcome (runRole (pool_server (always 429)) ?mi) =
       Inl (OpenRouterHttpError 429 (asc ''busy'')
              (asc ''OpenRouter free models are currently rate-limited. Tried: m/m, n/n, o/o. Please retry shortly or use BYOK (your own provider key).''))"
    and c6: "called_models (events (runRole (pool_server (always 429)) ?mi)) =
       [asc ''m/m'', asc ''n/n'', asc ''o/o'']"
    by (simp_all add: called_models_Cons_Call called_models_retries rate_limited_message_def asc_def)
  from c1 c2 c3 c4 c5 c6 show ?thesis by blast
qed

subsection \<open>The model of a call\<close>

lemma trim_bad_model: "trim (asc ''bad model'') = asc ''bad model''"
  by (simp add: trim_def asc_def is_js_space_def)

lemma bad_model_not_allowed: "\<not> isAllowedModel pool_env (asc ''bad model'')"
  by (simp add: isAllowedModel_def Let_def trim_bad_model pool_models)
     (simp add: asc_def model_id_pattern_def is_vendor_char_def is_name_char_def)

lemma n_allowed: "isAllowedModel pool_env (asc ''n/n'')"
  by (simp add: isAllowedModel_def Let_def pool_models)
     (simp add: asc_def trim_def is_js_space_def)

lemma trim_n: "trim (asc ''n/n'') = asc ''n/n''"
  by (simp add: trim_def asc_def is_js_space_def)

text \<open>
  Claim C6, as stated, fails: \<open>runRole\<close> does not test whether the explicit model is
  allowed. With the explicit model "bad model" (not in the pool, no slash) and the
  role map sending the role to the allowed n/n, the claimed precedence gives n/n,
  but \<open>runRole\<close> resolves to "bad model" and sends its request for that model.
\<close>

theorem resolved_model_explicit_counterexample:
  "resolved_model (pool_server mnO_replies) (pinned_mapped_input (asc ''bad model'') (asc ''n/n'')) =
     Inr (asc ''bad model'')
   \<and> \<not> isAllowedModel pool_env (asc ''bad model'')
   \<and> claimed_resolution pool_env (Some (asc ''bad model'')) (Some (\<lambda>r. Some (asc ''n/n''))) refiner =
     Inr (asc ''n/n'')
   \<and> called_models (events (runRole (pool_server mnO_replies)
         (pinned_mapped_input (asc ''bad model'') (asc ''n/n'')))) = [asc ''bad model'']"
proof -
  let ?inp = "pinned_mapped_input (asc ''bad model'') (asc ''n/n'')"
  have r: "resolved_model (pool_server mnO_replies) ?inp = Inr (asc ''bad model'')"
    by (simp add: resolved_model_def explicitModel_def pinned_mapped_input_def trim_opt_def trim_bad_model)
       (simp add: asc_def)
  have c: "claimed_resolution pool_env (Some (asc ''bad model'')) (Some (\<lambda>r. Some (asc ''n/n''))) refiner =
     Inr (asc ''n/n'')"
    by (simp add: claimed_resolution_def Let_def trim_opt_def trim_bad_model trim_n
        bad_model_not_allowed n_allowed)
       (simp add: asc_def)
  have chat: "chatCompletion (remote_service (pool_server mnO_replies))
        \<lparr>apiKey = asc ''sk-or-v1-key'', baseUrl = defaultBaseUrl, referer = None, appTitle = None\<rparr>
        (request_for (pool_server mnO_replies) ?inp (asc ''bad model'')) =
      Inr \<lparr>res_content = asc ''from o'', res_model = asc ''bad model'', res_usage = None,
          res_raw = \<lparr>or_model = None, or_first_content = ContentString (asc ''from o''), or_usage = None\<rparr>\<rparr>"
    by (simp add: chatCompletion_def mnO_replies_def reply_text_def normalizeContent_def toUsage_def)
       (simp add: asc_def)
  have e: "called_models (events (runRole (pool_server mnO_replies) ?inp)) = [asc ''bad model'']"
    by (simp add: runRole_def r pool_provider chat called_models_Cons_Call) (simp add: called_models_def)
  from r c e bad_model_not_allowed show ?thesis by blast
qed

text \<open>
  Claim C6, amended. The model of a call is: the explicit model of the request,
  trimmed, if it is present and not empty, whether it is allowed or not; else the
  role's entry of the role map, trimmed, if it is present, not empty and allowed;
  else the static default of the role if it is allowed; else the first entry of the
  pool; and the configuration error is thrown only when the default is not allowed and
  the pool is empty.
\<close>

theorem resolved_model_precedence:
  "resolved_model srv input =
     (let requested = trim_opt (in_model input);
          entry = (case in_roleModelMap input of
                     None \<Rightarrow> None
                   | Some mp \<Rightarrow> trim_opt (mp (in_role input)))
      in if truthy requested then Inr (the requested)
         else if truthy entry \<and> isAllowedModel (process_env srv) (the entry) then Inr (the entry)
         else if isAllowedModel (process_env srv) (DEFAULT_ROLE_MODEL_MAP (in_role input))
           then Inr (DEFAULT_ROLE_MODEL_MAP (in_role input))
         else (case getAvailableModels (process_env srv) of
                 x # _ \<Rightarrow> Inr x
               | [] \<Rightarrow> Inl (Error no_models_message)))"
  by (simp add: resolved_model_def explicitModel_def resolveModelForRole_cases Let_def
      isAllowedModel_default)

theorem resolved_model_precedence_witness:
  "resolved_model (pool_server mnO_replies) (mapped_input (asc '' n/n '')) = Inr (asc ''n/n'')"
proof -
  have t: "trim (asc '' n/n '') = asc ''n/n''"
    by (simp add: trim_def asc_def is_js_space_def)
  show ?thesis
    using resolved_model_precedence [of "pool_server mnO_replies" "mapped_input (asc '' n/n '')"]
    by (simp add: mapped_input_def trim_opt_def t n_allowed pool_server_def) (simp add: asc_def)
qed

text \<open>
  Claim C8. When the caller passes no \<open>allowFallback\<close>, fallback is allowed exactly
  when the request pins no explicit model, that is, when its \<open>model\<close> is undefined or
  empty once trimmed. Where it is allowed by this default the model of the call comes
  from \<open>resolveModelForRole\<close>; where it is not, the model is the pinned one.
\<close>

theorem allowFallback_default:
  assumes "in_allowFallback input = None"
  shows "allowFallback input = (case in_model input of None \<Rightarrow> True | Some m \<Rightarrow> trim m = [])
       \<and> (if allowFallback input
           then resolved_model srv input =
                  resolveModelForRole (process_env srv) (in_role input) (in_roleModelMap input)
           else resolved_model srv input = Inr (trim (the (in_model input))))"
  using assms
  by (cases "in_model input")
     (simp_all add: allowFallback_def explicitModel_def trim_opt_def resolved_model_def)

theorem allowFallback_default_witness:
  "allowFallback (mapped_input (asc ''m/m''))
   \<and> \<not> allowFallback (pinned_input (asc ''m/m''))
   \<and> allowFallback (pinned_input (asc ''  ''))"
proof -
  have n1: "in_allowFallback (mapped_input (asc ''m/m'')) = None"
    and n2: "in_allowFallback (pinned_input (asc ''m/m'')) = None"
    and n3: "in_allowFallback (pinned_input (asc ''  '')) = None"
    by (simp_all add: mapped_input_def pinned_input_def)
  have t2: "trim (asc ''m/m'') \<noteq> []" and t3: "trim (asc ''  '') = []"
    by (simp_all add: trim_def asc_def is_js_space_def)
  have a: "allowFallback (mapped_input (asc ''m/m''))"
    using allowFallback_default [OF n1, of "pool_server mnO_replies"] by (simp add: mapped_input_def)
  have b: "\<not> allowFallback (pinned_input (asc ''m/m''))"
    using allowFallback_default [OF n2, of "pool_server mnO_replies"] t2 by (simp add: pinned_input_def)
  have c: "allowFallback (pinned_input (asc ''  ''))"
    using allowFallback_default [OF n3, of "pool_server mnO_replies"] t3 by (simp add: pinned_input_def)
  from a b c show ?thesis by blast
qed

subsection \<open>The token budget\<close>

lemma resolveMaxTokens_le_cap:
  "resolveMaxTokens srv r override \<le>
     nullish (parsePositiveInt (Number_parseInt srv) (process_env srv (asc ''OPENROUTER_MAX_TOKENS_CAP''))) 4096"
  by (simp add: resolveMaxTokens_def Let_def)

lemma floor_half: "\<lfloor>(1::rat) / 2\<rfloor> = 0"
  by (rule floor_unique) simp_all

lemma parsePositiveInt_positive: "parsePositiveInt parseInt raw = Some v \<Longrightarrow> 0 < v"
  by (auto simp: parsePositiveInt_def split: option.splits if_splits jsnumber.splits)

lemma defaultRoleMaxTokens_positive: "0 < defaultRoleMaxTokens r"
  by (cases r) simp_all

text \<open>
  The budget is positive for every override that is absent, not finite, not positive
  or at least 1.
\<close>

lemma resolveMaxTokens_positive:
  assumes "\<And>v. override = Some (Finite v) \<Longrightarrow> v \<le> 0 \<or> 1 \<le> v"
  shows "0 < resolveMaxTokens srv r override"
proof -
  let ?cap = "parsePositiveInt (Number_parseInt srv) (process_env srv (asc ''OPENROUTER_MAX_TOKENS_CAP''))"
  let ?env = "parsePositiveInt (Number_parseInt srv)
                (process_env srv (asc ''OPENROUTER_MAX_TOKENS_'' @ ascii_toUpperCase (role_name r)))"
  have cap: "0 < nullish ?cap 4096"
    by (cases ?cap) (simp_all add: parsePositiveInt_positive)
  have env: "0 < nullish ?env (defaultRoleMaxTokens r)"
    by (cases ?env) (simp_all add: parsePositiveInt_positive defaultRoleMaxTokens_positive)
  show ?thesis
  proof (cases override)
    case None
    with cap env show ?thesis by (simp add: resolveMaxTokens_def Let_def)
  next
    case (Some n)
    show ?thesis
    proof (cases n)
      case (Finite v)
      with Some assms have "v \<le> 0 \<or> 1 \<le> v" by simp
      then show ?thesis
      proof
        assume "v \<le> 0"
        with Some Finite cap env show ?thesis by (simp add: resolveMaxTokens_def Let_def)
      next
        assume "1 \<le> v"
        then have "1 \<le> \<lfloor>v\<rfloor>" by linarith
        then have "(0::rat) < of_int \<lfloor>v\<rfloor>" by simp
        with Some Finite cap \<open>1 \<le> v\<close> show ?thesis by (simp add: resolveMaxTokens_def Let_def)
      qed
    qed (use Some cap env in \<open>simp_all add: resolveMaxTokens_def Let_def\<close>)
  qed
qed

text \<open>With a global cap of 500, an override of 900 gives the budget 500.\<close>

lemma resolveMaxTokens_capped_override:
  assumes "parsePositiveInt (Number_parseInt srv)
             (process_env srv (asc ''OPENROUTER_MAX_TOKENS_CAP'')) = Some 500"
  shows "resolveMaxTokens srv r (Some (Finite 900)) = 500"
  using assms by (simp add: resolveMaxTokens_def Let_def)

text \<open>
  Claim C7. The budget is the minimum of a base value and the global cap, and never
  exceeds the cap (\<open>resolveMaxTokens_le_cap\<close>); with the cap 4096 of an empty
  environment an override of 900 gives 900, and the refiner's default is 500. But it
  is not always positive: the code keeps an override that is greater than 0 and takes
  its floor, so an override between 0 and 1 becomes the budget 0.
\<close>

theorem resolveMaxTokens_fractional_override:
  "resolveMaxTokens (pool_server mnO_replies) refiner (Some (Finite 0.5)) = 0
   \<and> resolveMaxTokens (pool_server mnO_replies) refiner (Some (Finite 900)) = 900
   \<and> resolveMaxTokens (pool_server mnO_replies) refiner None = 500"
  by (simp add: resolveMaxTokens_def Let_def pool_server_def pool_env_def parsePositiveInt_def
      ascii_toUpperCase_def asc_def floor_half)

section \<open>Properties of the parser of the page\<close>

lemma js_indexOf_absent: "c \<notin> set s \<Longrightarrow> js_indexOf c s = - 1"
  by (induction s) (auto simp: Let_def)

lemma js_indexOf_nonneg: "c \<in> set s \<Longrightarrow> 0 \<le> js_indexOf c s"
  by (induction s) (auto simp: Let_def)

lemma js_indexOf_first: "c \<notin> set a \<Longrightarrow> js_indexOf c (a @ c # b) = int (length a)"
  by (induction a) (auto simp: Let_def)

lemma js_lastIndexOf_absent: "c \<notin> set s \<Longrightarrow> js_lastIndexOf c s = - 1"
  by (simp add: js_lastIndexOf_def js_indexOf_absent)

lemma js_lastIndexOf_last: "c \<notin> set b \<Longrightarrow> js_lastIndexOf c (a @ c # b) = int (length a)"
proof -
  assume "c \<notin> set b"
  then have "js_indexOf c (rev b @ c # rev a) = int (length (rev b))"
    by (intro js_indexOf_first) simp
  then show ?thesis by (simp add: js_lastIndexOf_def Let_def)
qed

lemma dropWhile_Nil_if: "list_all P xs \<Longrightarrow> dropWhile P xs = []"
  by (induction xs) auto

lemma dropWhile_stop: "list_all P xs \<Longrightarrow> \<not> P y \<Longrightarrow> dropWhile P (xs @ y # ys) = y # ys"
  by (induction xs) auto

lemma list_all_neq: "c \<notin> set xs \<Longrightarrow> list_all (\<lambda>x. x \<noteq> c) xs"
  by (induction xs) auto

lemma brace_span_no_open: "123 \<notin> set t \<Longrightarrow> brace_span t = []"
  by (simp add: brace_span_def dropWhile_Nil_if list_all_neq)

lemma brace_span_no_close:
  assumes "123 \<notin> set a" and "125 \<notin> set b"
  shows "brace_span (a @ 123 # b) = []"
proof -
  have "dropWhile (\<lambda>c. c \<noteq> 123) (a @ 123 # b) = 123 # b"
    using assms(1) by (simp add: dropWhile_stop list_all_neq)
  moreover have "dropWhile (\<lambda>c. c \<noteq> 125) (rev (123 # b)) = []"
    using assms(2) by (intro dropWhile_Nil_if list_all_neq) simp
  ultimately show ?thesis by (simp add: brace_span_def)
qed

lemma brace_span_found:
  assumes "123 \<notin> set a" and "125 \<notin> set b2"
  shows "brace_span (a @ 123 # b1 @ 125 # b2) = 123 # b1 @ [125]"
proof -
  have "dropWhile (\<lambda>c. c \<noteq> 123) (a @ 123 # b1 @ 125 # b2) = 123 # b1 @ 125 # b2"
    using assms(1) by (simp add: dropWhile_stop list_all_neq)
  moreover have "dropWhile (\<lambda>c. c \<noteq> 125) (rev b2 @ 125 # rev b1 @ [123]) = 125 # rev b1 @ [123]"
    using assms(2) by (intro dropWhile_stop list_all_neq) simp_all
  ultimately show ?thesis by (simp add: brace_span_def)
qed

text \<open>The substring the code slices out is the span from the first { to the last }.\<close>

lemma slice_is_brace_span:
  "(if js_indexOf 123 t \<ge> 0 \<and> js_lastIndexOf 125 t > js_indexOf 123 t
    then Some (js_slice t (js_indexOf 123 t) (js_lastIndexOf 125 t + 1)) else None)
   = (if brace_span t = [] then None else Some (brace_span t))"
proof (cases "123 \<in> set t")
  case False
  then show ?thesis by (simp add: js_indexOf_absent brace_span_no_open)
next
  case True
  then obtain a b where t: "t = a @ 123 # b" and a: "123 \<notin> set a"
    using split_list_first by fastforce
  have first: "js_indexOf 123 t = int (length a)"
    using a by (simp add: t js_indexOf_first)
  show ?thesis
  proof (cases "125 \<in> set b")
    case True
    then obtain b1 b2 where b: "b = b1 @ 125 # b2" and b2: "125 \<notin> set b2"
      using split_list_last by fastforce
    have "js_lastIndexOf 125 ((a @ 123 # b1) @ 125 # b2) = int (length (a @ 123 # b1))"
      using b2 by (rule js_lastIndexOf_last)
    then have last: "js_lastIndexOf 125 t = int (length a) + 1 + int (length b1)"
      by (simp add: t b)
    have span: "brace_span t = 123 # b1 @ [125]"
      using a b2 by (simp add: t b brace_span_found)
    have "js_slice t (int (length a)) (int (length a) + 1 + int (length b1) + 1) = 123 # b1 @ [125]"
      by (simp add: js_slice_def t b nat_add_distrib)
    with first last span show ?thesis by simp
  next
    case False
    then have span: "brace_span t = []"
      using a by (simp add: t brace_span_no_close)
    have "js_lastIndexOf 125 t \<le> js_indexOf 123 t"
    proof (cases "125 \<in> set a")
      case True
      then obtain a1 a2 where s: "a = a1 @ 125 # a2" and a2: "125 \<notin> set a2"
        using split_list_last by fastforce
      have "js_lastIndexOf 125 (a1 @ 125 # (a2 @ 123 # b)) = int (length a1)"
        using a2 False by (intro js_lastIndexOf_last) simp
      moreover have "t = a1 @ 125 # (a2 @ 123 # b)"
        by (simp add: t s)
      ultimately have "js_lastIndexOf 125 t = int (length a1)"
        by simp
      moreover have "int (length a1) \<le> int (length a)"
        by (simp add: s)
      ultimately show ?thesis using first by simp
    next
      case no: False
      with False have "125 \<notin> set t" by (simp add: t)
      then show ?thesis by (simp add: js_lastIndexOf_absent first)
    qed
    with span show ?thesis by simp
  qed
qed

lemma parseJsonObject_claimed:
  "parseJsonObject jparse raw =
     (if trim raw = [] then None else claimed_object jparse (trim raw))"
proof -
  let ?t = "trim raw"
  have inner: "(if js_indexOf 123 ?t \<ge> 0 \<and> js_lastIndexOf 125 ?t > js_indexOf 123 ?t
      then (case jparse (js_slice ?t (js_indexOf 123 ?t) (js_lastIndexOf 125 ?t + 1)) of
              None \<Rightarrow> None
            | Some v \<Rightarrow> (case plain_object (Some v) of Some props \<Rightarrow> Some props | None \<Rightarrow> None))
      else None)
    = (if brace_span ?t = [] then None else plain_object (jparse (brace_span ?t)))"
    using slice_is_brace_span [of ?t]
    by (auto split: option.splits if_splits)
  show ?thesis
    unfolding parseJsonObject_def claimed_object_def Let_def inner
    by (simp split: option.splits)
qed

lemma readContentsArray_kept: "readContentsArray v = kept_contents v"
proof -
  have "filter (\<lambda>item. length item > 0) (map contents_or_empty items) = concat (map kept_item items)"
    for items
  proof (induction items)
    case Nil
    show ?case by simp
  next
    case (Cons i items)
    then show ?case
      by (cases i) (auto split: option.splits json.splits)
  qed
  then show ?thesis
    by (simp add: readContentsArray_def kept_contents_def split: option.splits json.splits)
qed

text \<open>
  Claim C3. \<open>parseDebaterOutput\<close> returns null exactly when the trimmed input is
  empty, or no JSON object is parsed from the whole trimmed text or from its span from
  the first \<open>{\<close> to the last \<open>}\<close>, or both lists of kept contents are empty.
  Otherwise its result has the two lists of kept contents, in order, and as speaker
  the trimmed \<open>speaker\<close> string of the object, or the fallback label of the caller
  when that string is absent or empty.
\<close>

theorem parseDebaterOutput_characterisation:
  "(parseDebaterOutput jparse raw fallbackSpeaker = None) =
     (trim raw = [] \<or> claimed_object jparse (trim raw) = None \<or>
      (\<exists>props. claimed_object jparse (trim raw) = Some props
         \<and> kept_contents (map_of props (asc ''new_perspectives'')) = []
         \<and> kept_contents (map_of props (asc ''counterpoints'')) = []))
   \<and> (\<forall>props. trim raw \<noteq> [] \<and> claimed_object jparse (trim raw) = Some props
         \<and> \<not> (kept_contents (map_of props (asc ''new_perspectives'')) = []
              \<and> kept_contents (map_of props (asc ''counterpoints'')) = [])
         \<longrightarrow> parseDebaterOutput jparse raw fallbackSpeaker =
               Some \<lparr>speaker = claimed_speaker props fallbackSpeaker,
                     newPerspectives = kept_contents (map_of props (asc ''new_perspectives'')),
                     counterpoints = kept_contents (map_of props (asc ''counterpoints''))\<rparr>)"
proof -
  have spk: "(case map_of props (asc ''speaker'') of
                Some (JString s) \<Rightarrow> if length (trim s) > 0 then trim s else fallbackSpeaker
              | _ \<Rightarrow> fallbackSpeaker) = claimed_speaker props fallbackSpeaker" for props
    by (simp add: claimed_speaker_def split: option.splits json.splits)
  have eq: "parseDebaterOutput jparse raw fallbackSpeaker =
      (case (if trim raw = [] then None else claimed_object jparse (trim raw)) of
         None \<Rightarrow> None
       | Some props \<Rightarrow>
           if kept_contents (map_of props (asc ''new_perspectives'')) = []
              \<and> kept_contents (map_of props (asc ''counterpoints'')) = []
           then None
           else Some \<lparr>speaker = claimed_speaker props fallbackSpeaker,
                      newPerspectives = kept_contents (map_of props (asc ''new_perspectives'')),
                      counterpoints = kept_contents (map_of props (asc ''counterpoints''))\<rparr>)"
    by (simp add: parseDebaterOutput_def parseJsonObject_claimed readContentsArray_kept Let_def spk
        split: option.splits)
  show ?thesis
    unfolding eq by (auto split: option.splits)
qed

lemma trim_noisy_raw: "trim noisy_raw = noisy_raw"
  by (simp add: trim_def noisy_raw_def is_js_space_def)

lemma brace_span_noisy_raw: "brace_span noisy_raw = noisy_object"
  by (simp add: brace_span_def noisy_raw_def noisy_object_def)

text \<open>
  On the reply with prose around the object the parser returns the one kept content
  and the fallback label; on a text with no object it returns null.
\<close>

theorem parseDebaterOutput_characterisation_witness:
  "parseDebaterOutput noisy_parse noisy_raw (asc ''fallback'') =
     Some \<lparr>speaker = asc ''fallback'', newPerspectives = [asc ''x''], counterpoints = []\<rparr>
   \<and> parseDebaterOutput noisy_parse (asc ''not json at all'') (asc ''fallback'') = None"
proof -
  let ?props = "[(asc ''new_perspectives'',
            JArray [JObject [(asc ''id'', JString (asc ''a'')), (asc ''contents'', JString (asc '' x ''))],
                    JObject [(asc ''contents'', JString (asc ''  ''))],
                    JNumber (Finite 7)]),
           (asc ''speaker'', JString (asc '' ''))]"
  have neq: "noisy_raw \<noteq> noisy_object"
    by (simp add: noisy_raw_def noisy_object_def)
  have ne: "noisy_object \<noteq> []" "noisy_raw \<noteq> []"
    by (simp_all add: noisy_raw_def noisy_object_def)
  have obj: "claimed_object noisy_parse (trim noisy_raw) = Some ?props"
    by (simp add: claimed_object_def trim_noisy_raw brace_span_noisy_raw noisy_parse_def neq ne)
  have tx: "trim (asc '' x '') = asc ''x''" and tb: "trim (asc ''  '') = []" "trim (asc '' '') = []"
    by (simp_all add: trim_def asc_def is_js_space_def)
  have keys: "asc ''new_perspectives'' \<noteq> asc ''counterpoints''" "asc ''new_perspectives'' \<noteq> asc ''speaker''"
    "asc ''speaker'' \<noteq> asc ''counterpoints''" "asc ''id'' \<noteq> asc ''contents''"
    by (simp_all add: asc_def)
  have np: "kept_contents (map_of ?props (asc ''new_perspectives'')) = [asc ''x'']"
    using keys by (simp add: kept_contents_def tx tb) (simp add: asc_def)
  have cp: "kept_contents (map_of ?props (asc ''counterpoints'')) = []"
    using keys by (simp add: kept_contents_def)
  have sp: "claimed_speaker ?props (asc ''fallback'') = asc ''fallback''"
    using keys by (simp add: claimed_speaker_def tb)
  have a: "parseDebaterOutput noisy_parse noisy_raw (asc ''fallback'') =
     Some \<lparr>speaker = asc ''fallback'', newPerspectives = [asc ''x''], counterpoints = []\<rparr>"
    using parseDebaterOutput_characterisation [of noisy_parse noisy_raw "asc ''fallback''",
        THEN conjunct2, rule_format, of ?props]
      obj np cp sp ne trim_noisy_raw
    by simp
  have t2: "trim (asc ''not json at all'') = asc ''not json at all''"
    by (simp add: trim_def asc_def is_js_space_def)
  have "brace_span (asc ''not json at all'') = []"
    by (simp add: brace_span_def asc_def)
  moreover have "noisy_parse (asc ''not json at all'') = None"
    by (simp add: noisy_parse_def noisy_object_def asc_def)
  ultimately have "claimed_object noisy_parse (trim (asc ''not json at all'')) = None"
    by (simp add: claimed_object_def t2)
  then have b: "parseDebaterOutput noisy_parse (asc ''not json at all'') (asc ''fallback'') = None"
    using parseDebaterOutput_characterisation [of noisy_parse "asc ''not json at all''" "asc ''fallback''",
        THEN conjunct1]
    by simp
  from a b show ?thesis by blast
qed

section \<open>Properties of the rounds\<close>

subsection \<open>The context block\<close>

lemma push_sections_usable:
  "push_sections label roles results sections =
     sections @ map (rendered label results) (filter (usable results) roles)"
proof (induction roles arbitrary: sections)
  case Nil
  show ?case by simp
next
  case (Cons r roles)
  show ?case
  proof (cases "results r")
    case None
    then show ?thesis by (simp add: Cons.IH usable_def)
  next
    case (Some res)
    then show ?thesis
      by (simp add: Cons.IH usable_def rendered_def Let_def)
  qed
qed

lemma take_role_index: "take (role_index i) DEBATER_ROLES = earlier i"
  by (cases i) (simp_all add: DEBATER_ROLES_def earlier_def)

lemma buildDebateContext_visible:
  "buildDebateContext i rnd round1 current = visible_context i rnd round1 current"
  by (simp add: buildDebateContext_def visible_context_def push_sections_usable take_role_index
      round_label_def Let_def)

lemma earlier_index: "r \<in> set (earlier i) \<Longrightarrow> role_index r < role_index i"
  by (simp add: earlier_def)

lemma visible_context_cong:
  assumes "\<And>r. role_index r < role_index i \<Longrightarrow> current' r = current r"
  shows "visible_context i rnd round1 current' = visible_context i rnd round1 current"
proof -
  have same: "current' r = current r" if "r \<in> set (earlier i)" for r
    using that assms earlier_index by blast
  have f: "filter (usable current') (earlier i) = filter (usable current) (earlier i)"
    by (rule filter_cong) (simp_all add: usable_def same)
  have m: "map (rendered lbl current') (filter (usable current) (earlier i))
         = map (rendered lbl current) (filter (usable current) (earlier i))" for lbl
    by (rule map_cong) (simp_all add: rendered_def same)
  show ?thesis by (simp add: visible_context_def f m)
qed

lemma numbered_lines_Nil_iff: "numbered_lines label index xs = [] \<longleftrightarrow> xs = []"
  by (cases xs) simp_all

lemma extractParsedLines_Nil_iff:
  "dr_parsed res = Some p \<Longrightarrow>
   extractParsedLines res = [] \<longleftrightarrow> newPerspectives p = [] \<and> counterpoints p = []"
  by (simp add: extractParsedLines_def numbered_lines_Nil_iff)

lemma parseDebaterOutput_nonempty:
  "parseDebaterOutput jparse raw fallbackSpeaker = Some p \<Longrightarrow>
   newPerspectives p \<noteq> [] \<or> counterpoints p \<noteq> []"
  by (auto simp: parseDebaterOutput_def Let_def split: option.splits if_splits)

lemma runSingleDebater_produced:
  "runSingleDebater b lang r m prompt systemPrompt = Inr res \<Longrightarrow> produced res"
proof -
  assume run: "runSingleDebater b lang r m prompt systemPrompt = Inr res"
  show "produced res"
  proof (cases "dr_parsed res")
    case None
    then show ?thesis by (simp add: produced_def)
  next
    case (Some p)
    from run obtain raw where "dr_parsed res = parseDebaterOutput (JSON_parse b) raw (ROLE_SPEAKERS_BY_LANG lang r)"
      and err: "dr_error res = None"
      by (auto simp: runSingleDebater_def Let_def split: fetch_result.splits test_reply.splits if_splits)
    with Some have "newPerspectives p \<noteq> [] \<or> counterpoints p \<noteq> []"
      using parseDebaterOutput_nonempty by metis
    with Some err show ?thesis
      by (simp add: produced_def extractParsedLines_Nil_iff)
  qed
qed

lemma debater_turn_produced: "produced (debater_turn b cl rnd prompt addendum stable1 current r)"
proof (cases "runSingleDebater b (uiLang cl) r (debaterModels cl r)
                (buildPromptForRole prompt r rnd stable1 current addendum) (roundAwarePrompts b r rnd)")
  case (Inl t)
  then show ?thesis by (simp add: debater_turn_def Let_def produced_def)
next
  case (Inr res)
  then show ?thesis by (simp add: debater_turn_def Let_def runSingleDebater_produced)
qed

lemma lit_round_one_nonempty: "lit_round_one @ xs \<noteq> []"
  by (simp add: lit_round_one_def)

text \<open>
  Claim C4, as stated, fails on some pairs of result maps: a round-1 result that has a
  parsed output and an error is left out of the round-2 context, though its parsed
  output is not null.
\<close>

theorem buildDebateContext_counterexample:
  "dr_parsed flagged_result \<noteq> None
   \<and> buildDebateContext deb_b Round2 (Map.empty(deb_a \<mapsto> flagged_result)) Map.empty = []
   \<and> claimed_context deb_b Round2 (Map.empty(deb_a \<mapsto> flagged_result)) Map.empty \<noteq> []"
proof -
  have a: "dr_parsed flagged_result \<noteq> None"
    by (simp add: flagged_result_def)
  have e: "truthy (dr_error flagged_result)"
    by (simp add: flagged_result_def asc_def)
  have b: "buildDebateContext deb_b Round2 (Map.empty(deb_a \<mapsto> flagged_result)) Map.empty = []"
    by (simp add: buildDebateContext_def DEBATER_ROLES_def e)
  have "claimed_context deb_b Round2 (Map.empty(deb_a \<mapsto> flagged_result)) Map.empty =
      rendered lit_round_one (Map.empty(deb_a \<mapsto> flagged_result)) deb_a"
    by (simp add: claimed_context_def DEBATER_ROLES_def present_def earlier_def a)
  then have c: "claimed_context deb_b Round2 (Map.empty(deb_a \<mapsto> flagged_result)) Map.empty \<noteq> []"
    by (simp add: rendered_def lit_round_one_nonempty)
  from a b c show ?thesis by blast
qed

text \<open>
  Claim C4, amended. For every round, role \<open>i\<close> and pair of result maps, the context
  block built for \<open>i\<close> is made of exactly: in round 2, the rendered round-1 output of
  each participant, whatever its position, whose round-1 result has no error, a parsed
  output that is not null and at least one line; then the rendered output of each
  participant before \<open>i\<close> whose result of the current round has no error, a parsed
  output that is not null and at least one line. So the block does not depend on
  the results of the current round at the positions from \<open>i\<close> on.
\<close>

theorem buildDebateContext_contents:
  "buildDebateContext i rnd round1 current = visible_context i rnd round1 current
   \<and> (\<forall>current'. (\<forall>r. role_index r < role_index i \<longrightarrow> current' r = current r)
         \<longrightarrow> buildDebateContext i rnd round1 current' = buildDebateContext i rnd round1 current)"
proof (intro conjI allI impI)
  show "buildDebateContext i rnd round1 current = visible_context i rnd round1 current"
    by (rule buildDebateContext_visible)
next
  fix current'
  assume "\<forall>r. role_index r < role_index i \<longrightarrow> current' r = current r"
  then have "visible_context i rnd round1 current' = visible_context i rnd round1 current"
    by (intro visible_context_cong) simp
  then show "buildDebateContext i rnd round1 current' = buildDebateContext i rnd round1 current"
    by (simp only: buildDebateContext_visible)
qed

text \<open>
  In round 1 the second debater sees the section of the first, and the same block
  whether or not the results of the second and third are in the map.
\<close>

theorem buildDebateContext_contents_witness:
  "buildDebateContext deb_b Round1 Map.empty
     (Map.empty(deb_a \<mapsto> good_result (asc ''A''), deb_b \<mapsto> good_result (asc ''B''),
                deb_c \<mapsto> good_result (asc ''C'')))
   = round_label Round1 @ asc ''A'' @ [10] @ lit_new_view @ asc ''1: x'' @ [10] @ lit_rebuttal @ asc ''1: y''
   \<and> buildDebateContext deb_b Round1 Map.empty
     (Map.empty(deb_a \<mapsto> good_result (asc ''A''), deb_b \<mapsto> good_result (asc ''B''),
                deb_c \<mapsto> good_result (asc ''C'')))
   = buildDebateContext deb_b Round1 Map.empty (Map.empty(deb_a \<mapsto> good_result (asc ''A'')))"
proof -
  let ?all = "Map.empty(deb_a \<mapsto> good_result (asc ''A''), deb_b \<mapsto> good_result (asc ''B''),
                deb_c \<mapsto> good_result (asc ''C''))"
  let ?one = "Map.empty(deb_a \<mapsto> good_result (asc ''A''))"
  note main = buildDebateContext_contents [of deb_b Round1 Map.empty ?one]
  have lines: "extractParsedLines (good_result (asc ''A'')) =
      [lit_new_view @ asc ''1: x'', lit_rebuttal @ asc ''1: y'']"
    by (simp add: extractParsedLines_def good_result_def decimal.simps asc_def)
  have same: "\<forall>r. role_index r < role_index deb_b \<longrightarrow> ?all r = ?one r"
  proof (intro allI impI)
    fix r assume "role_index r < role_index deb_b"
    then show "?all r = ?one r" by (cases r) simp_all
  qed
  from main same have eq: "buildDebateContext deb_b Round1 Map.empty ?all
      = buildDebateContext deb_b Round1 Map.empty ?one"
    by blast
  have u: "usable ?one deb_a"
    by (simp add: usable_def lines) (simp add: good_result_def)
  have "visible_context deb_b Round1 Map.empty ?one =
      round_label Round1 @ asc ''A'' @ [10] @ lit_new_view @ asc ''1: x'' @ [10] @ lit_rebuttal @ asc ''1: y''"
    by (simp add: visible_context_def earlier_def DEBATER_ROLES_def u rendered_def lines)
       (simp add: good_result_def)
  with main have "buildDebateContext deb_b Round1 Map.empty ?one =
      round_label Round1 @ asc ''A'' @ [10] @ lit_new_view @ asc ''1: x'' @ [10] @ lit_rebuttal @ asc ''1: y''"
    by simp
  with eq show ?thesis by simp
qed

subsection \<open>A round runs to its end\<close>

lemma buildPromptForRole_cong:
  assumes "\<And>q. role_index q < role_index r \<Longrightarrow> current' q = current q"
  shows "buildPromptForRole prompt r rnd stable1 current' addendum
       = buildPromptForRole prompt r rnd stable1 current addendum"
proof -
  have "visible_context r rnd stable1 current' = visible_context r rnd stable1 current"
    using assms by (rule visible_context_cong)
  then show ?thesis
    by (simp add: buildPromptForRole_def buildDebateContext_visible)
qed

lemma debater_turn_cong:
  assumes "\<And>q. role_index q < role_index r \<Longrightarrow> current' q = current q"
  shows "debater_turn b cl rnd prompt addendum stable1 current' r
       = debater_turn b cl rnd prompt addendum stable1 current r"
  by (simp add: debater_turn_def buildPromptForRole_cong [OF assms])

lemma round_loop_three:
  "round_loop b cl rnd prompt addendum stable1 DEBATER_ROLES Map.empty =
     (let c1 = Map.empty(deb_a \<mapsto> debater_turn b cl rnd prompt addendum stable1 Map.empty deb_a);
          c2 = c1(deb_b \<mapsto> debater_turn b cl rnd prompt addendum stable1 c1 deb_b)
      in c2(deb_c \<mapsto> debater_turn b cl rnd prompt addendum stable1 c2 deb_c))"
  by (simp add: DEBATER_ROLES_def Let_def)

lemma round_loop_fixpoint:
  "round_loop b cl rnd prompt addendum stable1 DEBATER_ROLES Map.empty r =
     Some (debater_turn b cl rnd prompt addendum stable1
             (round_loop b cl rnd prompt addendum stable1 DEBATER_ROLES Map.empty) r)"
proof -
  define c1 where "c1 = Map.empty(deb_a \<mapsto> debater_turn b cl rnd prompt addendum stable1 Map.empty deb_a)"
  define c2 where "c2 = c1(deb_b \<mapsto> debater_turn b cl rnd prompt addendum stable1 c1 deb_b)"
  define c3 where "c3 = c2(deb_c \<mapsto> debater_turn b cl rnd prompt addendum stable1 c2 deb_c)"
  have loop: "round_loop b cl rnd prompt addendum stable1 DEBATER_ROLES Map.empty = c3"
    by (simp add: round_loop_three c1_def c2_def c3_def Let_def)
  have a: "debater_turn b cl rnd prompt addendum stable1 c3 deb_a
         = debater_turn b cl rnd prompt addendum stable1 Map.empty deb_a"
    by (rule debater_turn_cong) simp
  have b: "debater_turn b cl rnd prompt addendum stable1 c3 deb_b
         = debater_turn b cl rnd prompt addendum stable1 c1 deb_b"
  proof (rule debater_turn_cong)
    fix q assume "role_index q < role_index deb_b"
    then show "c3 q = c1 q" by (cases q) (simp_all add: c3_def c2_def)
  qed
  have c: "debater_turn b cl rnd prompt addendum stable1 c3 deb_c
         = debater_turn b cl rnd prompt addendum stable1 c2 deb_c"
  proof (rule debater_turn_cong)
    fix q assume "role_index q < role_index deb_c"
    then show "c3 q = c2 q" by (cases q) (simp_all add: c3_def)
  qed
  show ?thesis
    unfolding loop
    by (cases r) (simp_all add: a b c, simp_all add: c3_def c2_def c1_def)
qed

lemma runDebateRound_fixpoint:
  "runDebateRound b cl rnd prompt addendum r =
     Some (debater_turn b cl rnd prompt addendum
             (if rnd = Round2 then round1Results cl else Map.empty)
             (runDebateRound b cl rnd prompt addendum) r)"
  unfolding runDebateRound_def Let_def by (rule round_loop_fixpoint)

lemma runDebateRound_well_formed: "well_formed (runDebateRound b cl rnd prompt addendum)"
proof -
  have "case runDebateRound b cl rnd prompt addendum r of None \<Rightarrow> True | Some res \<Rightarrow> produced res" for r
    by (subst runDebateRound_fixpoint) (simp add: debater_turn_produced)
  then show ?thesis
    by (simp add: well_formed_def list_all_iff)
qed

lemma well_formed_usable: "well_formed results \<Longrightarrow> usable results r = present results r"
proof -
  assume wf: "well_formed results"
  have "r \<in> set DEBATER_ROLES"
    by (cases r) (simp_all add: DEBATER_ROLES_def)
  with wf have "case results r of None \<Rightarrow> True | Some res \<Rightarrow> produced res"
    by (simp add: well_formed_def list_all_iff)
  then show ?thesis
    by (auto simp: usable_def present_def produced_def split: option.splits)
qed

text \<open>On results that rounds produce, the context is what Claim C4 says.\<close>

lemma buildDebateContext_claimed:
  assumes "well_formed round1" and "well_formed current"
  shows "buildDebateContext i rnd round1 current = claimed_context i rnd round1 current"
proof -
  have "usable round1 = present round1" and "usable current = present current"
    using assms well_formed_usable by auto
  then show ?thesis
    by (simp add: buildDebateContext_visible visible_context_def claimed_context_def)
qed

lemma withContextOverflowHint_phrases:
  "withContextOverflowHint lower msg lang =
     (if list_ex (js_includes (lower msg)) overflow_phrases
      then tr lang lit_overflow_hint_zh lit_overflow_hint_en @ msg else msg)"
  by (cases lang) (simp_all add: withContextOverflowHint_def overflow_phrases_def Let_def)

lemma hasRoundCompleted_runDebateRound: "hasRoundCompleted (runDebateRound b cl rnd prompt addendum)"
proof -
  have "runDebateRound b cl rnd prompt addendum r \<noteq> None" for r
    by (subst runDebateRound_fixpoint) simp
  then show ?thesis
    by (simp add: hasRoundCompleted_def list_all_iff)
qed

text \<open>
  Claim C5. After \<open>runDebateRound\<close>, for any round, the three slots of the round are
  filled, however many calls failed: the slot of each role holds the result of its
  turn, computed from the slots of the roles before it. A role whose call throws gets a
  result with the model selected for it, no raw content, a null parsed output, and as
  error the message of the thrown \<open>Error\<close> (with the context-length hint in front
  when the lower-cased message contains one of the seven phrases) or, for a thrown
  value that is no \<open>Error\<close>, the fixed text; the loop then goes on to the next role.
\<close>

theorem runDebateRound_completes:
  "hasRoundCompleted (runDebateRound b cl rnd prompt addendum)
   \<and> (\<forall>r. runDebateRound b cl rnd prompt addendum r =
          Some (debater_turn b cl rnd prompt addendum
                  (if rnd = Round2 then round1Results cl else Map.empty)
                  (runDebateRound b cl rnd prompt addendum) r))
   \<and> (\<forall>r t. runSingleDebater b (uiLang cl) r (debaterModels cl r)
               (buildPromptForRole prompt r rnd (if rnd = Round2 then round1Results cl else Map.empty)
                  (runDebateRound b cl rnd prompt addendum) addendum)
               (roundAwarePrompts b r rnd) = Inl t
          \<longrightarrow> runDebateRound b cl rnd prompt addendum r =
                Some \<lparr>dr_model = debaterModels cl r,
                      dr_rawContent = [],
                      dr_parsed = None,
                      dr_error =
                        Some (case t of
                                ThrownError msg \<Rightarrow> withContextOverflowHint (toLowerCase b) msg (uiLang cl)
                              | ThrownOther \<Rightarrow> tr (uiLang cl) lit_request_failed_zh (asc ''Request failed''))\<rparr>)
   \<and> (\<forall>msg lang. withContextOverflowHint (toLowerCase b) msg lang =
          (if list_ex (js_includes (toLowerCase b msg)) overflow_phrases
           then tr lang lit_overflow_hint_zh lit_overflow_hint_en @ msg else msg))"
proof (intro conjI allI impI)
  show "hasRoundCompleted (runDebateRound b cl rnd prompt addendum)"
    by (rule hasRoundCompleted_runDebateRound)
next
  fix r
  show "runDebateRound b cl rnd prompt addendum r =
          Some (debater_turn b cl rnd prompt addendum
                  (if rnd = Round2 then round1Results cl else Map.empty)
                  (runDebateRound b cl rnd prompt addendum) r)"
    by (rule runDebateRound_fixpoint)
next
  fix r t
  assume thrown: "runSingleDebater b (uiLang cl) r (debaterModels cl r)
               (buildPromptForRole prompt r rnd (if rnd = Round2 then round1Results cl else Map.empty)
                  (runDebateRound b cl rnd prompt addendum) addendum)
               (roundAwarePrompts b r rnd) = Inl t"
  have "runDebateRound b cl rnd prompt addendum r =
          Some (debater_turn b cl rnd prompt addendum
                  (if rnd = Round2 then round1Results cl else Map.empty)
                  (runDebateRound b cl rnd prompt addendum) r)"
    by (rule runDebateRound_fixpoint)
  also have "debater_turn b cl rnd prompt addendum
                  (if rnd = Round2 then round1Results cl else Map.empty)
                  (runDebateRound b cl rnd prompt addendum) r =
      \<lparr>dr_model = debaterModels cl r, dr_rawContent = [], dr_parsed = None,
       dr_error = Some (case t of
                          ThrownError msg \<Rightarrow> withContextOverflowHint (toLowerCase b) msg (uiLang cl)
                        | ThrownOther \<Rightarrow> tr (uiLang cl) lit_request_failed_zh (asc ''Request failed''))\<rparr>"
    using thrown by (simp add: debater_turn_def Let_def)
  finally show "runDebateRound b cl rnd prompt addendum r =
                Some \<lparr>dr_model = debaterModels cl r,
                      dr_rawContent = [],
                      dr_parsed = None,
                      dr_error =
                        Some (case t of
                                ThrownError msg \<Rightarrow> withContextOverflowHint (toLowerCase b) msg (uiLang cl)
                              | ThrownOther \<Rightarrow> tr (uiLang cl) lit_request_failed_zh (asc ''Request failed''))\<rparr>" .
next
  fix msg lang
  show "withContextOverflowHint (toLowerCase b) msg lang =
          (if list_ex (js_includes (toLowerCase b msg)) overflow_phrases
           then tr lang lit_overflow_hint_zh lit_overflow_hint_en @ msg else msg)"
    by (rule withContextOverflowHint_phrases)
qed

text \<open>
  A round in which every call fails: the three slots are filled; the second holds the
  thrown message with the hint, the third the error of the server's reply.
\<close>

theorem runDebateRound_completes_witness:
  "hasRoundCompleted (runDebateRound failing_browser fresh_page Round1 (asc ''question'') None)
   \<and> runDebateRound failing_browser fresh_page Round1 (asc ''question'') None deb_b =
       Some \<lparr>dr_model = asc ''m/m'', dr_rawContent = [], dr_parsed = None,
             dr_error = Some (lit_overflow_hint_en @ asc ''Max tokens exceeded'')\<rparr>
   \<and> runDebateRound failing_browser fresh_page Round1 (asc ''question'') None deb_c =
       Some \<lparr>dr_model = asc ''m/m'', dr_rawContent = [], dr_parsed = None,
             dr_error = Some (asc ''Unsupported model'')\<rparr>"
proof -
  note main = runDebateRound_completes [of failing_browser fresh_page Round1 "asc ''question''" None]
  have tb: "runSingleDebater failing_browser en deb_b m p s = Inl (ThrownError (asc ''Max tokens exceeded''))"
    for m p s
    by (simp add: runSingleDebater_def single_request_def failing_browser_def)
  have tc: "runSingleDebater failing_browser en deb_c m p s = Inl (ThrownError (asc ''Unsupported model''))"
    for m p s
    by (simp add: runSingleDebater_def single_request_def failing_browser_def) (simp add: asc_def)
  have hint: "withContextOverflowHint ascii_toLowerCase (asc ''Max tokens exceeded'') en =
      lit_overflow_hint_en @ asc ''Max tokens exceeded''"
    by (simp add: withContextOverflowHint_def Let_def ascii_toLowerCase_def asc_def js_startsWith_def)
  have plain: "withContextOverflowHint ascii_toLowerCase (asc ''Unsupported model'') en =
      asc ''Unsupported model''"
    by (simp add: withContextOverflowHint_def Let_def ascii_toLowerCase_def asc_def js_startsWith_def)
  have lang: "uiLang fresh_page = en" and models: "debaterModels fresh_page r = asc ''m/m''" for r
    by (simp_all add: fresh_page_def)
  have lower: "toLowerCase failing_browser = ascii_toLowerCase"
    by (simp add: failing_browser_def)
  from main have a: "hasRoundCompleted (runDebateRound failing_browser fresh_page Round1 (asc ''question'') None)"
    by (rule conjunct1)
  note thrown = main [THEN conjunct2, THEN conjunct2, THEN conjunct1, rule_format]
  have b: "runDebateRound failing_browser fresh_page Round1 (asc ''question'') None deb_b =
       Some \<lparr>dr_model = asc ''m/m'', dr_rawContent = [], dr_parsed = None,
             dr_error = Some (lit_overflow_hint_en @ asc ''Max tokens exceeded'')\<rparr>"
    using thrown [of deb_b "ThrownError (asc ''Max tokens exceeded'')"]
    by (simp add: lang models lower tb hint)
  have c: "runDebateRound failing_browser fresh_page Round1 (asc ''question'') None deb_c =
       Some \<lparr>dr_model = asc ''m/m'', dr_rawContent = [], dr_parsed = None,
             dr_error = Some (asc ''Unsupported model'')\<rparr>"
    using thrown [of deb_c "ThrownError (asc ''Unsupported model'')"]
    by (simp add: lang models lower tc plain)
  from a b c show ?thesis by blast
qed

section \<open>Properties of the addendum\<close>

lemma dropWhile_snoc_stop: "\<not> P x \<Longrightarrow> \<exists>zs. dropWhile P (ys @ [x]) = zs @ [x]"
  by (induction ys) auto

lemma trim_Nil_or_edges:
  "trim s = [] \<or> (\<not> is_js_space (hd (trim s)) \<and> \<not> is_js_space (last (trim s)))"
proof (cases "dropWhile is_js_space s")
  case Nil
  have "trim s = []"
    unfolding trim_def Nil by simp
  then show ?thesis by simp
next
  case (Cons x u)
  then have "dropWhile is_js_space s \<noteq> []"
    by simp
  then have "\<not> is_js_space (hd (dropWhile is_js_space s))"
    by (rule hd_dropWhile)
  then have x: "\<not> is_js_space x"
    by (simp add: Cons)
  from dropWhile_snoc_stop [of is_js_space x "rev u", OF x]
  obtain zs where zs: "dropWhile is_js_space (rev u @ [x]) = zs @ [x]" ..
  have t: "trim s = x # rev zs"
    by (simp add: trim_def Cons zs)
  have "dropWhile is_js_space (rev u @ [x]) \<noteq> []"
    by (simp add: zs)
  then have "\<not> is_js_space (hd (dropWhile is_js_space (rev u @ [x])))"
    by (rule hd_dropWhile)
  then have "\<not> is_js_space (hd (zs @ [x]))"
    by (simp add: zs)
  then have "\<not> is_js_space (last (x # rev zs))"
    by (cases zs) (simp_all add: last_rev)
  with x t show ?thesis by simp
qed

lemma trim_idem: "trim (trim s) = trim s"
proof -
  consider "trim s = []" | "\<not> is_js_space (hd (trim s))" "\<not> is_js_space (last (trim s))" "trim s \<noteq> []"
    using trim_Nil_or_edges by blast
  then show ?thesis
  proof cases
    case 1
    have "trim [] = []" by (simp add: trim_def)
    with 1 show ?thesis by simp
  next
    case 2
    from 2(1,3) have a: "dropWhile is_js_space (trim s) = trim s"
      by (cases "trim s") simp_all
    from 2(2,3) have b: "dropWhile is_js_space (rev (trim s)) = rev (trim s)"
      by (cases "rev (trim s)") (simp_all add: hd_rev)
    show ?thesis
      by (subst (1) trim_def) (simp add: a b)
  qed
qed

lemma normalizeOptionalText_idem: "normalizeOptionalText (normalizeOptionalText x) = normalizeOptionalText x"
  by (auto simp: normalizeOptionalText_def trim_idem Let_def split: option.splits if_splits)

lemma set_draft_twice [simp]: "set_draft d (set_draft d' s) = set_draft d s"
  by (simp add: set_draft_def)

lemma set_draft_same: "set_draft (round2AddendumDraft (live s)) s = s"
  by (simp add: set_draft_def)

lemma sent_set_draft [simp]: "sent (set_draft d s) = sent s"
  by (simp add: set_draft_def)

lemma in_flight_set_draft [simp]: "in_flight (set_draft d s) = in_flight s"
  by (simp add: set_draft_def)

lemma committed_set_draft [simp]:
  "round2AddendumCommitted (live (set_draft d s)) = round2AddendumCommitted (live s)"
  by (simp add: set_draft_def)

lemma step_edit: "step b (EditDraft t) s = set_draft t s"
  by (simp add: set_draft_def)

lemma debater_step_set_draft: "debater_step b (set_draft d s) = set_draft d (debater_step b s)"
  by (simp add: debater_step_def set_draft_def round_finally_def Let_def
      split: option.splits list.splits)

lemma summary_two_rounds_set_draft:
  "handleGenerateSummary b True (set_draft d s) = set_draft d (handleGenerateSummary b True s)"
  by (simp add: handleGenerateSummary_def set_draft_def Let_def summary_request_def summary_addendum_def
      split: fetch_result.splits test_reply.splits)

lemma step_set_draft:
  "after_round2_start e \<Longrightarrow> \<not> is_edit e \<Longrightarrow> step b e (set_draft d s) = set_draft d (step b e s)"
  by (cases e) (simp_all add: debater_step_set_draft summary_two_rounds_set_draft)

lemma run_Cons: "run b (e # evs) s = run b evs (step b e s)"
  by (simp add: run_def)

lemma run_Nil: "run b [] s = s"
  by (simp add: run_def)

lemma run_ignores_edits:
  "list_all after_round2_start evs \<Longrightarrow>
   \<exists>d'. run b evs (set_draft d s) = set_draft d' (run b (filter (\<lambda>e. \<not> is_edit e) evs) s)"
proof (induction evs arbitrary: d s)
  case Nil
  show ?case by (auto simp: run_Nil)
next
  case (Cons e evs)
  then have rest: "list_all after_round2_start evs" and e: "after_round2_start e"
    by simp_all
  show ?case
  proof (cases "is_edit e")
    case True
    then obtain t where t: "e = EditDraft t" by (cases e) simp_all
    have "run b (e # evs) (set_draft d s) = run b evs (set_draft t s)"
      by (simp add: run_Cons t step_edit del: step.simps)
    with Cons.IH [OF rest, of t s] True show ?thesis by simp
  next
    case False
    have "run b (e # evs) (set_draft d s) = run b evs (set_draft d (step b e s))"
      by (simp add: run_Cons step_set_draft [OF e False])
    with Cons.IH [OF rest, of d "step b e s"] False show ?thesis by (simp add: run_Cons)
  qed
qed

lemma run_keeps_commit:
  "list_all after_round2_start evs \<Longrightarrow>
   round2AddendumCommitted (live (run b evs s)) = round2AddendumCommitted (live s)"
proof (induction evs arbitrary: s)
  case Nil
  show ?case by (simp add: run_Nil)
next
  case (Cons e evs)
  then have rest: "list_all after_round2_start evs" and e: "after_round2_start e"
    by simp_all
  have "round2AddendumCommitted (live (step b e s)) = round2AddendumCommitted (live s)"
    using e
    by (cases e)
       (simp_all add: debater_step_def round_finally_def handleGenerateSummary_def Let_def
          split: option.splits list.splits fetch_result.splits test_reply.splits)
  with Cons.IH [OF rest, of "step b e s"] show ?case by (simp add: run_Cons)
qed

lemma trim_Nil: "trim [] = []"
  by (simp add: trim_def)

lemma normalizeOptionalText_Some:
  "normalizeOptionalText (Some x) = (if trim x = [] then None else Some (trim x))"
  by (auto simp: normalizeOptionalText_def Let_def trim_Nil)

lemma normalizeOptionalText_trimmed:
  "normalizeOptionalText (if trim x = [] then None else Some (trim x)) =
     (if trim x = [] then None else Some (trim x))"
  using normalizeOptionalText_idem [of "Some x"] by (simp add: normalizeOptionalText_Some)

lemma buildSummaryPrompt_text:
  assumes "normalizeOptionalText a = (if t = [] then None else Some t)"
  shows "buildSummaryPrompt p r1 r2 a =
           lit_summary_question @ p @ [10, 10]
           @ (if t = [] then [] else lit_summary_addendum_head @ t @ [10, 10])
           @ lit_summary_request
           @ js_join [10, 10]
               (buildSummaryBlock lit_round1_results r1
                # (case r2 of None \<Rightarrow> [] | Some r \<Rightarrow> [buildSummaryBlock lit_round2_results r]))
           @ lit_summary_rules"
  by (simp add: buildSummaryPrompt_def Let_def assms)

lemma buildPromptForRole_text:
  assumes "normalizeOptionalText a = (if t = [] then None else Some t)"
  shows "buildPromptForRole p r Round2 r1 cur a =
           (let ctx = buildDebateContext r Round2 r1 cur
            in p @ lit_now_round @ decimal (round_number Round2)
               @ (if t = [] \<and> ctx = [] then lit_plain_tail
                  else lit_chained_mid
                       @ (if t = [] then [] else lit_addendum_head @ t @ [10])
                       @ (if ctx = [] then [] else lit_context_head @ ctx @ [10])
                       @ lit_chained_tail))"
  by (simp add: buildPromptForRole_def Let_def assms)

lemma run_snoc: "run b (evs @ [e]) s = step b e (run b evs s)"
  by (simp add: run_def)

lemma summary_sends:
  assumes "hasRoundCompleted (round1Results (live s))"
    and "useRound2 \<longrightarrow> hasRoundCompleted (round2Results (live s))"
    and "trim (finalPrompt (live s)) \<noteq> []"
    and "summarizerModel (live s) \<noteq> []"
  shows "sent (handleGenerateSummary b useRound2 s) =
           sent s @ [summary_request (live s)
                       (buildSummaryPrompt (trim (finalPrompt (live s))) (round1Results (live s))
                          (if useRound2 then Some (round2Results (live s)) else None)
                          (summary_addendum useRound2 (live s)))]"
  using assms by (simp add: handleGenerateSummary_def Let_def)

lemma skip_sends:
  assumes "hasRoundCompleted (round1Results (live s))"
    and "trim (finalPrompt (live s)) \<noteq> []"
    and "summarizerModel (live s) \<noteq> []"
  shows "sent (step b ClickSkipRound2 (s\<lparr>live := (live s)\<lparr>round2AddendumCommitted := c\<rparr>\<rparr>)) =
           sent s @ [summary_request (live s)
                       (lit_summary_question @ trim (finalPrompt (live s)) @ [10, 10]
                        @ (if trim (round2AddendumDraft (live s)) = [] then []
                           else lit_summary_addendum_head @ trim (round2AddendumDraft (live s)) @ [10, 10])
                        @ lit_summary_request
                        @ buildSummaryBlock lit_round1_results (round1Results (live s))
                        @ lit_summary_rules)]"
proof -
  let ?s' = "s\<lparr>live := (live s)\<lparr>round2AddendumCommitted := c, round2Started := False,
                                 summaryMode := mode_round1\<rparr>\<rparr>"
  have st: "step b ClickSkipRound2 (s\<lparr>live := (live s)\<lparr>round2AddendumCommitted := c\<rparr>\<rparr>) =
      handleGenerateSummary b False ?s'"
    by (simp add: handleSkipRound2AndSummarize_def)
  have n: "normalizeOptionalText (summary_addendum False (live ?s')) =
      (if trim (round2AddendumDraft (live s)) = [] then None
       else Some (trim (round2AddendumDraft (live s))))"
  proof -
    have "summary_addendum False (live ?s') = normalizeOptionalText (Some (round2AddendumDraft (live s)))"
      by (simp add: summary_addendum_def)
    then have "normalizeOptionalText (summary_addendum False (live ?s')) =
        normalizeOptionalText (Some (round2AddendumDraft (live s)))"
      by (simp only: normalizeOptionalText_idem)
    then show ?thesis
      by (simp only: normalizeOptionalText_Some)
  qed
  have "sent (handleGenerateSummary b False ?s') =
      sent ?s' @ [summary_request (live ?s')
                       (buildSummaryPrompt (trim (finalPrompt (live ?s'))) (round1Results (live ?s'))
                          (if False then Some (round2Results (live ?s')) else None)
                          (summary_addendum False (live ?s')))]"
    by (rule summary_sends) (simp_all add: assms)
  then show ?thesis
    unfolding st buildSummaryPrompt_text [OF n] by (simp add: summary_request_def)
qed

lemma start_round2:
  assumes "hasRoundCompleted (round1Results (live s))"
    and "trim (finalPrompt (live s)) \<noteq> []"
    and "\<not> isRunningDebate (live s)" and "in_flight s = None"
  shows "in_flight (step b ClickRunRound2 s) =
           Some \<lparr>fl_round = Round2, fl_prompt = trim (finalPrompt (live s)),
                 fl_addendum = normalizeOptionalText (Some (round2AddendumDraft (live s))),
                 fl_closure = live s, fl_stable = round1Results (live s), fl_current = Map.empty,
                 fl_todo = DEBATER_ROLES\<rparr>"
    and "round2AddendumCommitted (live (step b ClickRunRound2 s)) =
           normalizeOptionalText (Some (round2AddendumDraft (live s)))"
    and "sent (step b ClickRunRound2 s) = sent s"
    and "round1Results (live (step b ClickRunRound2 s)) = round1Results (live s)"
    and "finalPrompt (live (step b ClickRunRound2 s)) = finalPrompt (live s)"
    and "summarizerModel (live (step b ClickRunRound2 s)) = summarizerModel (live s)"
  using assms by (simp_all add: start_round_def handleRunRound2_def Let_def)

lemma three_replies:
  assumes "in_flight s1 =
           Some \<lparr>fl_round = Round2, fl_prompt = p, fl_addendum = a,
                 fl_closure = cl, fl_stable = round1Results cl, fl_current = Map.empty,
                 fl_todo = DEBATER_ROLES\<rparr>"
  shows "round2Results (live (run b [DebaterReplies, DebaterReplies, DebaterReplies] s1)) =
           runDebateRound b cl Round2 p a"
    and "sent (run b [DebaterReplies, DebaterReplies, DebaterReplies] s1) =
           sent s1 @ round_requests b cl Round2 p a (round1Results cl) DEBATER_ROLES Map.empty"
    and "round1Results (live (run b [DebaterReplies, DebaterReplies, DebaterReplies] s1)) =
           round1Results (live s1)"
    and "finalPrompt (live (run b [DebaterReplies, DebaterReplies, DebaterReplies] s1)) =
           finalPrompt (live s1)"
    and "summarizerModel (live (run b [DebaterReplies, DebaterReplies, DebaterReplies] s1)) =
           summarizerModel (live s1)"
    and "round2AddendumCommitted (live (run b [DebaterReplies, DebaterReplies, DebaterReplies] s1)) =
           round2AddendumCommitted (live s1)"
  using assms
  by (simp_all add: run_def debater_step_def DEBATER_ROLES_def Let_def round_finally_def runDebateRound_def)

lemma two_round_summary_sends:
  assumes "hasRoundCompleted (round1Results (live s))"
    and "trim (finalPrompt (live s)) \<noteq> []"
    and "summarizerModel (live s) \<noteq> []"
    and "\<not> isRunningDebate (live s)" and "in_flight s = None"
  shows "sent (run b [DebaterReplies, DebaterReplies, DebaterReplies, ClickGenerateSummary True]
                 (step b ClickRunRound2 s)) =
           sent (run b [DebaterReplies, DebaterReplies, DebaterReplies] (step b ClickRunRound2 s))
           @ [summary_request (live s)
                (lit_summary_question @ trim (finalPrompt (live s)) @ [10, 10]
                 @ (if trim (round2AddendumDraft (live s)) = [] then []
                    else lit_summary_addendum_head @ trim (round2AddendumDraft (live s)) @ [10, 10])
                 @ lit_summary_request
                 @ buildSummaryBlock lit_round1_results (round1Results (live s))
                 @ [10, 10]
                 @ buildSummaryBlock lit_round2_results
                     (runDebateRound b (live s) Round2 (trim (finalPrompt (live s)))
                        (if trim (round2AddendumDraft (live s)) = [] then None
                         else Some (trim (round2AddendumDraft (live s)))))
                 @ lit_summary_rules)]"
proof -
  let ?s1 = "step b ClickRunRound2 s"
  let ?s3 = "run b [DebaterReplies, DebaterReplies, DebaterReplies] ?s1"
  let ?snap = "if trim (round2AddendumDraft (live s)) = [] then None
               else Some (trim (round2AddendumDraft (live s)))"
  note start = start_round2 [OF assms(1,2,4,5), of b, unfolded normalizeOptionalText_Some]
  note three = three_replies [OF start(1), of b]
  have r1: "round1Results (live ?s3) = round1Results (live s)"
    by (simp only: three(3) start(4))
  have r2: "round2Results (live ?s3) =
      runDebateRound b (live s) Round2 (trim (finalPrompt (live s))) ?snap"
    by (rule three(1))
  have fp: "finalPrompt (live ?s3) = finalPrompt (live s)"
    by (simp only: three(4) start(5))
  have sm: "summarizerModel (live ?s3) = summarizerModel (live s)"
    by (simp only: three(5) start(6))
  have ad: "summary_addendum True (live ?s3) = ?snap"
    by (simp only: summary_addendum_def three(6) start(2) if_True)
  have n: "normalizeOptionalText ?snap = ?snap"
    by (rule normalizeOptionalText_trimmed)
  have "run b [DebaterReplies, DebaterReplies, DebaterReplies, ClickGenerateSummary True] ?s1 =
      handleGenerateSummary b True ?s3"
    using run_snoc [of b "[DebaterReplies, DebaterReplies, DebaterReplies]" "ClickGenerateSummary True" ?s1]
    by (simp del: step.simps(3))
  moreover have "sent (handleGenerateSummary b True ?s3) =
      sent ?s3 @ [summary_request (live ?s3)
                       (buildSummaryPrompt (trim (finalPrompt (live ?s3))) (round1Results (live ?s3))
                          (if True then Some (round2Results (live ?s3)) else None)
                          (summary_addendum True (live ?s3)))]"
    by (rule summary_sends)
       (simp_all only: r1 r2 fp sm assms hasRoundCompleted_runDebateRound simp_thms not_False_eq_True)
  ultimately show ?thesis
    by (simp only: r1 r2 fp sm ad if_True buildSummaryPrompt_text [OF n] summary_request_def
        option.case js_join.simps append_assoc)
qed

lemma finished_round1_complete: "hasRoundCompleted (round1Results (live finished_round1))"
  by (simp add: finished_round1_def hasRoundCompleted_def DEBATER_ROLES_def)

lemma finished_round1_prompt: "trim (finalPrompt (live finished_round1)) = asc ''question''"
  by (simp add: finished_round1_def fresh_page_def) (simp add: trim_def asc_def is_js_space_def)

lemma finished_round1_draft: "round2AddendumDraft (live finished_round1) = asc '' more context ''"
  by (simp add: finished_round1_def)

lemma finished_round1_summarizer: "summarizerModel (live finished_round1) \<noteq> []"
  by (simp add: finished_round1_def fresh_page_def asc_def)

lemma trim_more_context: "trim (asc '' more context '') = asc ''more context''"
  by (simp add: trim_def asc_def is_js_space_def)

lemma trim_blanks: "trim (asc ''  '') = []"
  by (simp add: trim_def asc_def is_js_space_def)

lemma more_context_not_Nil: "asc ''more context'' \<noteq> []"
  by (simp add: asc_def)

lemma finished_round1_committed:
  "finished_round1\<lparr>live := (live finished_round1)\<lparr>round2AddendumCommitted := Some (asc ''old'')\<rparr>\<rparr> =
     finished_round1"
  by (simp add: finished_round1_def)

lemma blank_draft_committed:
  "(set_draft (asc ''  '') finished_round1)
     \<lparr>live := (live (set_draft (asc ''  '') finished_round1))\<lparr>round2AddendumCommitted := Some (asc ''old'')\<rparr>\<rparr> =
   set_draft (asc ''  '') finished_round1"
  by (simp add: finished_round1_def set_draft_def)

text \<open>
  Claim C9, as stated, fails in its first part: the addendum of the summary that skips
  round 2 is not the text of the draft but the draft without the blanks around it, and
  there is none when the draft is blank. With the draft " more context " the request
  sent has the section of the addendum with the text "more context", and is not the
  request with the draft itself in that section; with a draft of two blanks the
  addendum is null and the prompt has no section for it.
\<close>

theorem summary_addendum_counterexample:
  "round2AddendumDraft (live finished_round1) = asc '' more context ''
   \<and> summary_addendum False (live finished_round1) = Some (asc ''more context'')
   \<and> summary_addendum False (live finished_round1) \<noteq> Some (round2AddendumDraft (live finished_round1))
   \<and> sent (step failing_browser ClickSkipRound2 finished_round1) =
       [summary_request (live finished_round1)
          (lit_summary_question @ asc ''question'' @ [10, 10]
           @ lit_summary_addendum_head @ asc ''more context'' @ [10, 10]
           @ lit_summary_request
           @ buildSummaryBlock lit_round1_results (round1Results (live finished_round1))
           @ lit_summary_rules)]
   \<and> sent (step failing_browser ClickSkipRound2 finished_round1) \<noteq>
       [summary_request (live finished_round1)
          (lit_summary_question @ asc ''question'' @ [10, 10]
           @ lit_summary_addendum_head @ asc '' more context '' @ [10, 10]
           @ lit_summary_request
           @ buildSummaryBlock lit_round1_results (round1Results (live finished_round1))
           @ lit_summary_rules)]
   \<and> summary_addendum False (live (set_draft (asc ''  '') finished_round1)) = None
   \<and> sent (step failing_browser ClickSkipRound2 (set_draft (asc ''  '') finished_round1)) =
       [summary_request (live finished_round1)
          (lit_summary_question @ asc ''question'' @ [10, 10]
           @ lit_summary_request
           @ buildSummaryBlock lit_round1_results (round1Results (live finished_round1))
           @ lit_summary_rules)]"
proof -
  let ?blank = "set_draft (asc ''  '') finished_round1"
  have p: "trim (finalPrompt (live finished_round1)) \<noteq> []"
    by (simp add: finished_round1_prompt asc_def)
  have a: "summary_addendum False (live finished_round1) = Some (asc ''more context'')"
    by (simp add: summary_addendum_def finished_round1_draft normalizeOptionalText_Some
        trim_more_context more_context_not_Nil)
  have b: "sent (step failing_browser ClickSkipRound2 finished_round1) =
       [summary_request (live finished_round1)
          (lit_summary_question @ asc ''question'' @ [10, 10]
           @ lit_summary_addendum_head @ asc ''more context'' @ [10, 10]
           @ lit_summary_request
           @ buildSummaryBlock lit_round1_results (round1Results (live finished_round1))
           @ lit_summary_rules)]"
    using skip_sends [OF finished_round1_complete p finished_round1_summarizer,
        of failing_browser "Some (asc ''old'')"]
    unfolding finished_round1_committed finished_round1_prompt finished_round1_draft trim_more_context
    by (simp add: more_context_not_Nil) (simp add: finished_round1_def)
  have "asc '' more context '' \<noteq> asc ''more context''"
    by (simp add: asc_def)
  then have c: "sent (step failing_browser ClickSkipRound2 finished_round1) \<noteq>
       [summary_request (live finished_round1)
          (lit_summary_question @ asc ''question'' @ [10, 10]
           @ lit_summary_addendum_head @ asc '' more context '' @ [10, 10]
           @ lit_summary_request
           @ buildSummaryBlock lit_round1_results (round1Results (live finished_round1))
           @ lit_summary_rules)]"
    unfolding b by (simp add: summary_request_def)
  have live_blank: "round1Results (live ?blank) = round1Results (live finished_round1)"
    "finalPrompt (live ?blank) = finalPrompt (live finished_round1)"
    "summarizerModel (live ?blank) = summarizerModel (live finished_round1)"
    "round2AddendumDraft (live ?blank) = asc ''  ''"
    "sent ?blank = []"
    by (simp_all add: set_draft_def finished_round1_def)
  have d: "summary_addendum False (live ?blank) = None"
    by (simp add: summary_addendum_def live_blank normalizeOptionalText_Some trim_blanks)
  have cb: "hasRoundCompleted (round1Results (live ?blank))"
    by (simp only: live_blank finished_round1_complete)
  have pb: "trim (finalPrompt (live ?blank)) \<noteq> []"
    by (simp only: live_blank p not_False_eq_True)
  have mb: "summarizerModel (live ?blank) \<noteq> []"
    by (simp only: live_blank finished_round1_summarizer not_False_eq_True)
  have e: "sent (step failing_browser ClickSkipRound2 ?blank) =
       [summary_request (live finished_round1)
          (lit_summary_question @ asc ''question'' @ [10, 10]
           @ lit_summary_request
           @ buildSummaryBlock lit_round1_results (round1Results (live finished_round1))
           @ lit_summary_rules)]"
    using skip_sends [OF cb pb mb, of failing_browser "Some (asc ''old'')"]
    unfolding blank_draft_committed live_blank finished_round1_prompt trim_blanks
    by (simp add: summary_request_def live_blank)
  have a': "summary_addendum False (live finished_round1) \<noteq> Some (round2AddendumDraft (live finished_round1))"
    unfolding a finished_round1_draft by (simp add: asc_def)
  from finished_round1_draft a a' b c d e show ?thesis by blast
qed

text \<open>
  Claim C9, amended. Let round 1 be complete, a summarizer be selected and the final
  prompt \<open>p\<close> (trimmed) not be blank; let \<open>d\<close> be the draft of the addendum
  without the blanks around it. On the path that skips round 2, whatever the committed
  addendum \<open>c\<close> is, the addendum of the summary is \<open>d\<close>, or null when \<open>d\<close> is
  empty, and the request sent is the summary of round 1 with the section of \<open>d\<close>, or
  with no such section when \<open>d\<close> is empty. On the path of two rounds, starting round
  2 commits that same value as the snapshot and hands it to the round; every prompt of
  round 2 carries the section of the snapshot; the three replies give the requests and
  the results of \<open>runDebateRound\<close> called with the snapshot; the summary of the two
  rounds that follows is the request built from both rounds with the section of the
  snapshot; and for every sequence of edits of the draft, replies and two-round
  summaries after the start, the session is the one reached without the edits, the
  draft apart, and the committed addendum and the addendum of the two-round summary
  are still the snapshot.
\<close>

theorem addendum_snapshot:
  assumes "hasRoundCompleted (round1Results (live s))"
    and "summarizerModel (live s) \<noteq> []"
    and "p = trim (finalPrompt (live s))"
    and "p \<noteq> []"
    and "d = trim (round2AddendumDraft (live s))"
    and "s1 = step b ClickRunRound2 s"
  shows "(\<forall>c. summary_addendum False ((live s)\<lparr>round2AddendumCommitted := c\<rparr>) =
                (if d = [] then None else Some d)
             \<and> sent (step b ClickSkipRound2 (s\<lparr>live := (live s)\<lparr>round2AddendumCommitted := c\<rparr>\<rparr>)) =
                 sent s @ [summary_request (live s)
                             (lit_summary_question @ p @ [10, 10]
                              @ (if d = [] then [] else lit_summary_addendum_head @ d @ [10, 10])
                              @ lit_summary_request
                              @ buildSummaryBlock lit_round1_results (round1Results (live s))
                              @ lit_summary_rules)])
       \<and> (\<not> isRunningDebate (live s) \<and> in_flight s = None \<longrightarrow>
            round2AddendumCommitted (live s1) = (if d = [] then None else Some d)
            \<and> map_option fl_addendum (in_flight s1) = Some (if d = [] then None else Some d)
            \<and> (\<forall>r cur.
                  tq_prompt (turn_request b (live s) Round2 p (if d = [] then None else Some d)
                               (round1Results (live s)) cur r) =
                    (let ctx = buildDebateContext r Round2 (round1Results (live s)) cur
                     in p @ lit_now_round @ decimal (round_number Round2)
                        @ (if d = [] \<and> ctx = [] then lit_plain_tail
                           else lit_chained_mid
                                @ (if d = [] then [] else lit_addendum_head @ d @ [10])
                                @ (if ctx = [] then [] else lit_context_head @ ctx @ [10])
                                @ lit_chained_tail)))
            \<and> sent (run b [DebaterReplies, DebaterReplies, DebaterReplies] s1) =
                sent s @ round_requests b (live s) Round2 p (if d = [] then None else Some d)
                           (round1Results (live s)) DEBATER_ROLES Map.empty
            \<and> round2Results (live (run b [DebaterReplies, DebaterReplies, DebaterReplies] s1)) =
                runDebateRound b (live s) Round2 p (if d = [] then None else Some d)
            \<and> sent (run b [DebaterReplies, DebaterReplies, DebaterReplies, ClickGenerateSummary True] s1) =
                sent (run b [DebaterReplies, DebaterReplies, DebaterReplies] s1)
                @ [summary_request (live s)
                     (lit_summary_question @ p @ [10, 10]
                      @ (if d = [] then [] else lit_summary_addendum_head @ d @ [10, 10])
                      @ lit_summary_request
                      @ buildSummaryBlock lit_round1_results (round1Results (live s))
                      @ [10, 10]
                      @ buildSummaryBlock lit_round2_results
                          (runDebateRound b (live s) Round2 p (if d = [] then None else Some d))
                      @ lit_summary_rules)]
            \<and> (list_all after_round2_start evs \<longrightarrow>
                  run b evs s1 =
                    set_draft (round2AddendumDraft (live (run b evs s1)))
                      (run b (filter (\<lambda>e. \<not> is_edit e) evs) s1)
                  \<and> round2AddendumCommitted (live (run b evs s1)) = (if d = [] then None else Some d)
                  \<and> summary_addendum True (live (run b evs s1)) = (if d = [] then None else Some d)))"
proof (intro conjI impI allI)
  note prompt = assms(4) [unfolded assms(3)]
  fix c
  show "summary_addendum False ((live s)\<lparr>round2AddendumCommitted := c\<rparr>) =
          (if d = [] then None else Some d)"
    by (simp add: summary_addendum_def normalizeOptionalText_Some assms(5))
  show "sent (step b ClickSkipRound2 (s\<lparr>live := (live s)\<lparr>round2AddendumCommitted := c\<rparr>\<rparr>)) =
          sent s @ [summary_request (live s)
                      (lit_summary_question @ p @ [10, 10]
                       @ (if d = [] then [] else lit_summary_addendum_head @ d @ [10, 10])
                       @ lit_summary_request
                       @ buildSummaryBlock lit_round1_results (round1Results (live s))
                       @ lit_summary_rules)]"
    unfolding assms(3,5) by (rule skip_sends [OF assms(1) prompt assms(2)])
next
  note prompt = assms(4) [unfolded assms(3)]
  let ?snap = "if d = [] then None else Some d"
  let ?three = "[DebaterReplies, DebaterReplies, DebaterReplies]"
  assume h: "\<not> isRunningDebate (live s) \<and> in_flight s = None"
  then have idle: "\<not> isRunningDebate (live s)" "in_flight s = None"
    by simp_all
  note start = start_round2 [OF assms(1) prompt idle, of b, unfolded normalizeOptionalText_Some,
      folded assms(3,5,6)]
  note three = three_replies [OF start(1), of b]
  have n: "normalizeOptionalText ?snap = ?snap"
    unfolding assms(5) by (rule normalizeOptionalText_trimmed)
  show commit: "round2AddendumCommitted (live s1) = ?snap"
    by (rule start(2))
  show "map_option fl_addendum (in_flight s1) = Some ?snap"
    by (simp add: start(1))
  show "tq_prompt (turn_request b (live s) Round2 p ?snap (round1Results (live s)) cur r) =
          (let ctx = buildDebateContext r Round2 (round1Results (live s)) cur
           in p @ lit_now_round @ decimal (round_number Round2)
              @ (if d = [] \<and> ctx = [] then lit_plain_tail
                 else lit_chained_mid
                      @ (if d = [] then [] else lit_addendum_head @ d @ [10])
                      @ (if ctx = [] then [] else lit_context_head @ ctx @ [10])
                      @ lit_chained_tail))" for r cur
    by (simp only: turn_request_def single_request_def test_request.simps buildPromptForRole_text [OF n])
  show "sent (run b ?three s1) =
          sent s @ round_requests b (live s) Round2 p ?snap (round1Results (live s)) DEBATER_ROLES Map.empty"
    by (simp only: three(2) start(3))
  show "round2Results (live (run b ?three s1)) = runDebateRound b (live s) Round2 p ?snap"
    by (rule three(1))
  show "sent (run b [DebaterReplies, DebaterReplies, DebaterReplies, ClickGenerateSummary True] s1) =
          sent (run b ?three s1)
          @ [summary_request (live s)
               (lit_summary_question @ p @ [10, 10]
                @ (if d = [] then [] else lit_summary_addendum_head @ d @ [10, 10])
                @ lit_summary_request
                @ buildSummaryBlock lit_round1_results (round1Results (live s))
                @ [10, 10]
                @ buildSummaryBlock lit_round2_results (runDebateRound b (live s) Round2 p ?snap)
                @ lit_summary_rules)]"
    unfolding assms(3,5,6)
    by (rule two_round_summary_sends [OF assms(1) prompt assms(2) idle])
  {
    assume evs: "list_all after_round2_start evs"
    from run_ignores_edits [OF evs, of b "round2AddendumDraft (live s1)" s1]
    obtain d' where d': "run b evs s1 = set_draft d' (run b (filter (\<lambda>e. \<not> is_edit e) evs) s1)"
      by (auto simp: set_draft_same)
    then have "round2AddendumDraft (live (run b evs s1)) = d'"
      by (simp add: set_draft_def)
    with d' show "run b evs s1 =
        set_draft (round2AddendumDraft (live (run b evs s1))) (run b (filter (\<lambda>e. \<not> is_edit e) evs) s1)"
      by simp
    show kept: "round2AddendumCommitted (live (run b evs s1)) = ?snap"
      using run_keeps_commit [OF evs, of b s1] commit by simp
    show "summary_addendum True (live (run b evs s1)) = ?snap"
      by (simp add: summary_addendum_def kept)
  }
qed

text \<open>
  A session with the draft " more context " and an older committed addendum. Skipping
  round 2 sends the summary of round 1 with the section "more context". On the path of
  two rounds the snapshot is "more context"; the requests are the three of round 2 and
  the summary of both rounds with that section; and two edits between the replies
  change neither the requests nor the committed addendum.
\<close>

theorem addendum_snapshot_witness:
  "sent (step failing_browser ClickSkipRound2 finished_round1) =
     [summary_request (live finished_round1)
        (lit_summary_question @ asc ''question'' @ [10, 10]
         @ lit_summary_addendum_head @ asc ''more context'' @ [10, 10]
         @ lit_summary_request
         @ buildSummaryBlock lit_round1_results (round1Results (live finished_round1))
         @ lit_summary_rules)]
   \<and> round2AddendumCommitted (live (step failing_browser ClickRunRound2 finished_round1)) =
       Some (asc ''more context'')
   \<and> sent (run failing_browser [DebaterReplies, DebaterReplies, DebaterReplies, ClickGenerateSummary True]
             (step failing_browser ClickRunRound2 finished_round1)) =
       round_requests failing_browser (live finished_round1) Round2 (asc ''question'')
         (Some (asc ''more context'')) (round1Results (live finished_round1)) DEBATER_ROLES Map.empty
       @ [summary_request (live finished_round1)
            (lit_summary_question @ asc ''question'' @ [10, 10]
             @ lit_summary_addendum_head @ asc ''more context'' @ [10, 10]
             @ lit_summary_request
             @ buildSummaryBlock lit_round1_results (round1Results (live finished_round1))
             @ [10, 10]
             @ buildSummaryBlock lit_round2_results
                 (runDebateRound failing_browser (live finished_round1) Round2 (asc ''question'')
                    (Some (asc ''more context'')))
             @ lit_summary_rules)]
   \<and> sent (run failing_browser
              [EditDraft (asc ''changed''), DebaterReplies, EditDraft (asc ''again''), DebaterReplies,
               DebaterReplies, ClickGenerateSummary True]
              (step failing_browser ClickRunRound2 finished_round1)) =
       sent (run failing_browser [DebaterReplies, DebaterReplies, DebaterReplies, ClickGenerateSummary True]
               (step failing_browser ClickRunRound2 finished_round1))
   \<and> round2AddendumCommitted
       (live (run failing_browser
                [EditDraft (asc ''changed''), DebaterReplies, EditDraft (asc ''again''), DebaterReplies,
                 DebaterReplies, ClickGenerateSummary True]
                (step failing_browser ClickRunRound2 finished_round1))) =
       Some (asc ''more context'')"
proof -
  let ?evs = "[EditDraft (asc ''changed''), DebaterReplies, EditDraft (asc ''again''), DebaterReplies,
                 DebaterReplies, ClickGenerateSummary True]"
  let ?s1 = "step failing_browser ClickRunRound2 finished_round1"
  have p: "asc ''question'' = trim (finalPrompt (live finished_round1))"
    by (simp only: finished_round1_prompt)
  have pn: "asc ''question'' \<noteq> []"
    by (simp add: asc_def)
  have d: "asc ''more context'' = trim (round2AddendumDraft (live finished_round1))"
    by (simp only: finished_round1_draft trim_more_context)
  have ne: "(asc ''more context'' = []) = False"
    by (simp add: asc_def)
  note main = addendum_snapshot [OF finished_round1_complete finished_round1_summarizer p pn d refl,
      of failing_browser ?evs, unfolded ne if_False]
  have unsent: "sent finished_round1 = []"
    by (simp add: finished_round1_def)
  from main [THEN conjunct1, THEN spec, of "Some (asc ''old'')", THEN conjunct2]
  have a: "sent (step failing_browser ClickSkipRound2 finished_round1) =
     [summary_request (live finished_round1)
        (lit_summary_question @ asc ''question'' @ [10, 10]
         @ lit_summary_addendum_head @ asc ''more context'' @ [10, 10]
         @ lit_summary_request
         @ buildSummaryBlock lit_round1_results (round1Results (live finished_round1))
         @ lit_summary_rules)]"
    unfolding finished_round1_committed by (simp only: unsent append_Nil append_assoc)
  have idle: "\<not> isRunningDebate (live finished_round1) \<and> in_flight finished_round1 = None"
    by (simp add: finished_round1_def fresh_page_def)
  note two = main [THEN conjunct2, THEN mp, OF idle]
  from two have b: "round2AddendumCommitted (live ?s1) = Some (asc ''more context'')"
    by (rule conjunct1)
  note rest = two [THEN conjunct2, THEN conjunct2, THEN conjunct2]
  from rest have three: "sent (run failing_browser [DebaterReplies, DebaterReplies, DebaterReplies] ?s1) =
      sent finished_round1
      @ round_requests failing_browser (live finished_round1) Round2 (asc ''question'')
          (Some (asc ''more context'')) (round1Results (live finished_round1)) DEBATER_ROLES Map.empty"
    by (rule conjunct1)
  note rest2 = rest [THEN conjunct2, THEN conjunct2]
  from rest2 [THEN conjunct1] have "sent (run failing_browser
        [DebaterReplies, DebaterReplies, DebaterReplies, ClickGenerateSummary True] ?s1) =
      sent (run failing_browser [DebaterReplies, DebaterReplies, DebaterReplies] ?s1)
       @ [summary_request (live finished_round1)
            (lit_summary_question @ asc ''question'' @ [10, 10]
             @ lit_summary_addendum_head @ asc ''more context'' @ [10, 10]
             @ lit_summary_request
             @ buildSummaryBlock lit_round1_results (round1Results (live finished_round1))
             @ [10, 10]
             @ buildSummaryBlock lit_round2_results
                 (runDebateRound failing_browser (live finished_round1) Round2 (asc ''question'')
                    (Some (asc ''more context'')))
             @ lit_summary_rules)]"
    by (simp only: append_assoc)
  then have c: "sent (run failing_browser
        [DebaterReplies, DebaterReplies, DebaterReplies, ClickGenerateSummary True] ?s1) =
       round_requests failing_browser (live finished_round1) Round2 (asc ''question'')
         (Some (asc ''more context'')) (round1Results (live finished_round1)) DEBATER_ROLES Map.empty
       @ [summary_request (live finished_round1)
            (lit_summary_question @ asc ''question'' @ [10, 10]
             @ lit_summary_addendum_head @ asc ''more context'' @ [10, 10]
             @ lit_summary_request
             @ buildSummaryBlock lit_round1_results (round1Results (live finished_round1))
             @ [10, 10]
             @ buildSummaryBlock lit_round2_results
                 (runDebateRound failing_browser (live finished_round1) Round2 (asc ''question'')
                    (Some (asc ''more context'')))
             @ lit_summary_rules)]"
    by (simp only: three unsent append_Nil append_assoc)
  have evs: "list_all after_round2_start ?evs"
    by simp
  have kept: "filter (\<lambda>e. \<not> is_edit e) ?evs =
      [DebaterReplies, DebaterReplies, DebaterReplies, ClickGenerateSummary True]"
    by simp
  note edits = rest2 [THEN conjunct2, THEN mp, OF evs, unfolded kept]
  from edits have "run failing_browser ?evs ?s1 =
      set_draft (round2AddendumDraft (live (run failing_browser ?evs ?s1)))
        (run failing_browser [DebaterReplies, DebaterReplies, DebaterReplies, ClickGenerateSummary True] ?s1)"
    by (rule conjunct1)
  then have "sent (run failing_browser ?evs ?s1) =
      sent (set_draft (round2AddendumDraft (live (run failing_browser ?evs ?s1)))
        (run failing_browser [DebaterReplies, DebaterReplies, DebaterReplies, ClickGenerateSummary True] ?s1))"
    by (rule arg_cong)
  then have e: "sent (run failing_browser ?evs ?s1) =
      sent (run failing_browser [DebaterReplies, DebaterReplies, DebaterReplies, ClickGenerateSummary True] ?s1)"
    by (simp only: sent_set_draft)
  from edits have f: "round2AddendumCommitted (live (run failing_browser ?evs ?s1)) =
      Some (asc ''more context'')"
    by (rule conjunct2 [THEN conjunct1])
  from a b c e f show ?thesis by blast
qed

end
